theory Spec2Isabelle
  imports Complex_Main "HOL-Library.AList"
begin

section \<open>JavaScript values\<close>

text \<open>
  A JavaScript number is a finite value, one of the two infinities, or NaN. Finite
  doubles are embedded in the reals: the connector code only compares numbers with the
  constants 1.0 and 0 and passes them through, and both are exact on every double.
\<close>

datatype jsnum = Fin real | PosInf | NegInf | NaN

datatype jsval =
    JUndefined
  | JNull
  | JBool bool
  | JNum jsnum
  | JStr string
  | JArr "jsval list"
  | JObj "(string \<times> jsval) list"

text \<open>The relational operators \<open><=\<close> and \<open>>=\<close> on numbers: every comparison with NaN is false.\<close>

fun num_le :: "jsnum \<Rightarrow> jsnum \<Rightarrow> bool" where
  "num_le NaN b = False"
| "num_le a NaN = False"
| "num_le NegInf b = True"
| "num_le a PosInf = True"
| "num_le (Fin a) (Fin b) = (a \<le> b)"
| "num_le a b = False"

definition num_ge :: "jsnum \<Rightarrow> jsnum \<Rightarrow> bool" where
  "num_ge a b = num_le b a"

section \<open>Milvus: score normalisation\<close>

text \<open>
  \<^verbatim>\<open>
  distanceToScore(distance = null) {
    if (distance === null || typeof distance !== "number") return 0.0;
    if (distance >= 1.0) return 1;
    if (distance <= 0) return 0;
    return distance;
  }
  \<close>
  The default parameter replaces \<open>undefined\<close> by \<open>null\<close>.
\<close>

definition distanceToScore :: "jsval \<Rightarrow> jsnum" where
  "distanceToScore distance0 =
     (let distance = (if distance0 = JUndefined then JNull else distance0) in
      case distance of
        JNum d \<Rightarrow>
          (if num_ge d (Fin 1) then Fin 1
           else if num_le d (Fin 0) then Fin 0
           else d)
      | _ \<Rightarrow> Fin 0)"

text \<open>
  Objects are association lists in insertion order; reading a property that is absent
  gives \<open>undefined\<close>.
\<close>

type_synonym obj = "(string \<times> jsval) list"

definition get_prop :: "obj \<Rightarrow> string \<Rightarrow> jsval" where
  "get_prop ob k = (case map_of ob k of None \<Rightarrow> JUndefined | Some v \<Rightarrow> v)"

fun truthy :: "jsval \<Rightarrow> bool" where
  "truthy JUndefined = False"
| "truthy JNull = False"
| "truthy (JBool b) = b"
| "truthy (JNum (Fin r)) = (r \<noteq> 0)"
| "truthy (JNum NaN) = False"
| "truthy (JNum PosInf) = True"
| "truthy (JNum NegInf) = True"
| "truthy (JStr s) = (s \<noteq> [])"
| "truthy (JArr xs) = True"
| "truthy (JObj ps) = True"

definition js_or :: "jsval \<Rightarrow> jsval \<Rightarrow> jsval" where
  "js_or a b = (if truthy a then a else b)"

text \<open>
  Reading properties of \<open>settings\<close>: \<open>null\<close> and \<open>undefined\<close> raise a TypeError, an
  object gives its properties, and any other value has none of the settings keys.
\<close>

definition settings_obj :: "jsval \<Rightarrow> string + obj" where
  "settings_obj v =
     (case v of
        JUndefined \<Rightarrow> Inl ''TypeError: Cannot read properties of undefined''
      | JNull \<Rightarrow> Inl ''TypeError: Cannot read properties of null''
      | JObj ps \<Rightarrow> Inr ps
      | _ \<Rightarrow> Inr [])"

text \<open>
  The decimal numeral of a natural number, as a template literal prints it and as the
  index of an array element or of a character names its property.
\<close>

function show_nat :: "nat \<Rightarrow> string" where
  "show_nat n =
     (if n < 10 then [char_of (48 + n)]
      else show_nat (n div 10) @ [char_of (48 + n mod 10)])"
  by pat_completeness auto
termination
  by (relation "measure (\<lambda>n. n)") auto

declare show_nat.simps [simp del]

text \<open>
  The own enumerable properties an object spread \<open>{ ...v }\<close> copies: those of an object,
  the indexed elements of an array and the indexed characters of a string; no other
  value has any.
\<close>

definition spread_props :: "jsval \<Rightarrow> obj" where
  "spread_props v =
     (case v of
        JObj ps \<Rightarrow> ps
      | JArr xs \<Rightarrow> zip (map show_nat [0..<length xs]) xs
      | JStr cs \<Rightarrow> zip (map show_nat [0..<length cs]) (map (\<lambda>c. JStr [c]) cs)
      | _ \<Rightarrow> [])"

section \<open>Data model of the connectors\<close>

type_synonym handle = nat
type_synonym embedding = "real list"

text \<open>The persisted connector record and a connector instance built from it.\<close>

record connector =
  conn_type :: string
  conn_settings :: jsval

record connector_instance =
  inst_name :: string
  inst_config :: connector

datatype address = HostOnly jsval | HostPort jsval jsval

record milvusClientConfig =
  mc_address :: address
  mc_username :: "jsval option"
  mc_password :: "jsval option"
  mc_token :: "jsval option"

record splitterConfig =
  chunkSize :: nat
  chunkOverlap :: nat

record dbDocument =
  db_id :: nat
  db_workspace_id :: nat
  db_organization_id :: nat

record vectorRecord =
  vr_id :: string
  vr_values :: embedding
  vr_metadata :: obj

record documentVector =
  dv_docId :: jsval
  dv_vectorId :: string
  dv_documentId :: nat
  dv_workspaceId :: nat
  dv_organizationId :: nat

record cacheEntry =
  ce_vectorDbId :: string
  ce_values :: embedding
  ce_metadata :: obj

record insertRow =
  row_id :: string
  row_vector :: embedding
  row_text :: jsval
  row_metadata :: string

record searchRequest =
  sr_collection_name :: jsval
  sr_vector :: embedding
  sr_limit :: nat

record hit =
  hit_id :: jsval
  hit_text :: jsval
  hit_score :: jsval
  hit_metadata :: jsval

record processResult =
  success :: bool
  message :: "string option"

text \<open>The options the validators build for the Chroma and Weaviate clients.\<close>

record chromaOptions =
  co_path :: jsval
  co_headers :: "(jsval \<times> jsval) option"

record weaviateOptions =
  wo_scheme :: string
  wo_host :: string
  wo_apiKey :: "jsval option"

text \<open>
  The options of the ClickHouse client: the endpoint is the template
  \<open>http://${host}:${port || 8123}\<close>, kept as its two parts, under the option key the
  source uses (\<open>host\<close> in \<open>connect\<close>, \<open>url\<close> in the validator).
\<close>

record clickhouseConfig =
  ch_endpoint_key :: string
  ch_host :: jsval
  ch_port :: jsval
  ch_username :: jsval
  ch_password :: jsval
  ch_database :: jsval

text \<open>
  The statements the ClickHouse connector sends, each a template with the values
  interpolated into it.
\<close>

datatype ch_query =
    QSumRows jsval
  | QTables jsval
  | QTableInfo jsval jsval
  | QColumns jsval jsval
  | QExists jsval jsval
  | QRawGet jsval jsval nat nat
  | QMetadata jsval jsval "jsval list"
  | QDelete jsval jsval "jsval list"
  | QRaw jsval jsval

record namespaceInfo =
  ns_name :: jsval
  ns_count :: jsnum
  ns_metadata :: obj

record rawResult =
  raw_ids :: "jsval list"
  raw_data :: "obj list"
  raw_error :: "string option"

text \<open>
  What \<open>describeCollection\<close> tells of a Milvus collection: the schema with its
  description and fields, a field with its data type and its type parameters (pairs of
  key and value). Any of them may be missing.
\<close>

record field =
  f_data_type :: jsval
  f_type_params :: "(jsval \<times> jsval) list option"

record schema =
  sc_description :: jsval
  sc_fields :: "field list option"

record milvusNamespace =
  mn_name :: jsval
  mn_count :: jsnum
  mn_schema :: "schema option"
  mn_description :: jsval
  mn_fields :: "field list"

text \<open>
  The query of \<open>rawGet\<close> pages with a limit and an offset; the query of \<open>getMetadata\<close> and
  the deletion filter on a list of ids.
\<close>

datatype milvus_query =
    QueryPage jsval nat nat
  | QueryIds jsval "jsval list"

record similarity =
  vectorIds :: "jsval list"
  contextTexts :: "jsval list"
  sourceDocuments :: "jsval list"
  scores :: "jsnum list"

section \<open>Effects: external calls, exceptions and the history of a run\<close>

text \<open>
  The connectors are sequential asynchronous code whose only effects are calls to
  collaborators: the text splitter, the embedding provider, the backend clients, the
  relational store and the cache store. A \<open>request\<close> names one such call with its
  arguments. A run records, in order, every call it issued and whether the call
  returned (\<open>Done\<close>) or threw (\<open>Failed\<close>, with the message of the error). Console output
  is not part of the model; a thrown value is an Error identified by its message.
\<close>

datatype request =
    NewOpenAi jsval
  | SplitText splitterConfig jsval
  | EmbedTextChunks "string list"
  | UuidV4
  | NewMilvusClient milvusClientConfig
  | MilvusCheckHealth handle
  | MilvusLoadCollection handle jsval
  | MilvusInsert handle jsval "insertRow list"
  | MilvusSearch handle searchRequest
  | MilvusHasCollection handle jsval
  | MilvusListCollections handle
  | MilvusGetCollectionStatistics handle jsval
  | MilvusDescribeCollection handle jsval
  | MilvusQuery handle milvus_query
  | MilvusDelete handle milvus_query
  | CreateManyDocumentVectors "documentVector list"
  | StoreVectorResult "cacheEntry list" jsval
  | ChromaNewClient chromaOptions
  | ChromaHeartbeat handle
  | PineconeNewClient
  | PineconeInit handle jsval jsval
  | PineconeDescribeIndex handle jsval
  | QdrantNewClient jsval "jsval option"
  | QdrantClusterStatus handle
  | WeaviateNewClient weaviateOptions
  | WeaviateLiveChecker handle
  | OrganizationConnectionCreate jsval jsval jsval
  | CHCreateClient clickhouseConfig
  | CHPing handle
  | CHQuery handle ch_query
  | CHCommand handle ch_query
  | CHJson nat
  | CHClose handle

datatype event = Done request | Failed request string

type_synonym history = "event list"

text \<open>
  A computation takes the history so far and gives either the thrown error or the
  returned value, together with the extended history.
\<close>

type_synonym 'a io = "history \<Rightarrow> (string + 'a) \<times> history"

definition io_return :: "'a \<Rightarrow> 'a io" where
  "io_return x h = (Inr x, h)"

definition io_throw :: "string \<Rightarrow> 'a io" where
  "io_throw e h = (Inl e, h)"

definition io_bind :: "'a io \<Rightarrow> ('a \<Rightarrow> 'b io) \<Rightarrow> 'b io" where
  "io_bind m f h = (case m h of (Inl e, h') \<Rightarrow> (Inl e, h') | (Inr x, h') \<Rightarrow> f x h')"

text \<open>\<open>try { body } catch (e) { handler }\<close>\<close>

definition io_try :: "'a io \<Rightarrow> (string \<Rightarrow> 'a io) \<Rightarrow> 'a io" where
  "io_try body handler h =
     (case body h of (Inl e, h') \<Rightarrow> handler e h' | (Inr x, h') \<Rightarrow> (Inr x, h'))"

text \<open>
  An external call: what the collaborator answers is decided by an oracle that sees the
  whole history up to the call, so that a collaborator with state of its own (a backend,
  a generator of fresh ids) is covered. The call is recorded with its outcome.
\<close>

definition io_call :: "request \<Rightarrow> (history \<Rightarrow> string + 'a) \<Rightarrow> 'a io" where
  "io_call rq oracle h =
     (case oracle h of
        Inl e \<Rightarrow> (Inl e, h @ [Failed rq e])
      | Inr x \<Rightarrow> (Inr x, h @ [Done rq]))"

text \<open>The events a run from history \<open>h\<close> added.\<close>

definition new_events :: "history \<Rightarrow> 'a io \<Rightarrow> event list" where
  "new_events h m = drop (length h) (snd (m h))"

definition outcome :: "history \<Rightarrow> 'a io \<Rightarrow> string + 'a" where
  "outcome h m = fst (m h)"

subsection \<open>The collaborators\<close>

text \<open>
  The Milvus SDK client (\<open>@zilliz/milvus2-sdk-node\<close>). \<open>listCollections\<close> gives the
  \<open>collection_names\<close>, \<open>getCollectionStatistics\<close> the \<open>data?.row_count\<close>,
  \<open>describeCollection\<close> the \<open>schema\<close>, \<open>query\<close> the \<open>data\<close>.
\<close>

record milvus_backend =
  mb_newClient :: "history \<Rightarrow> milvusClientConfig \<Rightarrow> string + handle"
  mb_checkHealth :: "history \<Rightarrow> handle \<Rightarrow> string + bool"
  mb_loadCollection :: "history \<Rightarrow> handle \<Rightarrow> jsval \<Rightarrow> string + unit"
  mb_insert :: "history \<Rightarrow> handle \<Rightarrow> jsval \<Rightarrow> insertRow list \<Rightarrow> string + unit"
  mb_search :: "history \<Rightarrow> handle \<Rightarrow> searchRequest \<Rightarrow> string + hit list option"
  mb_hasCollection :: "history \<Rightarrow> handle \<Rightarrow> jsval \<Rightarrow> string + jsval"
  mb_listCollections :: "history \<Rightarrow> handle \<Rightarrow> string + jsval list option"
  mb_getCollectionStatistics :: "history \<Rightarrow> handle \<Rightarrow> jsval \<Rightarrow> string + jsval"
  mb_describeCollection :: "history \<Rightarrow> handle \<Rightarrow> jsval \<Rightarrow> string + schema option"
  mb_query :: "history \<Rightarrow> handle \<Rightarrow> milvus_query \<Rightarrow> string + obj list option"
  mb_delete :: "history \<Rightarrow> handle \<Rightarrow> milvus_query \<Rightarrow> string + unit"

text \<open>
  The ClickHouse client (\<open>@clickhouse/client\<close>): \<open>query\<close> gives a result set, whose
  \<open>json()\<close> gives the rows.
\<close>

record clickhouse_backend =
  cb_createClient :: "history \<Rightarrow> clickhouseConfig \<Rightarrow> string + handle"
  cb_ping :: "history \<Rightarrow> handle \<Rightarrow> string + bool"
  cb_query :: "history \<Rightarrow> handle \<Rightarrow> ch_query \<Rightarrow> string + nat"
  cb_command :: "history \<Rightarrow> handle \<Rightarrow> ch_query \<Rightarrow> string + unit"
  cb_json :: "history \<Rightarrow> nat \<Rightarrow> string + obj list"
  cb_close :: "history \<Rightarrow> handle \<Rightarrow> string + unit"

text \<open>
  The clients the validators probe with (\<open>chromadb\<close>, \<open>@pinecone-database/pinecone\<close>,
  \<open>@qdrant/js-client-rest\<close>, \<open>weaviate-ts-client\<close>), the built-in \<open>URL\<close> parser, which
  gives the protocol and the host, and \<open>OrganizationConnection.create\<close>.
\<close>

record validator_env =
  ve_chromaNew :: "history \<Rightarrow> chromaOptions \<Rightarrow> string + handle"
  ve_chromaHeartbeat :: "history \<Rightarrow> handle \<Rightarrow> string + unit"
  ve_pineconeNew :: "history \<Rightarrow> string + handle"
  ve_pineconeInit :: "history \<Rightarrow> handle \<Rightarrow> jsval \<Rightarrow> jsval \<Rightarrow> string + unit"
  ve_pineconeDescribeIndex :: "history \<Rightarrow> handle \<Rightarrow> jsval \<Rightarrow> string + bool"
  ve_qdrantNew :: "history \<Rightarrow> jsval \<Rightarrow> jsval option \<Rightarrow> string + handle"
  ve_qdrantClusterStatus :: "history \<Rightarrow> handle \<Rightarrow> string + bool"
  ve_parseUrl :: "jsval \<Rightarrow> string + string \<times> string"
  ve_weaviateNew :: "history \<Rightarrow> weaviateOptions \<Rightarrow> string + handle"
  ve_weaviateLive :: "history \<Rightarrow> handle \<Rightarrow> string + bool"
  ve_createConnection :: "history \<Rightarrow> jsval \<Rightarrow> jsval \<Rightarrow> jsval \<Rightarrow> string + jsval"

text \<open>
  The collaborators of the ingestion pipeline: the langchain text splitter, the OpenAi
  embedder, \<open>uuid.v4\<close>, \<open>DocumentVectors.createMany\<close>, \<open>storeVectorResult\<close>,
  \<open>WorkspaceDocument.vectorFilename\<close> and the built-in \<open>JSON.stringify\<close>.
\<close>

record ingest_env =
  ie_newOpenAi :: "history \<Rightarrow> jsval \<Rightarrow> string + unit"
  ie_splitText :: "history \<Rightarrow> splitterConfig \<Rightarrow> jsval \<Rightarrow> string + string list"
  ie_embedTextChunks :: "history \<Rightarrow> string list \<Rightarrow> string + embedding list option"
  ie_v4 :: "history \<Rightarrow> string"
  ie_createMany :: "history \<Rightarrow> documentVector list \<Rightarrow> string + unit"
  ie_storeVectorResult :: "history \<Rightarrow> cacheEntry list \<Rightarrow> jsval \<Rightarrow> string + unit"
  ie_vectorFilename :: "dbDocument \<Rightarrow> jsval"
  ie_stringify :: "obj \<Rightarrow> string"

section \<open>The Milvus connector\<close>

text \<open>
  \<^verbatim>\<open>
  setConfig(config) {
    var { type, settings } = config;
    if (typeof settings === "string") settings = JSON.parse(settings);
    return { type, settings };
  }
  \<close>
  \<open>JSON.parse\<close> is a parameter: it gives the parsed value or the message of its
  SyntaxError.
\<close>

definition setConfig :: "(jsval \<Rightarrow> string + jsval) \<Rightarrow> connector \<Rightarrow> string + connector" where
  "setConfig json_parse config =
     (case conn_settings config of
        JStr s \<Rightarrow>
          (case json_parse (JStr s) of
             Inl e \<Rightarrow> Inl e
           | Inr v \<Rightarrow> Inr \<lparr>conn_type = conn_type config, conn_settings = v\<rparr>)
      | _ \<Rightarrow> Inr \<lparr>conn_type = conn_type config, conn_settings = conn_settings config\<rparr>)"

definition Milvus :: "(jsval \<Rightarrow> string + jsval) \<Rightarrow> connector \<Rightarrow> string + connector_instance" where
  "Milvus json_parse c =
     (case setConfig json_parse c of
        Inl e \<Rightarrow> Inl e
      | Inr cfg \<Rightarrow> Inr \<lparr>inst_name = ''milvus'', inst_config = cfg\<rparr>)"

text \<open>
  \<open>connect\<close>: refuses a config of another type, builds the client configuration from the
  settings, constructs a client and verifies its health.
\<close>

definition milvus_clientConfig :: "obj \<Rightarrow> milvusClientConfig" where
  "milvus_clientConfig settings =
     (let address =
            (if truthy (get_prop settings ''port'')
             then HostPort (get_prop settings ''host'') (get_prop settings ''port'')
             else HostOnly (get_prop settings ''host''));
          c0 = \<lparr>mc_address = address, mc_username = None, mc_password = None, mc_token = None\<rparr>;
          c1 = (if truthy (get_prop settings ''username'') \<and> truthy (get_prop settings ''password'')
                then c0\<lparr>mc_username := Some (get_prop settings ''username''),
                        mc_password := Some (get_prop settings ''password'')\<rparr>
                else c0);
          c2 = (if truthy (get_prop settings ''token'')
                then c1\<lparr>mc_token := Some (get_prop settings ''token'')\<rparr>
                else c1)
      in c2)"

definition milvus_connect :: "milvus_backend \<Rightarrow> connector_instance \<Rightarrow> handle io" where
  "milvus_connect be this =
     (if conn_type (inst_config this) \<noteq> ''milvus''
      then io_throw ''Milvus::Invalid Not a Milvus connector instance.''
      else
        (case settings_obj (conn_settings (inst_config this)) of
           Inl e \<Rightarrow> io_throw e
         | Inr settings \<Rightarrow>
             io_bind (io_call (NewMilvusClient (milvus_clientConfig settings))
                        (\<lambda>h. mb_newClient be h (milvus_clientConfig settings)))
               (\<lambda>client.
                  io_bind (io_call (MilvusCheckHealth client) (\<lambda>h. mb_checkHealth be h client))
                    (\<lambda>isHealthy.
                       if \<not> isHealthy
                       then io_throw ''Milvus::Connection failed - cluster is not healthy''
                       else io_return client))))"

text \<open>
  \<^verbatim>\<open>
  async heartbeat() {
    try {
      const { client } = await this.connect();
      const health = await client.checkHealth();
      return { result: health.isHealthy, error: null };
    } catch (e) {
      return { result: false, error: e.message };
    }
  }
  \<close>
\<close>

definition milvus_heartbeat :: "milvus_backend \<Rightarrow> connector_instance \<Rightarrow> (bool \<times> string option) io" where
  "milvus_heartbeat be this =
     io_try
       (io_bind (milvus_connect be this)
          (\<lambda>client.
             io_bind (io_call (MilvusCheckHealth client) (\<lambda>h. mb_checkHealth be h client))
               (\<lambda>isHealthy. io_return (isHealthy, None))))
       (\<lambda>e. io_return (False, Some e))"

text \<open>
  Sums of row counts. \<open>parseInt\<close> gives integers, NaN included; below \<open>2^53\<close> the sum
  of two of them is exact.
\<close>

fun num_add :: "jsnum \<Rightarrow> jsnum \<Rightarrow> jsnum" where
  "num_add NaN b = NaN"
| "num_add a NaN = NaN"
| "num_add PosInf NegInf = NaN"
| "num_add NegInf PosInf = NaN"
| "num_add PosInf b = PosInf"
| "num_add a PosInf = PosInf"
| "num_add NegInf b = NegInf"
| "num_add a NegInf = NegInf"
| "num_add (Fin a) (Fin b) = Fin (a + b)"

text \<open>
  \<^verbatim>\<open>
  async totalIndicies() {
    try {
      const { client } = await this.connect();
      const { settings } = this.config;
      const dbName = settings.database || "default";
      const collections = await client.listCollections();
      let totalVectors = 0;
      for (const collectionName of collections.collection_names || []) {
        try {
          const stats = await client.getCollectionStatistics({ collection_name: collectionName });
          totalVectors += parseInt(stats.data?.row_count || 0);
        } catch (e) {
          console.error(`Failed to get stats for ${collectionName}:`, e.message);
        }
      }
      return { result: totalVectors, error: null };
    } catch (e) {
      return { result: 0, error: e.message };
    }
  }
  \<close>
  \<open>dbName\<close> is not used.
\<close>

fun sum_row_counts ::
  "milvus_backend \<Rightarrow> (jsval \<Rightarrow> jsnum) \<Rightarrow> handle \<Rightarrow> jsval list \<Rightarrow> jsnum \<Rightarrow> jsnum io" where
  "sum_row_counts be parse_int client [] totalVectors = io_return totalVectors"
| "sum_row_counts be parse_int client (collectionName # rest) totalVectors =
     io_bind
       (io_try
          (io_bind (io_call (MilvusGetCollectionStatistics client collectionName)
                      (\<lambda>h. mb_getCollectionStatistics be h client collectionName))
             (\<lambda>row_count.
                io_return
                  (num_add totalVectors (parse_int (js_or row_count (JNum (Fin 0)))))))
          (\<lambda>e. io_return totalVectors))
       (\<lambda>totalVectors'. sum_row_counts be parse_int client rest totalVectors')"

definition milvus_totalIndicies ::
  "milvus_backend \<Rightarrow> (jsval \<Rightarrow> jsnum) \<Rightarrow> connector_instance \<Rightarrow> (jsnum \<times> string option) io" where
  "milvus_totalIndicies be parse_int this =
     io_try
       (io_bind (milvus_connect be this)
          (\<lambda>client.
             io_bind (io_call (MilvusListCollections client)
                        (\<lambda>h. mb_listCollections be h client))
               (\<lambda>collection_names.
                  io_bind (sum_row_counts be parse_int client
                             (case collection_names of None \<Rightarrow> [] | Some names \<Rightarrow> names)
                             (Fin 0))
                    (\<lambda>totalVectors. io_return (totalVectors, None)))))
       (\<lambda>e. io_return (Fin 0, Some e))"

text \<open>
  \<^verbatim>\<open>
  async indexDimensions(namespace) {
    try {
      const { client } = await this.connect();
      const info = await client.describeCollection({ collection_name: namespace });
      for (const field of info.schema?.fields || []) {
        if (field.data_type === "FloatVector" || field.data_type === 101) {
          const dimParam = field.type_params?.find((p) => p.key === "dim");
          if (dimParam) return parseInt(dimParam.value);
        }
      }
      return 1536;
    } catch (e) {
      return 1536;
    }
  }
  \<close>
\<close>

definition schema_fields :: "schema option \<Rightarrow> field list option" where
  "schema_fields info = (case info of None \<Rightarrow> None | Some sc \<Rightarrow> sc_fields sc)"

definition schema_description :: "schema option \<Rightarrow> jsval" where
  "schema_description info = (case info of None \<Rightarrow> JUndefined | Some sc \<Rightarrow> sc_description sc)"

fun find_dimension :: "(jsval \<Rightarrow> jsnum) \<Rightarrow> field list \<Rightarrow> jsnum" where
  "find_dimension parse_int [] = Fin 1536"
| "find_dimension parse_int (field # rest) =
     (if f_data_type field = JStr ''FloatVector'' \<or> f_data_type field = JNum (Fin 101)
      then
        (case find (\<lambda>(k, v). k = JStr ''dim'')
                (case f_type_params field of None \<Rightarrow> [] | Some ps \<Rightarrow> ps) of
           Some (k, v) \<Rightarrow> parse_int v
         | None \<Rightarrow> find_dimension parse_int rest)
      else find_dimension parse_int rest)"

definition milvus_indexDimensions ::
  "milvus_backend \<Rightarrow> (jsval \<Rightarrow> jsnum) \<Rightarrow> connector_instance \<Rightarrow> jsval \<Rightarrow> jsnum io" where
  "milvus_indexDimensions be parse_int this namespace =
     io_try
       (io_bind (milvus_connect be this)
          (\<lambda>client.
             io_bind (io_call (MilvusDescribeCollection client namespace)
                        (\<lambda>h. mb_describeCollection be h client namespace))
               (\<lambda>info.
                  io_return
                    (find_dimension parse_int
                       (case schema_fields info of None \<Rightarrow> [] | Some fs \<Rightarrow> fs)))))
       (\<lambda>e. io_return (Fin 1536))"

text \<open>
  \<^verbatim>\<open>
  async namespaces() {
    try {
      const { client } = await this.connect();
      const result = await client.listCollections();
      const collections = [];
      for (const name of result.collection_names || []) {
        try {
          const stats = await client.getCollectionStatistics({ collection_name: name });
          const info = await client.describeCollection({ collection_name: name });
          collections.push({
            name,
            count: parseInt(stats.data?.row_count || 0),
            metadata: {
              description: info.schema?.description || "",
              fields: info.schema?.fields?.length || 0,
            },
          });
        } catch (e) {
          collections.push({ name, count: 0, metadata: {} });
        }
      }
      return collections;
    } catch (e) {
      return [];
    }
  }
  \<close>
  \<open>collections()\<close> is \<open>namespaces()\<close>.
\<close>

definition field_count :: "schema option \<Rightarrow> jsval" where
  "field_count info =
     (case schema_fields info of
        None \<Rightarrow> JNum (Fin 0)
      | Some fs \<Rightarrow> js_or (JNum (Fin (real (length fs)))) (JNum (Fin 0)))"

fun collect_namespaces ::
  "milvus_backend \<Rightarrow> (jsval \<Rightarrow> jsnum) \<Rightarrow> handle \<Rightarrow> jsval list \<Rightarrow> namespaceInfo list
     \<Rightarrow> namespaceInfo list io" where
  "collect_namespaces be parse_int client [] collections = io_return collections"
| "collect_namespaces be parse_int client (name # rest) collections =
     io_bind
       (io_try
          (io_bind (io_call (MilvusGetCollectionStatistics client name)
                      (\<lambda>h. mb_getCollectionStatistics be h client name))
             (\<lambda>row_count.
                io_bind (io_call (MilvusDescribeCollection client name)
                           (\<lambda>h. mb_describeCollection be h client name))
                  (\<lambda>info.
                     io_return
                       (collections @
                          [\<lparr>ns_name = name,
                            ns_count = parse_int (js_or row_count (JNum (Fin 0))),
                            ns_metadata =
                              [(''description'', js_or (schema_description info) (JStr [])),
                               (''fields'', field_count info)]\<rparr>]))))
          (\<lambda>e. io_return
                  (collections @ [\<lparr>ns_name = name, ns_count = Fin 0, ns_metadata = []\<rparr>])))
       (\<lambda>collections'. collect_namespaces be parse_int client rest collections')"

definition milvus_namespaces ::
  "milvus_backend \<Rightarrow> (jsval \<Rightarrow> jsnum) \<Rightarrow> connector_instance \<Rightarrow> namespaceInfo list io" where
  "milvus_namespaces be parse_int this =
     io_try
       (io_bind (milvus_connect be this)
          (\<lambda>client.
             io_bind (io_call (MilvusListCollections client)
                        (\<lambda>h. mb_listCollections be h client))
               (\<lambda>collection_names.
                  collect_namespaces be parse_int client
                    (case collection_names of None \<Rightarrow> [] | Some names \<Rightarrow> names) [])))
       (\<lambda>e. io_return [])"

definition milvus_collections ::
  "milvus_backend \<Rightarrow> (jsval \<Rightarrow> jsnum) \<Rightarrow> connector_instance \<Rightarrow> namespaceInfo list io" where
  "milvus_collections be parse_int this = milvus_namespaces be parse_int this"

text \<open>
  \<^verbatim>\<open>
  async namespace(name = null) {
    if (!name) throw new Error("No namespace value provided.");
    try {
      const { client } = await this.connect();
      const info = await client.describeCollection({ collection_name: name });
      const stats = await client.getCollectionStatistics({ collection_name: name });
      return {
        name,
        count: parseInt(stats.data?.row_count || 0),
        schema: info.schema,
        metadata: {
          description: info.schema?.description || "",
          fields: info.schema?.fields || [],
        },
      };
    } catch (e) {
      return null;
    }
  }
  \<close>
\<close>

definition milvus_namespace ::
  "milvus_backend \<Rightarrow> (jsval \<Rightarrow> jsnum) \<Rightarrow> connector_instance \<Rightarrow> jsval
     \<Rightarrow> milvusNamespace option io" where
  "milvus_namespace be parse_int this name0 =
     (let name = (if name0 = JUndefined then JNull else name0) in
      if \<not> truthy name then io_throw ''No namespace value provided.''
      else
        io_try
          (io_bind (milvus_connect be this)
             (\<lambda>client.
                io_bind (io_call (MilvusDescribeCollection client name)
                           (\<lambda>h. mb_describeCollection be h client name))
                  (\<lambda>info.
                     io_bind (io_call (MilvusGetCollectionStatistics client name)
                                (\<lambda>h. mb_getCollectionStatistics be h client name))
                       (\<lambda>row_count.
                          io_return
                            (Some
                               \<lparr>mn_name = name,
                                mn_count = parse_int (js_or row_count (JNum (Fin 0))),
                                mn_schema = info,
                                mn_description = js_or (schema_description info) (JStr []),
                                mn_fields =
                                  (case schema_fields info of None \<Rightarrow> [] | Some fs \<Rightarrow> fs)\<rparr>)))))
          (\<lambda>e. io_return None))"

text \<open>
  \<^verbatim>\<open>
  async namespaceExists(_client, name = null) {
    if (!name) throw new Error("No namespace value provided.");
    try {
      const { client } = await this.connect();
      const result = await client.hasCollection({ collection_name: name });
      return result.value;
    } catch (e) {
      return false;
    }
  }
  \<close>
\<close>

definition milvus_namespaceExists ::
  "milvus_backend \<Rightarrow> connector_instance \<Rightarrow> jsval \<Rightarrow> jsval \<Rightarrow> jsval io" where
  "milvus_namespaceExists be this unused_client name0 =
     (let name = (if name0 = JUndefined then JNull else name0) in
      if \<not> truthy name then io_throw ''No namespace value provided.''
      else
        io_try
          (io_bind (milvus_connect be this)
             (\<lambda>client.
                io_bind (io_call (MilvusHasCollection client name)
                           (\<lambda>h. mb_hasCollection be h client name))
                  (\<lambda>value. io_return value)))
          (\<lambda>e. io_return (JBool False)))"

text \<open>
  \<^verbatim>\<open>
  async rawGet(collectionName, pageSize = 10, offset = 0) {
    try {
      const { client } = await this.connect();
      await client.loadCollection({ collection_name: collectionName });
      const result = await client.query({
        collection_name: collectionName, output_fields: ["*"], limit: pageSize, offset: offset,
      });
      return {
        ids: result.data?.map((r) => r.id || r._id) || [],
        data: result.data || [],
        error: null,
      };
    } catch (e) {
      return { ids: [], data: [], error: e.message };
    }
  }
  \<close>
\<close>

definition milvus_rawGet ::
  "milvus_backend \<Rightarrow> connector_instance \<Rightarrow> jsval \<Rightarrow> nat option \<Rightarrow> nat option
     \<Rightarrow> rawResult io" where
  "milvus_rawGet be this collectionName pageSize0 offset0 =
     (let pageSize = (case pageSize0 of None \<Rightarrow> 10 | Some n \<Rightarrow> n);
          offset = (case offset0 of None \<Rightarrow> 0 | Some n \<Rightarrow> n)
      in
        io_try
          (io_bind (milvus_connect be this)
             (\<lambda>client.
                io_bind (io_call (MilvusLoadCollection client collectionName)
                           (\<lambda>h. mb_loadCollection be h client collectionName))
                  (\<lambda>u.
                     io_bind (io_call (MilvusQuery client
                                         (QueryPage collectionName pageSize offset))
                                (\<lambda>h. mb_query be h client
                                        (QueryPage collectionName pageSize offset)))
                       (\<lambda>data.
                          io_return
                            \<lparr>raw_ids =
                               (case data of
                                  None \<Rightarrow> []
                                | Some rows \<Rightarrow>
                                    map (\<lambda>r. js_or (get_prop r ''id'') (get_prop r ''_id'')) rows),
                             raw_data = (case data of None \<Rightarrow> [] | Some rows \<Rightarrow> rows),
                             raw_error = None\<rparr>))))
          (\<lambda>e. io_return \<lparr>raw_ids = [], raw_data = [], raw_error = Some e\<rparr>))"

text \<open>
  \<open>similarityResponse\<close>. The loop over the hits pushes one entry on each of the four
  arrays; a metadata blob that \<open>JSON.parse\<close> rejects degrades to \<open>{text: hit.text}\<close>.
  \<^verbatim>\<open>
  for (const hit of result.results || []) {
    response.vectorIds.push(hit.id);
    response.contextTexts.push(hit.text || "");
    response.scores.push(this.distanceToScore(hit.score));
    let metadata = {};
    try {
      metadata = hit.metadata ? JSON.parse(hit.metadata) : {};
    } catch (e) {
      metadata = { text: hit.text };
    }
    response.sourceDocuments.push(metadata);
  }
  \<close>
\<close>

definition empty_similarity :: similarity where
  "empty_similarity = \<lparr>vectorIds = [], contextTexts = [], sourceDocuments = [], scores = []\<rparr>"

definition hit_source :: "(jsval \<Rightarrow> string + jsval) \<Rightarrow> hit \<Rightarrow> jsval" where
  "hit_source json_parse hit =
     (case (if truthy (hit_metadata hit) then json_parse (hit_metadata hit) else Inr (JObj [])) of
        Inl e \<Rightarrow> JObj [(''text'', hit_text hit)]
      | Inr metadata \<Rightarrow> metadata)"

fun push_hits :: "(jsval \<Rightarrow> string + jsval) \<Rightarrow> hit list \<Rightarrow> similarity \<Rightarrow> similarity" where
  "push_hits json_parse [] response = response"
| "push_hits json_parse (hit # hits) response =
     push_hits json_parse hits
       \<lparr>vectorIds = vectorIds response @ [hit_id hit],
        contextTexts = contextTexts response @ [js_or (hit_text hit) (JStr [])],
        sourceDocuments = sourceDocuments response @ [hit_source json_parse hit],
        scores = scores response @ [distanceToScore (hit_score hit)]\<rparr>"

text \<open>
  \<^verbatim>\<open>
  async similarityResponse(namespace, queryVector, topK = 4) {
    try {
      const { client } = await this.connect();
      await client.loadCollection({ collection_name: namespace });
      const result = await client.search({
        collection_name: namespace, vector: queryVector, limit: topK, output_fields: ["*"],
      });
      const response = { vectorIds: [], contextTexts: [], sourceDocuments: [], scores: [] };
      for (const hit of result.results || []) { ... }
      return response;
    } catch (e) {
      return { vectorIds: [], contextTexts: [], sourceDocuments: [], scores: [] };
    }
  }
  \<close>
  An omitted \<open>topK\<close> is \<open>None\<close>.
\<close>

definition milvus_similarityResponse ::
  "milvus_backend \<Rightarrow> (jsval \<Rightarrow> string + jsval) \<Rightarrow> connector_instance \<Rightarrow> jsval \<Rightarrow> embedding
     \<Rightarrow> nat option \<Rightarrow> similarity io" where
  "milvus_similarityResponse be json_parse this namespace queryVector topK0 =
     (let topK = (case topK0 of None \<Rightarrow> 4 | Some k \<Rightarrow> k);
          rq = \<lparr>sr_collection_name = namespace, sr_vector = queryVector, sr_limit = topK\<rparr>
      in
        io_try
          (io_bind (milvus_connect be this)
             (\<lambda>client.
                io_bind (io_call (MilvusLoadCollection client namespace)
                           (\<lambda>h. mb_loadCollection be h client namespace))
                  (\<lambda>u.
                     io_bind (io_call (MilvusSearch client rq) (\<lambda>h. mb_search be h client rq))
                       (\<lambda>results.
                          io_return
                            (push_hits json_parse
                               (case results of None \<Rightarrow> [] | Some hits \<Rightarrow> hits)
                               empty_similarity)))))
          (\<lambda>e. io_return empty_similarity))"

text \<open>
  \<^verbatim>\<open>
  async getMetadata(namespace = "", vectorIds = []) {
    try {
      const { client } = await this.connect();
      await client.loadCollection({ collection_name: namespace });
      const result = await client.query({
        collection_name: namespace, filter: `id in [...]`, output_fields: ["*"],
      });
      return (result.data || []).map((item) => {
        let metadata = {};
        try {
          metadata = item.metadata ? JSON.parse(item.metadata) : {};
        } catch (e) {
          metadata = {};
        }
        return { ...metadata, vectorId: item.id, text: item.text || metadata.text || "" };
      });
    } catch (e) {
      return [];
    }
  }
  \<close>
  Reading \<open>metadata.text\<close> throws when the parsed metadata is \<open>null\<close>, which aborts the
  whole \<open>map\<close>, and gives \<open>undefined\<close> on a parsed value that is not an object; the
  spread copies the properties of an object and the indexed entries of an array or a
  string.
\<close>

definition item_metadata :: "(jsval \<Rightarrow> string + jsval) \<Rightarrow> obj \<Rightarrow> string + obj" where
  "item_metadata json_parse item =
     (let metadata =
            (case (if truthy (get_prop item ''metadata'')
                   then json_parse (get_prop item ''metadata'') else Inr (JObj [])) of
               Inl e \<Rightarrow> JObj []
             | Inr v \<Rightarrow> v);
          spread = spread_props metadata;
          own = (case metadata of JObj ps \<Rightarrow> ps | _ \<Rightarrow> [])
      in
        if truthy (get_prop item ''text'')
        then Inr (AList.update ''text'' (get_prop item ''text'')
                    (AList.update ''vectorId'' (get_prop item ''id'') spread))
        else
          (case metadata of
             JNull \<Rightarrow> Inl ''TypeError: Cannot read properties of null''
           | JUndefined \<Rightarrow> Inl ''TypeError: Cannot read properties of undefined''
           | _ \<Rightarrow>
               Inr (AList.update ''text'' (js_or (get_prop own ''text'') (JStr []))
                      (AList.update ''vectorId'' (get_prop item ''id'') spread))))"

fun map_items :: "(jsval \<Rightarrow> string + jsval) \<Rightarrow> obj list \<Rightarrow> string + obj list" where
  "map_items json_parse [] = Inr []"
| "map_items json_parse (item # rest) =
     (case item_metadata json_parse item of
        Inl e \<Rightarrow> Inl e
      | Inr x \<Rightarrow>
          (case map_items json_parse rest of Inl e \<Rightarrow> Inl e | Inr xs \<Rightarrow> Inr (x # xs)))"

definition io_result :: "string + 'a \<Rightarrow> 'a io" where
  "io_result r = (case r of Inl e \<Rightarrow> io_throw e | Inr x \<Rightarrow> io_return x)"

definition milvus_getMetadata ::
  "milvus_backend \<Rightarrow> (jsval \<Rightarrow> string + jsval) \<Rightarrow> connector_instance \<Rightarrow> jsval
     \<Rightarrow> jsval list option \<Rightarrow> obj list io" where
  "milvus_getMetadata be json_parse this namespace0 vectorIds0 =
     (let namespace = (if namespace0 = JUndefined then JStr [] else namespace0);
          vectorIds = (case vectorIds0 of None \<Rightarrow> [] | Some ids \<Rightarrow> ids)
      in
        io_try
          (io_bind (milvus_connect be this)
             (\<lambda>client.
                io_bind (io_call (MilvusLoadCollection client namespace)
                           (\<lambda>h. mb_loadCollection be h client namespace))
                  (\<lambda>u.
                     io_bind (io_call (MilvusQuery client (QueryIds namespace vectorIds))
                                (\<lambda>h. mb_query be h client (QueryIds namespace vectorIds)))
                       (\<lambda>data.
                          io_result
                            (map_items json_parse
                               (case data of None \<Rightarrow> [] | Some rows \<Rightarrow> rows))))))
          (\<lambda>e. io_return []))"

text \<open>
  \<^verbatim>\<open>
  async deleteVectors(namespace, vectorIds = []) {
    try {
      const { client } = await this.connect();
      await client.delete({ collection_name: namespace, filter: `id in [...]` });
      return { success: true };
    } catch (e) {
      return { success: false, error: e.message };
    }
  }
  \<close>
\<close>

definition milvus_deleteVectors ::
  "milvus_backend \<Rightarrow> connector_instance \<Rightarrow> jsval \<Rightarrow> jsval list option
     \<Rightarrow> (bool \<times> string option) io" where
  "milvus_deleteVectors be this namespace vectorIds0 =
     (let vectorIds = (case vectorIds0 of None \<Rightarrow> [] | Some ids \<Rightarrow> ids) in
      io_try
        (io_bind (milvus_connect be this)
           (\<lambda>client.
              io_bind (io_call (MilvusDelete client (QueryIds namespace vectorIds))
                         (\<lambda>h. mb_delete be h client (QueryIds namespace vectorIds)))
                (\<lambda>u. io_return (True, None))))
        (\<lambda>e. io_return (False, Some e)))"

subsection \<open>The ingestion pipeline\<close>

text \<open>
  Modelled from the spec: \<open>toChunks\<close> of \<open>backend/utils/vectordatabases/utils\<close> is not
  among the sources. The pipeline inserts the vector records "in fixed-size batches
  (500 per batch)": consecutive slices of the given size, the last one shorter.
\<close>

function toChunks :: "'a list \<Rightarrow> nat \<Rightarrow> 'a list list" where
  "toChunks arr sz =
     (if sz = 0 \<or> arr = [] then []
      else take sz arr # toChunks (drop sz arr) sz)"
  by pat_completeness auto
termination
  by (relation "measure (\<lambda>(arr, sz). length arr)") auto

declare toChunks.simps [simp del]

text \<open>
  Modelled from the spec: the text splitter is langchain's
  \<open>RecursiveCharacterTextSplitter\<close>, a library outside the sources. The pipeline splits
  the text "into overlapping text chunks using a fixed target chunk sz and overlap;
  empty input yields zero or one chunk": windows of the chunk sz, each starting where
  the previous one ends less the overlap. On a text without separators (the uniform
  document of the ingestion scenario) this is what the library's merge of single
  characters produces.
\<close>

function split_overlapping :: "nat \<Rightarrow> nat \<Rightarrow> string \<Rightarrow> string list" where
  "split_overlapping sz overlap text =
     (if text = [] then []
      else if length text \<le> sz \<or> sz \<le> overlap then [text]
      else take sz text # split_overlapping sz overlap (drop (sz - overlap) text))"
  by pat_completeness auto
termination
  by (relation "measure (\<lambda>(sz, overlap, text). length text)") auto

declare split_overlapping.simps [simp del]

definition spec_splitText :: "history \<Rightarrow> splitterConfig \<Rightarrow> jsval \<Rightarrow> string + string list" where
  "spec_splitText h cfg pageContent =
     (case pageContent of
        JStr text \<Rightarrow> Inr (split_overlapping (chunkSize cfg) (chunkOverlap cfg) text)
      | _ \<Rightarrow> Inl ''TypeError: text.split is not a function'')"

text \<open>
  The arrays the loop over the embeddings fills: \<open>vectors\<close>, \<open>documentVectors\<close> and
  \<open>cacheInfo\<close>.
\<close>

record buffers =
  vectors :: "vectorRecord list"
  documentVectors :: "documentVector list"
  cacheInfo :: "cacheEntry list"

definition chunk_at :: "string list \<Rightarrow> nat \<Rightarrow> jsval" where
  "chunk_at textChunks i = (if i < length textChunks then JStr (textChunks ! i) else JUndefined)"

text \<open>
  \<^verbatim>\<open>
  for (const [i, vector] of vectorValues.entries()) {
    const vectorRecord = {
      id: v4(),
      values: vector,
      metadata: { ...metadata, text: textChunks[i] },
    };
    vectors.push(vectorRecord);
    documentVectors.push({
      docId: id, vectorId: vectorRecord.id, documentId: dbDocument.id,
      workspaceId: dbDocument.workspace_id, organizationId: dbDocument.organization_id,
    });
    cacheInfo.push({ vectorDbId: vectorRecord.id, values: vector, metadata: vectorRecord.metadata });
  }
  \<close>
\<close>

fun record_vectors ::
  "ingest_env \<Rightarrow> obj \<Rightarrow> jsval \<Rightarrow> dbDocument \<Rightarrow> string list \<Rightarrow> nat \<Rightarrow> embedding list
     \<Rightarrow> buffers \<Rightarrow> buffers io" where
  "record_vectors E metadata docid dbDocument textChunks i [] b = io_return b"
| "record_vectors E metadata docid dbDocument textChunks i (vector # rest) b =
     io_bind (io_call UuidV4 (\<lambda>h. Inr (ie_v4 E h)))
       (\<lambda>uuid.
          record_vectors E metadata docid dbDocument textChunks (Suc i) rest
            \<lparr>vectors = vectors b @
               [\<lparr>vr_id = uuid, vr_values = vector,
                 vr_metadata = AList.update ''text'' (chunk_at textChunks i) metadata\<rparr>],
             documentVectors = documentVectors b @
               [\<lparr>dv_docId = docid, dv_vectorId = uuid, dv_documentId = db_id dbDocument,
                 dv_workspaceId = db_workspace_id dbDocument,
                 dv_organizationId = db_organization_id dbDocument\<rparr>],
             cacheInfo = cacheInfo b @
               [\<lparr>ce_vectorDbId = uuid, ce_values = vector,
                 ce_metadata = AList.update ''text'' (chunk_at textChunks i) metadata\<rparr>]\<rparr>)"

text \<open>
  \<^verbatim>\<open>
  for (const chunk of toChunks(vectors, 500)) {
    const insertData = chunk.map((v) => ({
      id: v.id, vector: v.values, text: v.metadata.text || "",
      metadata: JSON.stringify(v.metadata),
    }));
    await client.insert({ collection_name: collectionName, data: insertData });
  }
  \<close>
\<close>

definition insertData :: "(obj \<Rightarrow> string) \<Rightarrow> vectorRecord list \<Rightarrow> insertRow list" where
  "insertData stringify chunk =
     map (\<lambda>v. \<lparr>row_id = vr_id v, row_vector = vr_values v,
                row_text = js_or (get_prop (vr_metadata v) ''text'') (JStr []),
                row_metadata = stringify (vr_metadata v)\<rparr>) chunk"

fun insert_batches ::
  "milvus_backend \<Rightarrow> (obj \<Rightarrow> string) \<Rightarrow> handle \<Rightarrow> jsval \<Rightarrow> vectorRecord list list \<Rightarrow> unit io" where
  "insert_batches be stringify client collectionName [] = io_return ()"
| "insert_batches be stringify client collectionName (chunk # rest) =
     io_bind (io_call (MilvusInsert client collectionName (insertData stringify chunk))
                (\<lambda>h. mb_insert be h client collectionName (insertData stringify chunk)))
       (\<lambda>u. insert_batches be stringify client collectionName rest)"

text \<open>
  \<open>processDocument\<close> (lines 228 to 308 of the connector): the whole body stands in one
  \<open>try\<close>, whose handler returns \<open>{ success: false, message: e.message }\<close>.
  \<open>const { pageContent, id, ...metadata } = documentData\<close> reads two properties and
  keeps the rest.
\<close>

definition rest_metadata :: "obj \<Rightarrow> obj" where
  "rest_metadata documentData =
     filter (\<lambda>(k, v). k \<noteq> ''pageContent'' \<and> k \<noteq> ''id'') documentData"

definition splitter_options :: splitterConfig where
  "splitter_options = \<lparr>chunkSize = 1000, chunkOverlap = 20\<rparr>"

definition milvus_store ::
  "milvus_backend \<Rightarrow> ingest_env \<Rightarrow> connector_instance \<Rightarrow> jsval \<Rightarrow> dbDocument \<Rightarrow> buffers
     \<Rightarrow> processResult io" where
  "milvus_store be E this collectionName dbDocument b =
     io_bind (milvus_connect be this)
       (\<lambda>client.
          io_bind (io_call (MilvusLoadCollection client collectionName)
                     (\<lambda>h. mb_loadCollection be h client collectionName))
            (\<lambda>u.
               io_bind (insert_batches be (ie_stringify E) client collectionName
                          (toChunks (vectors b) 500))
                 (\<lambda>u.
                    io_bind (io_call (CreateManyDocumentVectors (documentVectors b))
                               (\<lambda>h. ie_createMany E h (documentVectors b)))
                      (\<lambda>u.
                         io_bind (io_call (StoreVectorResult (cacheInfo b)
                                             (ie_vectorFilename E dbDocument))
                                    (\<lambda>h. ie_storeVectorResult E h (cacheInfo b)
                                            (ie_vectorFilename E dbDocument)))
                           (\<lambda>u. io_return \<lparr>success = True, message = None\<rparr>)))))"

definition milvus_processDocument ::
  "milvus_backend \<Rightarrow> ingest_env \<Rightarrow> connector_instance \<Rightarrow> jsval \<Rightarrow> obj \<Rightarrow> jsval \<Rightarrow> dbDocument
     \<Rightarrow> processResult io" where
  "milvus_processDocument be E this collectionName documentData embedderApiKey dbDocument =
     io_try
       (io_bind (io_call (NewOpenAi embedderApiKey) (\<lambda>h. ie_newOpenAi E h embedderApiKey))
          (\<lambda>openai.
             io_bind (io_call (SplitText splitter_options (get_prop documentData ''pageContent''))
                        (\<lambda>h. ie_splitText E h splitter_options
                                (get_prop documentData ''pageContent'')))
               (\<lambda>textChunks.
                  io_bind (io_call (EmbedTextChunks textChunks)
                             (\<lambda>h. ie_embedTextChunks E h textChunks))
                    (\<lambda>vectorValues.
                       case vectorValues of
                         None \<Rightarrow>
                           io_return \<lparr>success = False,
                                      message = Some ''Failed to generate embeddings''\<rparr>
                       | Some vs \<Rightarrow>
                           if length vs > 0
                           then
                             io_bind
                               (record_vectors E (rest_metadata documentData)
                                  (get_prop documentData ''id'') dbDocument textChunks 0 vs
                                  \<lparr>vectors = [], documentVectors = [], cacheInfo = []\<rparr>)
                               (\<lambda>b. milvus_store be E this collectionName dbDocument b)
                           else
                             io_return \<lparr>success = False,
                                        message = Some ''Failed to generate embeddings''\<rparr>))))
       (\<lambda>e. io_return \<lparr>success = False, message = Some e\<rparr>)"

section \<open>The ClickHouse connector\<close>

definition ClickHouse :: "(jsval \<Rightarrow> string + jsval) \<Rightarrow> connector \<Rightarrow> string + connector_instance" where
  "ClickHouse json_parse c =
     (case setConfig json_parse c of
        Inl e \<Rightarrow> Inl e
      | Inr cfg \<Rightarrow> Inr \<lparr>inst_name = ''clickhouse'', inst_config = cfg\<rparr>)"

definition clickhouse_clientConfig :: "string \<Rightarrow> obj \<Rightarrow> clickhouseConfig" where
  "clickhouse_clientConfig key settings =
     \<lparr>ch_endpoint_key = key,
      ch_host = get_prop settings ''host'',
      ch_port = js_or (get_prop settings ''port'') (JNum (Fin 8123)),
      ch_username = js_or (get_prop settings ''username'') (JStr ''default''),
      ch_password = js_or (get_prop settings ''password'') (JStr []),
      ch_database = js_or (get_prop settings ''database'') (JStr ''default'')\<rparr>"

text \<open>
  \<^verbatim>\<open>
  async connect() {
    const { createClient } = require("@clickhouse/client");
    const { settings } = this.config;
    const client = createClient({ host: ..., username: ..., password: ..., database: ... });
    const result = await client.ping();
    if (!result.success) {
      throw new Error("ClickHouse::Connection failed - ping unsuccessful");
    }
    return { client };
  }
  \<close>
\<close>

definition clickhouse_connect :: "clickhouse_backend \<Rightarrow> connector_instance \<Rightarrow> handle io" where
  "clickhouse_connect be this =
     (case settings_obj (conn_settings (inst_config this)) of
        Inl e \<Rightarrow> io_throw e
      | Inr settings \<Rightarrow>
          io_bind (io_call (CHCreateClient (clickhouse_clientConfig ''host'' settings))
                     (\<lambda>h. cb_createClient be h (clickhouse_clientConfig ''host'' settings)))
            (\<lambda>client.
               io_bind (io_call (CHPing client) (\<lambda>h. cb_ping be h client))
                 (\<lambda>success.
                    if \<not> success
                    then io_throw ''ClickHouse::Connection failed - ping unsuccessful''
                    else io_return client)))"

text \<open>\<open>settings.database || "default"\<close>, read after \<open>connect\<close> has returned.\<close>

definition clickhouse_database :: "connector_instance \<Rightarrow> jsval" where
  "clickhouse_database this =
     (case settings_obj (conn_settings (inst_config this)) of
        Inl e \<Rightarrow> JStr ''default''
      | Inr settings \<Rightarrow> js_or (get_prop settings ''database'') (JStr ''default''))"

text \<open>\<open>const result = await client.query(...); const data = await result.json();\<close>\<close>

definition clickhouse_rows :: "clickhouse_backend \<Rightarrow> handle \<Rightarrow> ch_query \<Rightarrow> obj list io" where
  "clickhouse_rows be client q =
     io_bind (io_call (CHQuery client q) (\<lambda>h. cb_query be h client q))
       (\<lambda>result. io_call (CHJson result) (\<lambda>h. cb_json be h result))"

definition clickhouse_close :: "clickhouse_backend \<Rightarrow> handle \<Rightarrow> unit io" where
  "clickhouse_close be client = io_call (CHClose client) (\<lambda>h. cb_close be h client)"

text \<open>
  \<^verbatim>\<open>
  async heartbeat() {
    try {
      const { client } = await this.connect();
      const result = await client.ping();
      await client.close();
      return { result: result.success, error: null };
    } catch (e) {
      return { result: false, error: e.message };
    }
  }
  \<close>
\<close>

definition clickhouse_heartbeat ::
  "clickhouse_backend \<Rightarrow> connector_instance \<Rightarrow> (bool \<times> string option) io" where
  "clickhouse_heartbeat be this =
     io_try
       (io_bind (clickhouse_connect be this)
          (\<lambda>client.
             io_bind (io_call (CHPing client) (\<lambda>h. cb_ping be h client))
               (\<lambda>success.
                  io_bind (clickhouse_close be client)
                    (\<lambda>u. io_return (success, None)))))
       (\<lambda>e. io_return (False, Some e))"

text \<open>
  \<open>totalIndicies\<close>: \<open>{ result: parseInt(data[0]?.total || 0), error: null }\<close>, and
  \<open>{ result: 0, error: e.message }\<close> from the handler. \<open>parseInt\<close> is a parameter.
\<close>

definition first_total :: "obj list \<Rightarrow> jsval" where
  "first_total data =
     (case data of [] \<Rightarrow> JNum (Fin 0) | row # rest \<Rightarrow> js_or (get_prop row ''total'') (JNum (Fin 0)))"

definition clickhouse_totalIndicies ::
  "clickhouse_backend \<Rightarrow> (jsval \<Rightarrow> jsnum) \<Rightarrow> connector_instance \<Rightarrow> (jsnum \<times> string option) io" where
  "clickhouse_totalIndicies be parse_int this =
     io_try
       (io_bind (clickhouse_connect be this)
          (\<lambda>client.
             io_bind (clickhouse_rows be client (QSumRows (clickhouse_database this)))
               (\<lambda>data.
                  io_bind (clickhouse_close be client)
                    (\<lambda>u. io_return (parse_int (first_total data), None)))))
       (\<lambda>e. io_return (Fin 0, Some e))"

text \<open>
  \<^verbatim>\<open>
  async namespaces() {
    try {
      const { client } = await this.connect();
      const { settings } = this.config;
      const database = settings.database || "default";
      const result = await client.query({ query: `SELECT ... FROM system.tables ...`, ... });
      const tables = await result.json();
      await client.close();
      return tables.map((t) => ({
        name: t.name,
        count: parseInt(t.total_rows || 0),
        metadata: { engine: t.engine, bytes: parseInt(t.total_bytes || 0) },
      }));
    } catch (e) {
      console.error("namespaces error:", e.message);
      return [];
    }
  }
  \<close>
\<close>

definition table_info :: "(jsval \<Rightarrow> jsnum) \<Rightarrow> obj \<Rightarrow> namespaceInfo" where
  "table_info parse_int t =
     \<lparr>ns_name = get_prop t ''name'',
      ns_count = parse_int (js_or (get_prop t ''total_rows'') (JNum (Fin 0))),
      ns_metadata =
        [(''engine'', get_prop t ''engine''),
         (''bytes'', JNum (parse_int (js_or (get_prop t ''total_bytes'') (JNum (Fin 0)))))]\<rparr>"

definition clickhouse_namespaces ::
  "clickhouse_backend \<Rightarrow> (jsval \<Rightarrow> jsnum) \<Rightarrow> connector_instance \<Rightarrow> namespaceInfo list io" where
  "clickhouse_namespaces be parse_int this =
     io_try
       (io_bind (clickhouse_connect be this)
          (\<lambda>client.
             io_bind (clickhouse_rows be client (QTables (clickhouse_database this)))
               (\<lambda>tables.
                  io_bind (clickhouse_close be client)
                    (\<lambda>u. io_return (map (table_info parse_int) tables)))))
       (\<lambda>e. io_return [])"

text \<open>
  \<open>namespace(name = null)\<close>: throws on a missing name before the \<open>try\<close>; an unknown table
  closes the client and gives \<open>null\<close>; otherwise a second query reads the columns.
\<close>

definition table_details :: "(jsval \<Rightarrow> jsnum) \<Rightarrow> jsval \<Rightarrow> obj \<Rightarrow> obj list \<Rightarrow> namespaceInfo" where
  "table_details parse_int name t columns =
     \<lparr>ns_name = name,
      ns_count = parse_int (js_or (get_prop t ''total_rows'') (JNum (Fin 0))),
      ns_metadata =
        [(''engine'', get_prop t ''engine''),
         (''bytes'', JNum (parse_int (js_or (get_prop t ''total_bytes'') (JNum (Fin 0))))),
         (''columns'', JArr (map JObj columns)),
         (''createQuery'', get_prop t ''create_table_query'')]\<rparr>"

definition clickhouse_namespace ::
  "clickhouse_backend \<Rightarrow> (jsval \<Rightarrow> jsnum) \<Rightarrow> connector_instance \<Rightarrow> jsval
     \<Rightarrow> namespaceInfo option io" where
  "clickhouse_namespace be parse_int this name0 =
     (let name = (if name0 = JUndefined then JNull else name0) in
      if \<not> truthy name then io_throw ''No namespace (table) value provided.''
      else
        io_try
          (io_bind (clickhouse_connect be this)
             (\<lambda>client.
                io_bind (clickhouse_rows be client (QTableInfo (clickhouse_database this) name))
                  (\<lambda>tableInfo.
                     case tableInfo of
                       [] \<Rightarrow> io_bind (clickhouse_close be client) (\<lambda>u. io_return None)
                     | t # rest \<Rightarrow>
                         io_bind (clickhouse_rows be client
                                    (QColumns (clickhouse_database this) name))
                           (\<lambda>columns.
                              io_bind (clickhouse_close be client)
                                (\<lambda>u. io_return
                                        (Some (table_details parse_int name t columns)))))))
          (\<lambda>e. io_return None))"

text \<open>
  \<^verbatim>\<open>
  async namespaceExists(_client, name = null) {
    if (!name) throw new Error("No namespace (table) value provided.");
    try {
      const { client } = await this.connect();
      const { settings } = this.config;
      const database = settings.database || "default";
      const result = await client.query({ query: `SELECT 1 FROM system.tables WHERE ...`, ... });
      const data = await result.json();
      await client.close();
      return data.length > 0;
    } catch (e) {
      return false;
    }
  }
  \<close>
\<close>

definition clickhouse_namespaceExists ::
  "clickhouse_backend \<Rightarrow> connector_instance \<Rightarrow> jsval \<Rightarrow> jsval \<Rightarrow> jsval io" where
  "clickhouse_namespaceExists be this unused_client name0 =
     (let name = (if name0 = JUndefined then JNull else name0) in
      if \<not> truthy name then io_throw ''No namespace (table) value provided.''
      else
        io_try
          (io_bind (clickhouse_connect be this)
             (\<lambda>client.
                io_bind (clickhouse_rows be client (QExists (clickhouse_database this) name))
                  (\<lambda>data.
                     io_bind (clickhouse_close be client)
                       (\<lambda>u. io_return (JBool (length data > 0))))))
          (\<lambda>e. io_return (JBool False)))"

text \<open>
  \<open>rawGet(tableName, pageSize = 10, offset = 0)\<close>: the id of a row is
  \<open>r.id || r._id || `row_${offset + i}`\<close>.
\<close>

fun row_ids :: "nat \<Rightarrow> obj list \<Rightarrow> jsval list" where
  "row_ids i [] = []"
| "row_ids i (r # rs) =
     js_or (get_prop r ''id'') (js_or (get_prop r ''_id'') (JStr (''row_'' @ show_nat i)))
       # row_ids (Suc i) rs"

definition clickhouse_rawGet ::
  "clickhouse_backend \<Rightarrow> connector_instance \<Rightarrow> jsval \<Rightarrow> nat option \<Rightarrow> nat option
     \<Rightarrow> rawResult io" where
  "clickhouse_rawGet be this tableName pageSize0 offset0 =
     (let pageSize = (case pageSize0 of None \<Rightarrow> 10 | Some n \<Rightarrow> n);
          offset = (case offset0 of None \<Rightarrow> 0 | Some n \<Rightarrow> n)
      in
        io_try
          (io_bind (clickhouse_connect be this)
             (\<lambda>client.
                io_bind (clickhouse_rows be client
                           (QRawGet (clickhouse_database this) tableName pageSize offset))
                  (\<lambda>data.
                     io_bind (clickhouse_close be client)
                       (\<lambda>u. io_return
                               \<lparr>raw_ids = row_ids offset data, raw_data = data,
                                raw_error = None\<rparr>))))
          (\<lambda>e. io_return \<lparr>raw_ids = [], raw_data = [], raw_error = Some e\<rparr>))"

text \<open>
  \<^verbatim>\<open>
  async processDocument(tableName, documentData, embedderApiKey, dbDocument) {
    return {
      success: false,
      message: "ClickHouse is not a vector database - document processing not supported"
    };
  }

  async similarityResponse(namespace, queryVector, topK = 4) {
    return { vectorIds: [], contextTexts: [], sourceDocuments: [], scores: [] };
  }
  \<close>
\<close>

definition clickhouse_processDocument ::
  "jsval \<Rightarrow> obj \<Rightarrow> jsval \<Rightarrow> dbDocument \<Rightarrow> processResult io" where
  "clickhouse_processDocument tableName documentData embedderApiKey dbDocument =
     io_return
       \<lparr>success = False,
        message =
          Some ''ClickHouse is not a vector database - document processing not supported''\<rparr>"


text \<open>
  \<open>getMetadata(namespace = "", ids = [])\<close> returns \<open>[]\<close> for no ids without connecting;
  \<open>deleteVectors\<close> sends one \<open>ALTER TABLE ... DELETE\<close> command; \<open>executeQuery\<close> runs the
  statement it is given.
\<close>

definition clickhouse_getMetadata ::
  "clickhouse_backend \<Rightarrow> connector_instance \<Rightarrow> jsval \<Rightarrow> jsval list \<Rightarrow> obj list io" where
  "clickhouse_getMetadata be this namespace ids =
     (if length ids = 0 then io_return []
      else
        io_try
          (io_bind (clickhouse_connect be this)
             (\<lambda>client.
                io_bind (clickhouse_rows be client
                           (QMetadata (clickhouse_database this) namespace ids))
                  (\<lambda>data.
                     io_bind (clickhouse_close be client) (\<lambda>u. io_return data))))
          (\<lambda>e. io_return []))"

definition clickhouse_deleteVectors ::
  "clickhouse_backend \<Rightarrow> connector_instance \<Rightarrow> jsval \<Rightarrow> jsval list
     \<Rightarrow> (bool \<times> string option) io" where
  "clickhouse_deleteVectors be this namespace ids =
     io_try
       (io_bind (clickhouse_connect be this)
          (\<lambda>client.
             io_bind (io_call (CHCommand client (QDelete (clickhouse_database this) namespace ids))
                        (\<lambda>h. cb_command be h client
                                (QDelete (clickhouse_database this) namespace ids)))
               (\<lambda>u. io_bind (clickhouse_close be client) (\<lambda>u. io_return (True, None)))))
       (\<lambda>e. io_return (False, Some e))"

definition clickhouse_executeQuery ::
  "clickhouse_backend \<Rightarrow> connector_instance \<Rightarrow> jsval \<Rightarrow> jsval
     \<Rightarrow> (obj list \<times> string option) io" where
  "clickhouse_executeQuery be this query0 format0 =
     (let format = (if format0 = JUndefined then JStr ''JSONEachRow'' else format0) in
      io_try
        (io_bind (clickhouse_connect be this)
           (\<lambda>client.
              io_bind (clickhouse_rows be client (QRaw query0 format))
                (\<lambda>data.
                   io_bind (clickhouse_close be client) (\<lambda>u. io_return (data, None)))))
        (\<lambda>e. io_return ([], Some e)))"

section \<open>The connector factory\<close>

text \<open>
  Modelled from the spec: \<open>OrganizationConnection.supportedConnectors\<close> is declared in
  \<open>models/organizationConnection\<close>, which is not among the sources; the spec fixes the
  supported set to the six connector types.
\<close>

definition supportedConnectors :: "string list" where
  "supportedConnectors =
     [''chroma'', ''pinecone'', ''qdrant'', ''weaviate'', ''milvus'', ''clickhouse'']"

text \<open>
  Modelled from the spec: the classes \<open>Chroma\<close>, \<open>Pinecone\<close>, \<open>QDrant\<close> and \<open>Weaviate\<close> are
  not among the sources. A connector instance is "constructed from an
  OrganizationConnection": like the two classes at hand, the constructor keeps the name
  of the backend and the configuration with its settings parsed.
\<close>

definition new_connector ::
  "string \<Rightarrow> (jsval \<Rightarrow> string + jsval) \<Rightarrow> connector \<Rightarrow> string + connector_instance" where
  "new_connector name json_parse c =
     (case setConfig json_parse c of
        Inl e \<Rightarrow> Inl e
      | Inr cfg \<Rightarrow> Inr \<lparr>inst_name = name, inst_config = cfg\<rparr>)"

definition io_lift :: "string + 'a \<Rightarrow> 'a io" where
  "io_lift r = (case r of Inl e \<Rightarrow> io_throw e | Inr x \<Rightarrow> io_return x)"

text \<open>
  \<^verbatim>\<open>
  function selectConnector(organizationConnector) {
    const { type } = organizationConnector;
    if (!OrganizationConnection.supportedConnectors.includes(type))
      throw new Error("Unsupported connector for vector database.");
    if (organizationConnector.type === "chroma") { return new Chroma(organizationConnector); }
    if (organizationConnector.type === "pinecone") { return new Pinecone(organizationConnector); }
    if (organizationConnector.type === "qdrant") { return new QDrant(organizationConnector); }
    if (organizationConnector.type === "weaviate") { return new Weaviate(organizationConnector); }
    if (organizationConnector.type === "milvus") { return new Milvus(organizationConnector); }
    if (organizationConnector.type === "clickhouse") { return new ClickHouse(organizationConnector); }
    throw new Error("Could not find supported connector for vector database.", type);
  }
  \<close>
\<close>

definition selectConnector ::
  "string list \<Rightarrow> (jsval \<Rightarrow> string + jsval) \<Rightarrow> connector \<Rightarrow> connector_instance io" where
  "selectConnector supported json_parse organizationConnector =
     (if conn_type organizationConnector \<notin> set supported
      then io_throw ''Unsupported connector for vector database.''
      else if conn_type organizationConnector = ''chroma''
      then io_lift (new_connector ''chroma'' json_parse organizationConnector)
      else if conn_type organizationConnector = ''pinecone''
      then io_lift (new_connector ''pinecone'' json_parse organizationConnector)
      else if conn_type organizationConnector = ''qdrant''
      then io_lift (new_connector ''qdrant'' json_parse organizationConnector)
      else if conn_type organizationConnector = ''weaviate''
      then io_lift (new_connector ''weaviate'' json_parse organizationConnector)
      else if conn_type organizationConnector = ''milvus''
      then io_lift (Milvus json_parse organizationConnector)
      else if conn_type organizationConnector = ''clickhouse''
      then io_lift (ClickHouse json_parse organizationConnector)
      else io_throw ''Could not find supported connector for vector database.'')"

section \<open>The connector validator\<close>

record statusCheck =
  valid :: bool
  status_message :: "string option"

record validation =
  val_connector :: jsval
  val_error :: "string option"

text \<open>\<open>e.message || fallback\<close>\<close>

definition message_or :: "string \<Rightarrow> string \<Rightarrow> string" where
  "message_or e fallback = (if e \<noteq> [] then e else fallback)"

text \<open>
  Destructuring a value, as a parameter \<open>({ a, b })\<close> or in \<open>const { a, b } = v\<close>, and
  reading a property \<open>v.a\<close>: \<open>null\<close> and \<open>undefined\<close> throw a TypeError; the body then
  runs with the properties of the value. Every validator destructures its parameter
  before its \<open>try\<close>.
\<close>

definition destructure :: "jsval \<Rightarrow> (obj \<Rightarrow> 'a io) \<Rightarrow> 'a io" where
  "destructure v body = (case settings_obj v of Inl e \<Rightarrow> io_throw e | Inr ps \<Rightarrow> body ps)"

text \<open>\<open>supportedConnectors.includes(type)\<close>: only a string is in a list of strings.\<close>

definition js_includes :: "string list \<Rightarrow> jsval \<Rightarrow> bool" where
  "js_includes xs v = (case v of JStr s \<Rightarrow> s \<in> set xs | _ \<Rightarrow> False)"

text \<open>A destructured parameter with the default \<open>null\<close>.\<close>

definition default_null :: "jsval \<Rightarrow> jsval" where
  "default_null v = (if v = JUndefined then JNull else v)"

text \<open>
  \<^verbatim>\<open>
  async function validateChroma({ instanceURL, authToken = null, authTokenHeader = null }) {
    const options = { path: instanceURL };
    if (!!authToken) {
      if (!authTokenHeader)
        return { valid: false, message: "Auth token set but no request header set - set a header!" };
      options.fetchOptions = {};
      options.fetchOptions.headers = { [authTokenHeader]: authToken };
    }
    try {
      const client = new ChromaClient(options);
      await client.heartbeat();
      return { valid: true, message: null };
    } catch (e) {
      return { valid: false,
               message: e.message || "Could not connect to Chroma instance with those credentials." };
    }
  }
  \<close>
\<close>

definition chroma_probe :: "validator_env \<Rightarrow> chromaOptions \<Rightarrow> statusCheck io" where
  "chroma_probe V options =
     io_try
       (io_bind (io_call (ChromaNewClient options) (\<lambda>h. ve_chromaNew V h options))
          (\<lambda>client.
             io_bind (io_call (ChromaHeartbeat client) (\<lambda>h. ve_chromaHeartbeat V h client))
               (\<lambda>u. io_return \<lparr>valid = True, status_message = None\<rparr>)))
       (\<lambda>e. io_return
               \<lparr>valid = False,
                status_message =
                  Some (message_or e
                          ''Could not connect to Chroma instance with those credentials.'')\<rparr>)"

definition validateChroma :: "validator_env \<Rightarrow> jsval \<Rightarrow> statusCheck io" where
  "validateChroma V param =
     destructure param
       (\<lambda>settings.
          let instanceURL = get_prop settings ''instanceURL'';
              authToken = default_null (get_prop settings ''authToken'');
              authTokenHeader = default_null (get_prop settings ''authTokenHeader'')
          in
            if truthy authToken
            then
              (if \<not> truthy authTokenHeader
               then io_return
                      \<lparr>valid = False,
                       status_message =
                         Some ''Auth token set but no request header set - set a header!''\<rparr>
               else chroma_probe V
                      \<lparr>co_path = instanceURL, co_headers = Some (authTokenHeader, authToken)\<rparr>)
            else chroma_probe V \<lparr>co_path = instanceURL, co_headers = None\<rparr>)"

text \<open>
  \<open>validatePinecone\<close>: \<open>init\<close>, then \<open>describeIndex\<close>, whose \<open>status.ready\<close> must hold.
\<close>

definition validatePinecone :: "validator_env \<Rightarrow> jsval \<Rightarrow> statusCheck io" where
  "validatePinecone V param =
     destructure param
       (\<lambda>settings.
          io_try
            (io_bind (io_call PineconeNewClient (\<lambda>h. ve_pineconeNew V h))
               (\<lambda>client.
                  io_bind (io_call (PineconeInit client (get_prop settings ''apiKey'')
                                      (get_prop settings ''environment''))
                             (\<lambda>h. ve_pineconeInit V h client (get_prop settings ''apiKey'')
                                     (get_prop settings ''environment'')))
                    (\<lambda>u.
                       io_bind (io_call (PineconeDescribeIndex client (get_prop settings ''index''))
                                  (\<lambda>h. ve_pineconeDescribeIndex V h client
                                          (get_prop settings ''index'')))
                         (\<lambda>ready.
                            if \<not> ready then io_throw ''Pinecone::Index not ready or found.''
                            else io_return \<lparr>valid = True, status_message = None\<rparr>))))
            (\<lambda>e. io_return \<lparr>valid = False, status_message = Some e\<rparr>))"

text \<open>
  \<open>validateQDrant\<close>: the client gets the api key only when it is truthy; the cluster
  status must be \<open>ok\<close>.
\<close>

definition validateQDrant :: "validator_env \<Rightarrow> jsval \<Rightarrow> statusCheck io" where
  "validateQDrant V param =
     destructure param
       (\<lambda>settings.
          let clusterUrl = get_prop settings ''clusterUrl'';
              apiKey = (if truthy (get_prop settings ''apiKey'')
                        then Some (get_prop settings ''apiKey'') else None)
          in
            io_try
              (io_bind (io_call (QdrantNewClient clusterUrl apiKey)
                          (\<lambda>h. ve_qdrantNew V h clusterUrl apiKey))
                 (\<lambda>client.
                    io_bind (io_call (QdrantClusterStatus client)
                               (\<lambda>h. ve_qdrantClusterStatus V h client))
                      (\<lambda>online.
                         if \<not> online then io_throw ''qDrant::Cluster not ready or found.''
                         else io_return \<lparr>valid = True, status_message = None\<rparr>)))
              (\<lambda>e. io_return \<lparr>valid = False, status_message = Some e\<rparr>))"

text \<open>
  \<open>validateWeaviate\<close>: \<open>new URL(clusterUrl)\<close> may throw; the scheme is the protocol
  without its first colon, or \<open>http\<close>.
\<close>

fun remove_first_colon :: "string \<Rightarrow> string" where
  "remove_first_colon [] = []"
| "remove_first_colon (c # cs) = (if c = CHR '':'' then cs else c # remove_first_colon cs)"

definition validateWeaviate :: "validator_env \<Rightarrow> jsval \<Rightarrow> statusCheck io" where
  "validateWeaviate V param =
     destructure param
       (\<lambda>settings.
          io_try
            (io_bind (io_lift (ve_parseUrl V (get_prop settings ''clusterUrl'')))
               (\<lambda>(protocol, host).
                  let options =
                        \<lparr>wo_scheme = (if remove_first_colon protocol \<noteq> []
                                      then remove_first_colon protocol else ''http''),
                         wo_host = host,
                         wo_apiKey = (if truthy (get_prop settings ''apiKey'')
                                      then Some (get_prop settings ''apiKey'') else None)\<rparr>
                  in
                    io_bind (io_call (WeaviateNewClient options) (\<lambda>h. ve_weaviateNew V h options))
                      (\<lambda>client.
                         io_bind (io_call (WeaviateLiveChecker client)
                                    (\<lambda>h. ve_weaviateLive V h client))
                           (\<lambda>clusterReady.
                              if \<not> clusterReady then io_throw ''Weaviate::Cluster not ready.''
                              else io_return \<lparr>valid = True, status_message = None\<rparr>))))
            (\<lambda>e. io_return \<lparr>valid = False, status_message = Some e\<rparr>))"

text \<open>
  \<open>validateMilvus\<close> builds the client configuration as \<open>connect\<close> does and checks the
  health once.
\<close>

definition validateMilvus :: "milvus_backend \<Rightarrow> jsval \<Rightarrow> statusCheck io" where
  "validateMilvus be param =
     destructure param
       (\<lambda>settings.
          io_try
            (io_bind (io_call (NewMilvusClient (milvus_clientConfig settings))
                        (\<lambda>h. mb_newClient be h (milvus_clientConfig settings)))
               (\<lambda>client.
                  io_bind (io_call (MilvusCheckHealth client) (\<lambda>h. mb_checkHealth be h client))
                    (\<lambda>isHealthy.
                       if \<not> isHealthy then io_throw ''Milvus::Cluster is not healthy.''
                       else io_return \<lparr>valid = True, status_message = None\<rparr>)))
            (\<lambda>e. io_return
                    \<lparr>valid = False,
                     status_message =
                       Some (message_or e ''Could not connect to Milvus instance.'')\<rparr>))"

text \<open>
  \<^verbatim>\<open>
  async function validateClickHouse({ host, port, username, password, database }) {
    try {
      const client = createClient({ url: ..., username: ..., password: ..., database: ... });
      const result = await client.ping();
      await client.close();
      if (!result.success) throw new Error("ClickHouse::Ping failed.");
      return { valid: true, message: null };
    } catch (e) {
      return { valid: false, message: e.message || "Could not connect to ClickHouse instance." };
    }
  }
  \<close>
\<close>

definition validateClickHouse :: "clickhouse_backend \<Rightarrow> jsval \<Rightarrow> statusCheck io" where
  "validateClickHouse be param =
     destructure param
       (\<lambda>settings.
          io_try
            (io_bind (io_call (CHCreateClient (clickhouse_clientConfig ''url'' settings))
                        (\<lambda>h. cb_createClient be h (clickhouse_clientConfig ''url'' settings)))
               (\<lambda>client.
                  io_bind (io_call (CHPing client) (\<lambda>h. cb_ping be h client))
                    (\<lambda>success.
                       io_bind (clickhouse_close be client)
                         (\<lambda>u.
                            if \<not> success then io_throw ''ClickHouse::Ping failed.''
                            else io_return \<lparr>valid = True, status_message = None\<rparr>))))
            (\<lambda>e. io_return
                    \<lparr>valid = False,
                     status_message =
                       Some (message_or e ''Could not connect to ClickHouse instance.'')\<rparr>))"

text \<open>
  The chain of \<open>validateNewDatabaseConnector\<close> that fills \<open>statusCheck\<close>, which starts as
  \<open>{ valid: false, message: null }\<close>.
\<close>

definition validate_by_type ::
  "milvus_backend \<Rightarrow> clickhouse_backend \<Rightarrow> validator_env \<Rightarrow> jsval \<Rightarrow> jsval \<Rightarrow> statusCheck io" where
  "validate_by_type mbe cbe V type settings =
     (if type = JStr ''chroma'' then validateChroma V settings
      else if type = JStr ''pinecone'' then validatePinecone V settings
      else if type = JStr ''qdrant'' then validateQDrant V settings
      else if type = JStr ''weaviate'' then validateWeaviate V settings
      else if type = JStr ''milvus'' then validateMilvus mbe settings
      else if type = JStr ''clickhouse'' then validateClickHouse cbe settings
      else io_return \<lparr>valid = False, status_message = None\<rparr>)"

text \<open>
  \<^verbatim>\<open>
  async function validateNewDatabaseConnector(organization, config) {
    const { type, settings } = config;
    if (!OrganizationConnection.supportedConnectors.includes(type))
      return { connector: null, error: "Unsupported vector database type." };
    var statusCheck = { valid: false, message: null };
    ...
    if (!statusCheck.valid)
      return { connector: null, error: statusCheck.message };
    const connector = await OrganizationConnection.create(organization.id, type, settings);
    return { connector, error: null };
  }
  \<close>
  \<open>organization.id\<close> is read only when the connection is created.
\<close>

definition validateNewDatabaseConnector ::
  "string list \<Rightarrow> milvus_backend \<Rightarrow> clickhouse_backend \<Rightarrow> validator_env \<Rightarrow> jsval \<Rightarrow> jsval
     \<Rightarrow> validation io" where
  "validateNewDatabaseConnector supported mbe cbe V organization config =
     destructure config
       (\<lambda>cfg.
          let type = get_prop cfg ''type'';
              settings = get_prop cfg ''settings''
          in
            if \<not> js_includes supported type
            then io_return \<lparr>val_connector = JNull,
                            val_error = Some ''Unsupported vector database type.''\<rparr>
            else
              io_bind (validate_by_type mbe cbe V type settings)
                (\<lambda>statusCheck.
                   if \<not> valid statusCheck
                   then io_return
                          \<lparr>val_connector = JNull, val_error = status_message statusCheck\<rparr>
                   else
                     destructure organization
                       (\<lambda>org.
                          io_bind
                            (io_call
                               (OrganizationConnectionCreate (get_prop org ''id'') type settings)
                               (\<lambda>h. ve_createConnection V h (get_prop org ''id'') type settings))
                            (\<lambda>connector.
                               io_return \<lparr>val_connector = connector, val_error = None\<rparr>))))"

section \<open>Reading the history of a run\<close>

fun request_of :: "event \<Rightarrow> request" where
  "request_of (Done rq) = rq"
| "request_of (Failed rq e) = rq"

fun failed :: "event \<Rightarrow> bool" where
  "failed (Done rq) = False"
| "failed (Failed rq e) = True"

text \<open>The calls \<open>connect\<close> makes, and every call that reaches the Milvus backend.\<close>

fun is_connect_request :: "request \<Rightarrow> bool" where
  "is_connect_request (NewMilvusClient c) = True"
| "is_connect_request (MilvusCheckHealth c) = True"
| "is_connect_request rq = False"

fun is_backend_request :: "request \<Rightarrow> bool" where
  "is_backend_request (NewMilvusClient c) = True"
| "is_backend_request (MilvusCheckHealth c) = True"
| "is_backend_request (MilvusLoadCollection c n) = True"
| "is_backend_request (MilvusInsert c n rows) = True"
| "is_backend_request (MilvusSearch c rq) = True"
| "is_backend_request (MilvusHasCollection c n) = True"
| "is_backend_request (MilvusListCollections c) = True"
| "is_backend_request (MilvusGetCollectionStatistics c n) = True"
| "is_backend_request (MilvusDescribeCollection c n) = True"
| "is_backend_request (MilvusQuery c q) = True"
| "is_backend_request (MilvusDelete c q) = True"
| "is_backend_request rq = False"

fun is_insert_request :: "request \<Rightarrow> bool" where
  "is_insert_request (MilvusInsert c n rows) = True"
| "is_insert_request rq = False"

text \<open>The two durable writes: the DocumentVectors rows and the cache artifact.\<close>

fun is_write_request :: "request \<Rightarrow> bool" where
  "is_write_request (CreateManyDocumentVectors rows) = True"
| "is_write_request (StoreVectorResult cache fname) = True"
| "is_write_request rq = False"

text \<open>The vector ids a request carries.\<close>

fun request_ids :: "request \<Rightarrow> string list" where
  "request_ids (MilvusInsert c n rows) = map row_id rows"
| "request_ids (CreateManyDocumentVectors rows) = map dv_vectorId rows"
| "request_ids (StoreVectorResult cache fname) = map ce_vectorDbId cache"
| "request_ids rq = []"

definition is_insert :: "event \<Rightarrow> bool" where
  "is_insert ev = is_insert_request (request_of ev)"

definition is_write :: "event \<Rightarrow> bool" where
  "is_write ev = is_write_request (request_of ev)"

text \<open>The ids of the vectors in the insert calls that returned, in the order of insertion.\<close>

definition inserted_ids :: "event list \<Rightarrow> string list" where
  "inserted_ids evs =
     concat (map (\<lambda>ev. request_ids (request_of ev))
               (filter (\<lambda>ev. is_insert ev \<and> \<not> failed ev) evs))"

text \<open>
  The ordering of the pipeline, read off the events of a run: from the first durable
  write on there is no insert call any more and every write names exactly the vectors
  inserted before it; and if a write happens at all, no insert call before it threw.
\<close>

definition writes_follow_inserts :: "event list \<Rightarrow> bool" where
  "writes_follow_inserts evs =
     (let before = takeWhile (\<lambda>ev. \<not> is_write ev) evs;
          from_first_write = dropWhile (\<lambda>ev. \<not> is_write ev) evs
      in list_all (\<lambda>ev. \<not> is_insert ev \<and> request_ids (request_of ev) = inserted_ids before)
           from_first_write
         \<and> (from_first_write = [] \<or> list_all (\<lambda>ev. \<not> (is_insert ev \<and> failed ev)) before))"

text \<open>
  A run wrote one DocumentVectors row and one cache entry per inserted vector: its
  writes are one \<open>createMany\<close> and one \<open>storeVectorResult\<close>, both returned, and their
  vector ids are the inserted ids, position by position.
\<close>

definition one_row_per_inserted_vector :: "event list \<Rightarrow> bool" where
  "one_row_per_inserted_vector evs =
     (\<exists>rows cache fname.
        filter is_write evs =
          [Done (CreateManyDocumentVectors rows), Done (StoreVectorResult cache fname)]
        \<and> map dv_vectorId rows = inserted_ids evs
        \<and> map ce_vectorDbId cache = inserted_ids evs)"

text \<open>The three arrays of the loop name the same vector ids, position by position.\<close>

definition aligned :: "buffers \<Rightarrow> bool" where
  "aligned b = (map dv_vectorId (documentVectors b) = map vr_id (vectors b)
     \<and> map ce_vectorDbId (cacheInfo b) = map vr_id (vectors b))"

text \<open>The part of \<open>processDocument\<close> that runs once the provider has returned vectors.\<close>

abbreviation pipeline_body ::
  "milvus_backend \<Rightarrow> ingest_env \<Rightarrow> connector_instance \<Rightarrow> jsval \<Rightarrow> obj \<Rightarrow> dbDocument
     \<Rightarrow> string list \<Rightarrow> embedding list \<Rightarrow> processResult io" where
  "pipeline_body be E this coll doc db chunks vs \<equiv>
     io_bind
       (record_vectors E (rest_metadata doc) (get_prop doc ''id'') db chunks 0 vs
          \<lparr>vectors = [], documentVectors = [], cacheInfo = []\<rparr>)
       (\<lambda>b. milvus_store be E this coll db b)"

text \<open>
  The number of characters a list of overlapping chunks covers: the first chunk whole,
  every later chunk without the overlap it shares with its predecessor.
\<close>

fun covered :: "nat \<Rightarrow> string list \<Rightarrow> nat" where
  "covered ov [] = 0"
| "covered ov (c # cs) = length c + sum_list (map (\<lambda>d. length d - ov) cs)"

section \<open>A scenario: ingesting a uniform document of 4000 characters\<close>

text \<open>
  The collaborators of the scenario: a healthy backend that accepts every call, a
  provider that returns one embedding per chunk, fresh ids that grow with the history.
\<close>

definition scenario_backend :: milvus_backend where
  "scenario_backend =
     \<lparr>mb_newClient = (\<lambda>h c. Inr (length h)),
      mb_checkHealth = (\<lambda>h c. Inr True),
      mb_loadCollection = (\<lambda>h c n. Inr ()),
      mb_insert = (\<lambda>h c n rows. Inr ()),
      mb_search = (\<lambda>h c rq. Inr (Some [])),
      mb_hasCollection = (\<lambda>h c n. Inr (JBool True)),
      mb_listCollections = (\<lambda>h c. Inr (Some [JStr ''docs''])),
      mb_getCollectionStatistics = (\<lambda>h c n. Inr (JStr ''5'')),
      mb_describeCollection = (\<lambda>h c n. Inr None),
      mb_query = (\<lambda>h c q. Inr (Some [])),
      mb_delete = (\<lambda>h c q. Inr ())\<rparr>"

definition scenario_env :: ingest_env where
  "scenario_env =
     \<lparr>ie_newOpenAi = (\<lambda>h k. Inr ()),
      ie_splitText = spec_splitText,
      ie_embedTextChunks = (\<lambda>h chunks. Inr (Some (map (\<lambda>c. [real (length c)]) chunks))),
      ie_v4 = (\<lambda>h. ''vec-'' @ replicate (length h) CHR ''i''),
      ie_createMany = (\<lambda>h rows. Inr ()),
      ie_storeVectorResult = (\<lambda>h cache fname. Inr ()),
      ie_vectorFilename = (\<lambda>d. JStr ''uniform.json''),
      ie_stringify = (\<lambda>md. concat (map fst md))\<rparr>"

definition scenario_instance :: connector_instance where
  "scenario_instance =
     \<lparr>inst_name = ''milvus'',
      inst_config = \<lparr>conn_type = ''milvus'',
                     conn_settings = JObj [(''host'', JStr ''localhost'')]\<rparr>\<rparr>"

definition scenario_dbDocument :: dbDocument where
  "scenario_dbDocument = \<lparr>db_id = 7, db_workspace_id = 3, db_organization_id = 1\<rparr>"

definition uniform_document :: "nat \<Rightarrow> obj" where
  "uniform_document n =
     [(''pageContent'', JStr (replicate n CHR ''A'')), (''id'', JStr ''doc-1'')]"

text \<open>The same collaborators with a provider that returns \<open>null\<close>.\<close>

definition silent_provider_env :: ingest_env where
  "silent_provider_env = scenario_env\<lparr>ie_embedTextChunks := (\<lambda>h chunks. Inr None)\<rparr>"

text \<open>Four chunks of 1000 characters and a last one of 80.\<close>

definition uniform_chunks :: "string list" where
  "uniform_chunks =
     [replicate 1000 CHR ''A'', replicate 1000 CHR ''A'', replicate 1000 CHR ''A'',
      replicate 1000 CHR ''A'', replicate 80 CHR ''A'']"

section \<open>Connection discipline, validation and fixtures\<close>

text \<open>
  A Milvus backend that cannot be reached: constructing the client throws.
\<close>

definition unreachable_backend :: milvus_backend where
  "unreachable_backend =
     scenario_backend\<lparr>mb_newClient := (\<lambda>h c. Inl ''14 UNAVAILABLE: No connection established'')\<rparr>"





text \<open>
  Requests that release a backend client, and requests that construct one.
\<close>

fun is_close_request :: "request \<Rightarrow> bool" where
  "is_close_request (CHClose c) = True"
| "is_close_request rq = False"

fun is_open_request :: "request \<Rightarrow> bool" where
  "is_open_request (NewMilvusClient c) = True"
| "is_open_request (CHCreateClient c) = True"
| "is_open_request rq = False"

text \<open>
  The connection discipline of a ClickHouse operation \<open>m\<close> run at history \<open>h\<close>: the
  history only grows; if the settings cannot be read nothing is called; otherwise the
  first call constructs the client and no other client is constructed; and if the
  client was constructed, no call of the run threw and the ping of \<open>connect\<close> reported
  success, then the run closes that client exactly once, as its last call.
\<close>

definition ch_scoped :: "clickhouse_backend \<Rightarrow> connector_instance \<Rightarrow> history \<Rightarrow> 'a io \<Rightarrow> bool" where
  "ch_scoped be this h m =
     (let evs = new_events h m in
      snd (m h) = h @ evs
      \<and> (case settings_obj (conn_settings (inst_config this)) of
           Inl e \<Rightarrow> evs = []
         | Inr settings \<Rightarrow>
             (case cb_createClient be h (clickhouse_clientConfig ''host'' settings) of
                Inl e \<Rightarrow> evs = [Failed (CHCreateClient (clickhouse_clientConfig ''host'' settings)) e]
              | Inr client \<Rightarrow>
                  filter (\<lambda>ev. is_open_request (request_of ev)) evs =
                    [Done (CHCreateClient (clickhouse_clientConfig ''host'' settings))]
                  \<and> hd evs = Done (CHCreateClient (clickhouse_clientConfig ''host'' settings))
                  \<and> (list_all (\<lambda>ev. \<not> failed ev) evs
                       \<and> cb_ping be (h @ [Done (CHCreateClient
                                                 (clickhouse_clientConfig ''host'' settings))])
                           client = Inr True
                       \<longrightarrow> filter (\<lambda>ev. is_close_request (request_of ev)) evs
                             = [Done (CHClose client)]
                           \<and> last evs = Done (CHClose client)))))"

text \<open>
  A computation that neither constructs nor closes a client, throws only when one of
  its calls threw, and returns only when all of them returned.
\<close>

definition quiet :: "'a io \<Rightarrow> bool" where
  "quiet m =
     (\<forall>h. \<exists>evs. snd (m h) = h @ evs
        \<and> (\<forall>ev\<in>set evs. \<not> is_open_request (request_of ev) \<and> \<not> is_close_request (request_of ev))
        \<and> (\<forall>e. fst (m h) = Inl e \<longrightarrow> (\<exists>ev\<in>set evs. failed ev))
        \<and> (\<forall>x. fst (m h) = Inr x \<longrightarrow> (\<forall>ev\<in>set evs. \<not> failed ev)))"

text \<open>
  The shape the ClickHouse operations share: connect, work with the client, close it,
  return the result; the handler of the enclosing \<open>try\<close> returns a value.
\<close>

definition with_client ::
  "clickhouse_backend \<Rightarrow> connector_instance \<Rightarrow> (handle \<Rightarrow> 'a io) \<Rightarrow> ('a \<Rightarrow> 'b) \<Rightarrow> (string \<Rightarrow> 'b)
     \<Rightarrow> 'b io" where
  "with_client be this work result handler =
     io_try
       (io_bind (clickhouse_connect be this)
          (\<lambda>client.
             io_bind (work client)
               (\<lambda>x. io_bind (clickhouse_close be client) (\<lambda>u. io_return (result x)))))
       (\<lambda>e. io_return (handler e))"

text \<open>
  A computation none of whose calls is a request of kind \<open>P\<close>; its history only grows.
\<close>

definition avoids :: "(request \<Rightarrow> bool) \<Rightarrow> 'a io \<Rightarrow> bool" where
  "avoids P m =
     (\<forall>h. \<exists>evs. snd (m h) = h @ evs \<and> (\<forall>ev\<in>set evs. \<not> P (request_of ev)))"

text \<open>
  The connection discipline of a Milvus operation that starts with \<open>connect\<close>: the
  history only grows, no call closes a client, and for a Milvus configuration whose
  settings can be read the first call constructs the client.
\<close>

definition mv_unscoped :: "connector_instance \<Rightarrow> history \<Rightarrow> 'a io \<Rightarrow> bool" where
  "mv_unscoped this h m =
     (let evs = new_events h m in
      snd (m h) = h @ evs
      \<and> list_all (\<lambda>ev. \<not> is_close_request (request_of ev)) evs
      \<and> (conn_type (inst_config this) = ''milvus'' \<longrightarrow>
           (case settings_obj (conn_settings (inst_config this)) of
              Inl e \<Rightarrow> evs = []
            | Inr settings \<Rightarrow>
                evs \<noteq> [] \<and> request_of (hd evs) = NewMilvusClient (milvus_clientConfig settings))))"

text \<open>
  The calls of a connection probe: constructing a client, initialising it, asking it for
  the status of the service, and closing it. No other call of the model is a probe: not
  a load, an insert, a search, a query, a command or a deletion on a backend, and not a
  write to the relational store or to the cache store.
\<close>

fun is_probe_request :: "request \<Rightarrow> bool" where
  "is_probe_request (ChromaNewClient options) = True"
| "is_probe_request (ChromaHeartbeat c) = True"
| "is_probe_request PineconeNewClient = True"
| "is_probe_request (PineconeInit c k e) = True"
| "is_probe_request (PineconeDescribeIndex c i) = True"
| "is_probe_request (QdrantNewClient u k) = True"
| "is_probe_request (QdrantClusterStatus c) = True"
| "is_probe_request (WeaviateNewClient options) = True"
| "is_probe_request (WeaviateLiveChecker c) = True"
| "is_probe_request (NewMilvusClient config) = True"
| "is_probe_request (MilvusCheckHealth c) = True"
| "is_probe_request (CHCreateClient config) = True"
| "is_probe_request (CHPing c) = True"
| "is_probe_request (CHClose c) = True"
| "is_probe_request rq = False"

text \<open>
  Requests that write to the relational store or to the cache store.
\<close>

fun is_persist_request :: "request \<Rightarrow> bool" where
  "is_persist_request (OrganizationConnectionCreate org type settings) = True"
| "is_persist_request (CreateManyDocumentVectors rows) = True"
| "is_persist_request (StoreVectorResult cache fname) = True"
| "is_persist_request rq = False"

text \<open>
  A \<open>JSON.parse\<close> that reads the empty object and rejects everything else.
\<close>

definition parse_empty_object :: "jsval \<Rightarrow> string + jsval" where
  "parse_empty_object v =
     (if v = JStr ''{}'' then Inr (JObj []) else Inl ''SyntaxError: Unexpected token'')"

text \<open>
  A computation that returns a value from every history.
\<close>

definition never_throws :: "'a io \<Rightarrow> bool" where
  "never_throws m = (\<forall>h. \<exists>v. fst (m h) = Inr v)"

text \<open>
  A ClickHouse server that answers every call, and one whose queries fail.
\<close>

definition scenario_clickhouse :: clickhouse_backend where
  "scenario_clickhouse =
     \<lparr>cb_createClient = (\<lambda>h c. Inr (length h)),
      cb_ping = (\<lambda>h c. Inr True),
      cb_query = (\<lambda>h c q. Inr (length h)),
      cb_command = (\<lambda>h c q. Inr ()),
      cb_json = (\<lambda>h r. Inr [[(''name'', JStr ''jobs''), (''engine'', JStr ''MergeTree'')]]),
      cb_close = (\<lambda>h c. Inr ())\<rparr>"

definition failing_query_clickhouse :: clickhouse_backend where
  "failing_query_clickhouse =
     scenario_clickhouse\<lparr>cb_query := (\<lambda>h c q. Inl ''Code: 60. DB::Exception: Unknown table'')\<rparr>"

definition clickhouse_instance :: connector_instance where
  "clickhouse_instance =
     \<lparr>inst_name = ''clickhouse'',
      inst_config = \<lparr>conn_type = ''clickhouse'',
                     conn_settings = JObj [(''host'', JStr ''localhost'')]\<rparr>\<rparr>"

text \<open>
  A \<open>parseInt\<close> that reads numbers only.
\<close>

definition zero_parse_int :: "jsval \<Rightarrow> jsnum" where
  "zero_parse_int v = (case v of JNum n \<Rightarrow> n | _ \<Rightarrow> NaN)"

text \<open>
  Probed services: Chroma is offline, the others are ready; the relational store
  creates the record it is asked for.
\<close>

definition scenario_validators :: validator_env where
  "scenario_validators =
     \<lparr>ve_chromaNew = (\<lambda>h options. Inr (length h)),
      ve_chromaHeartbeat = (\<lambda>h c. Inl ''fetch failed''),
      ve_pineconeNew = (\<lambda>h. Inr (length h)),
      ve_pineconeInit = (\<lambda>h c k e. Inr ()),
      ve_pineconeDescribeIndex = (\<lambda>h c i. Inr True),
      ve_qdrantNew = (\<lambda>h u k. Inr (length h)),
      ve_qdrantClusterStatus = (\<lambda>h c. Inr True),
      ve_parseUrl = (\<lambda>u. Inr (''https:'', ''weaviate.local'')),
      ve_weaviateNew = (\<lambda>h options. Inr (length h)),
      ve_weaviateLive = (\<lambda>h c. Inr True),
      ve_createConnection = (\<lambda>h org type settings. Inr (JObj [(''type'', type)]))\<rparr>"

text \<open>
  An organization and the configurations submitted for it: a Chroma instance (offline
  in the scenario), a QDrant cluster (ready), a Milvus configuration without settings,
  and a type that is not supported.
\<close>

definition scenario_organization :: jsval where
  "scenario_organization = JObj [(''id'', JNum (Fin 1))]"

definition chroma_config :: jsval where
  "chroma_config =
     JObj [(''type'', JStr ''chroma''),
           (''settings'', JObj [(''instanceURL'', JStr ''http://chroma:8000'')])]"

definition qdrant_config :: jsval where
  "qdrant_config =
     JObj [(''type'', JStr ''qdrant''),
           (''settings'', JObj [(''clusterUrl'', JStr ''http://qdrant:6333'')])]"

definition milvus_config_without_settings :: jsval where
  "milvus_config_without_settings = JObj [(''type'', JStr ''milvus''), (''settings'', JNull)]"

definition redis_config :: jsval where
  "redis_config = JObj [(''type'', JStr ''redis''), (''settings'', JObj [])]"


section \<open>Properties of the score normaliser\<close>

lemma num_le_zero_not_ge_one: "num_le x (Fin 0) \<Longrightarrow> \<not> num_ge x (Fin 1)"
  by (cases x) (simp_all add: num_ge_def)

text \<open>
  Claim C1. For every numeric raw score \<open>x\<close>, \<open>distanceToScore\<close> returns 1 when
  \<open>x >= 1.0\<close>, returns 0 when \<open>x <= 0\<close>, and returns \<open>x\<close> unchanged otherwise; input 1.5
  yields 1, input -0.2 yields 0 and input 0.42 yields 0.42.
\<close>

theorem distanceToScore_clamp:
  "(num_ge x (Fin 1) \<longrightarrow> distanceToScore (JNum x) = Fin 1)
   \<and> (num_le x (Fin 0) \<longrightarrow> distanceToScore (JNum x) = Fin 0)
   \<and> (\<not> num_ge x (Fin 1) \<and> \<not> num_le x (Fin 0) \<longrightarrow> distanceToScore (JNum x) = x)
   \<and> distanceToScore (JNum (Fin 1.5)) = Fin 1
   \<and> distanceToScore (JNum (Fin (- 0.2))) = Fin 0
   \<and> distanceToScore (JNum (Fin 0.42)) = Fin 0.42"
proof -
  have hi: "num_ge x (Fin 1) \<longrightarrow> distanceToScore (JNum x) = Fin 1"
    by (simp add: distanceToScore_def)
  have lo: "num_le x (Fin 0) \<longrightarrow> distanceToScore (JNum x) = Fin 0"
    using num_le_zero_not_ge_one [of x] by (simp add: distanceToScore_def)
  have mid: "\<not> num_ge x (Fin 1) \<and> \<not> num_le x (Fin 0) \<longrightarrow> distanceToScore (JNum x) = x"
    by (simp add: distanceToScore_def)
  have ex: "distanceToScore (JNum (Fin 1.5)) = Fin 1"
    "distanceToScore (JNum (Fin (- 0.2))) = Fin 0"
    "distanceToScore (JNum (Fin 0.42)) = Fin 0.42"
    by (simp_all add: distanceToScore_def num_ge_def)
  from hi lo mid ex show ?thesis by blast
qed

theorem distanceToScore_clamp_witness:
  "num_ge (Fin 7) (Fin 1) \<and> distanceToScore (JNum (Fin 7)) = Fin 1
   \<and> num_le NegInf (Fin 0) \<and> distanceToScore (JNum NegInf) = Fin 0
   \<and> \<not> num_ge NaN (Fin 1) \<and> \<not> num_le NaN (Fin 0) \<and> distanceToScore (JNum NaN) = NaN
   \<and> \<not> num_ge (Fin (1/4)) (Fin 1) \<and> \<not> num_le (Fin (1/4)) (Fin 0)
   \<and> distanceToScore (JNum (Fin (1/4))) = Fin (1/4)"
  using distanceToScore_clamp [of "Fin 7"] distanceToScore_clamp [of NegInf]
    distanceToScore_clamp [of NaN] distanceToScore_clamp [of "Fin (1/4)"]
  by (simp add: num_ge_def)

section \<open>The ingestion pipeline: histories of runs\<close>

lemma io_bind_return: "io_bind (io_return x) f h = f x h"
  by (simp add: io_bind_def io_return_def)

lemma io_bind_throw: "io_bind (io_throw e) f h = (Inl e, h)"
  by (simp add: io_bind_def io_throw_def)

lemma io_bind_call:
  "io_bind (io_call rq orc) f h =
     (case orc h of Inl e \<Rightarrow> (Inl e, h @ [Failed rq e]) | Inr x \<Rightarrow> f x (h @ [Done rq]))"
  by (simp add: io_bind_def io_call_def split: sum.splits)

lemma concat_toChunks: "0 < n \<Longrightarrow> concat (toChunks xs n) = xs"
proof (induction xs n rule: toChunks.induct)
  case (1 arr sz)
  show ?case
  proof (cases "arr = []")
    case True
    then show ?thesis by (simp add: toChunks.simps)
  next
    case False
    with 1 show ?thesis by (subst toChunks.simps) simp
  qed
qed

lemma record_vectors_run:
  "aligned b \<Longrightarrow>
   \<exists>b'. record_vectors E md docid db chunks i vs b h
           = (Inr b', h @ replicate (length vs) (Done UuidV4))
      \<and> aligned b' \<and> length (vectors b') = length (vectors b) + length vs"
proof (induction vs arbitrary: b h i)
  case Nil
  then show ?case by (simp add: io_return_def)
next
  case (Cons v vs)
  let ?b = "\<lparr>vectors = vectors b @
               [\<lparr>vr_id = ie_v4 E h, vr_values = v,
                 vr_metadata = AList.update ''text'' (chunk_at chunks i) md\<rparr>],
             documentVectors = documentVectors b @
               [\<lparr>dv_docId = docid, dv_vectorId = ie_v4 E h, dv_documentId = db_id db,
                 dv_workspaceId = db_workspace_id db,
                 dv_organizationId = db_organization_id db\<rparr>],
             cacheInfo = cacheInfo b @
               [\<lparr>ce_vectorDbId = ie_v4 E h, ce_values = v,
                 ce_metadata = AList.update ''text'' (chunk_at chunks i) md\<rparr>]\<rparr>"
  from Cons.prems have "aligned ?b" by (simp add: aligned_def)
  from Cons.IH [OF this, of "Suc i" "h @ [Done UuidV4]"]
  show ?case by (auto simp: io_bind_call replicate_app_Cons_same)
qed

lemma inserted_ids_append: "inserted_ids (xs @ ys) = inserted_ids xs @ inserted_ids ys"
  by (simp add: inserted_ids_def)

lemma inserted_ids_none: "\<forall>ev\<in>set xs. \<not> is_insert ev \<Longrightarrow> inserted_ids xs = []"
  by (induction xs) (auto simp: inserted_ids_def)

lemma wfi_no_writes: "\<forall>ev\<in>set A. \<not> is_write ev \<Longrightarrow> writes_follow_inserts A"
proof -
  assume a: "\<forall>ev\<in>set A. \<not> is_write ev"
  then have d: "dropWhile (\<lambda>ev. \<not> is_write ev) A = []" by simp
  show ?thesis unfolding writes_follow_inserts_def Let_def d by simp
qed

lemma wfi_writes:
  assumes "\<forall>ev\<in>set A. \<not> is_write ev"
    and "\<forall>ev\<in>set A. \<not> (is_insert ev \<and> failed ev)"
    and "\<forall>ev\<in>set W. is_write ev \<and> \<not> is_insert ev \<and> request_ids (request_of ev) = inserted_ids A"
  shows "writes_follow_inserts (A @ W)"
proof (cases W)
  case Nil
  with assms(1) show ?thesis by (simp add: wfi_no_writes)
next
  case (Cons w ws)
  with assms(3) have w: "is_write w" by simp
  from assms(1) have tw: "takeWhile (\<lambda>ev. \<not> is_write ev) (A @ W) = A"
    using Cons w by (simp add: takeWhile_append2)
  from assms(1) have dw: "dropWhile (\<lambda>ev. \<not> is_write ev) (A @ W) = W"
    using Cons w by (simp add: dropWhile_append2)
  from assms(2,3) show ?thesis
    unfolding writes_follow_inserts_def Let_def tw dw
    by (simp add: list_all_iff)
qed

lemma insert_batches_run:
  "\<exists>evs r. insert_batches be s c coll bs h = (r, h @ evs)
     \<and> (\<forall>ev\<in>set evs. is_insert ev)
     \<and> (case r of
          Inl e \<Rightarrow> True
        | Inr u \<Rightarrow> (\<forall>ev\<in>set evs. \<not> failed ev) \<and> inserted_ids evs = map vr_id (concat bs))"
proof (induction bs arbitrary: h)
  case Nil
  then show ?case by (simp add: io_return_def inserted_ids_def)
next
  case (Cons chunk rest)
  show ?case
  proof (cases "mb_insert be h c coll (insertData s chunk)")
    case (Inl e)
    then show ?thesis
      by (simp add: io_bind_call is_insert_def)
  next
    case (Inr u)
    from Cons.IH [of "h @ [Done (MilvusInsert c coll (insertData s chunk))]"]
    obtain evs r where
      run: "insert_batches be s c coll rest (h @ [Done (MilvusInsert c coll (insertData s chunk))])
              = (r, (h @ [Done (MilvusInsert c coll (insertData s chunk))]) @ evs)"
      and ins: "\<forall>ev\<in>set evs. is_insert ev"
      and ok: "case r of Inl e \<Rightarrow> True
               | Inr u \<Rightarrow> (\<forall>ev\<in>set evs. \<not> failed ev) \<and> inserted_ids evs = map vr_id (concat rest)"
      by blast
    have ids: "inserted_ids [Done (MilvusInsert c coll (insertData s chunk))] = map vr_id chunk"
      by (simp add: inserted_ids_def is_insert_def insertData_def comp_def)
    show ?thesis
    proof (intro exI conjI)
      show "insert_batches be s c coll (chunk # rest) h
              = (r, h @ (Done (MilvusInsert c coll (insertData s chunk)) # evs))"
        using Inr run by (simp add: io_bind_call)
      show "\<forall>ev\<in>set (Done (MilvusInsert c coll (insertData s chunk)) # evs). is_insert ev"
        using ins by (simp add: is_insert_def)
      show "case r of Inl e \<Rightarrow> True
            | Inr u \<Rightarrow> (\<forall>ev\<in>set (Done (MilvusInsert c coll (insertData s chunk)) # evs). \<not> failed ev)
                \<and> inserted_ids (Done (MilvusInsert c coll (insertData s chunk)) # evs)
                    = map vr_id (concat (chunk # rest))"
        using ok ids inserted_ids_append [of "[Done (MilvusInsert c coll (insertData s chunk))]" evs]
        by (cases r) simp_all
    qed
  qed
qed

lemma milvus_connect_run:
  "\<exists>evs r. milvus_connect be this h = (r, h @ evs)
     \<and> (\<forall>ev\<in>set evs. is_connect_request (request_of ev))"
  by (auto simp: milvus_connect_def io_throw_def io_return_def io_bind_call
        split: sum.splits)

lemma io_bind_Inr: "m h = (Inr x, h') \<Longrightarrow> io_bind m f h = f x h'"
  by (simp add: io_bind_def)

lemma io_bind_Inl: "m h = (Inl e, h') \<Longrightarrow> io_bind m f h = (Inl e, h')"
  by (simp add: io_bind_def)

lemma connect_request_kind:
  "is_connect_request rq \<Longrightarrow> \<not> is_write_request rq \<and> \<not> is_insert_request rq"
  by (cases rq) simp_all

lemma insert_request_kind: "is_insert_request rq \<Longrightarrow> \<not> is_write_request rq"
  by (cases rq) simp_all

lemma milvus_store_run:
  assumes al: "aligned b"
  shows "\<exists>evs r. milvus_store be E this coll db b h = (r, h @ evs)
     \<and> writes_follow_inserts evs
     \<and> (case r of
          Inl e \<Rightarrow> True
        | Inr res \<Rightarrow> res = \<lparr>success = True, message = None\<rparr>
            \<and> filter is_write evs =
                [Done (CreateManyDocumentVectors (documentVectors b)),
                 Done (StoreVectorResult (cacheInfo b) (ie_vectorFilename E db))]
            \<and> inserted_ids evs = map vr_id (vectors b))"
proof -
  let ?load = "MilvusLoadCollection"
  let ?cm = "CreateManyDocumentVectors (documentVectors b)"
  let ?st = "StoreVectorResult (cacheInfo b) (ie_vectorFilename E db)"
  obtain C rc where conn: "milvus_connect be this h = (rc, h @ C)"
    and Ck: "\<forall>ev\<in>set C. is_connect_request (request_of ev)"
    using milvus_connect_run [of be this h] by blast
  from Ck have Cw: "\<forall>ev\<in>set C. \<not> is_write ev" and Ci: "\<forall>ev\<in>set C. \<not> is_insert ev"
    using connect_request_kind by (auto simp: is_write_def is_insert_def)
  show ?thesis
  proof (cases rc)
    case (Inl e)
    with conn have run: "milvus_store be E this coll db b h = (Inl e, h @ C)"
      by (simp add: milvus_store_def io_bind_Inl)
    from Cw have "writes_follow_inserts C" by (rule wfi_no_writes)
    with run show ?thesis by fastforce
  next
    case (Inr client)
    note conn' = conn [unfolded Inr]
    show ?thesis
    proof (cases "mb_loadCollection be (h @ C) client coll")
      case (Inl e)
      with conn' have "milvus_store be E this coll db b h
          = (Inl e, h @ (C @ [Failed (?load client coll) e]))"
        by (simp add: milvus_store_def io_bind_Inr io_bind_call)
      moreover have "writes_follow_inserts (C @ [Failed (?load client coll) e])"
        using Cw by (intro wfi_no_writes) (simp add: is_write_def)
      ultimately show ?thesis by fastforce
    next
      case ld: (Inr u)
      let ?h1 = "h @ C @ [Done (?load client coll)]"
      obtain I ri where ins: "insert_batches be (ie_stringify E) client coll
            (toChunks (vectors b) 500) ?h1 = (ri, ?h1 @ I)"
        and Ik: "\<forall>ev\<in>set I. is_insert ev"
        and Iok: "case ri of Inl e \<Rightarrow> True
                  | Inr u \<Rightarrow> (\<forall>ev\<in>set I. \<not> failed ev)
                      \<and> inserted_ids I = map vr_id (concat (toChunks (vectors b) 500))"
        using insert_batches_run [of be "ie_stringify E" client coll "toChunks (vectors b) 500" ?h1]
        by blast
      from Ik have Iw: "\<forall>ev\<in>set I. \<not> is_write ev"
        using insert_request_kind by (auto simp: is_write_def is_insert_def)
      let ?A = "C @ Done (?load client coll) # I"
      have Aw: "\<forall>ev\<in>set ?A. \<not> is_write ev"
        using Cw Iw by (auto simp: is_write_def)
      show ?thesis
      proof (cases ri)
        case (Inl e)
        with conn' ld ins have run: "milvus_store be E this coll db b h = (Inl e, h @ ?A)"
          by (simp add: milvus_store_def io_bind_Inr io_bind_call io_bind_Inl)
        from Aw have "writes_follow_inserts ?A" by (rule wfi_no_writes)
        with run show ?thesis by fastforce
      next
        case (Inr u2)
        with Iok have Inf: "\<forall>ev\<in>set I. \<not> failed ev"
          and Iids: "inserted_ids I = map vr_id (vectors b)"
          by (simp_all add: concat_toChunks)
        have Af: "\<forall>ev\<in>set ?A. \<not> (is_insert ev \<and> failed ev)"
          using Ci Inf by auto
        have Aids: "inserted_ids ?A = map vr_id (vectors b)"
          using Ci Iids by (simp add: inserted_ids_append inserted_ids_none)
            (simp add: inserted_ids_def is_insert_def)
        from al have cm_ids: "request_ids ?cm = inserted_ids ?A"
          and st_ids: "request_ids ?st = inserted_ids ?A"
          using Aids by (simp_all add: aligned_def)
        note ins' = ins [unfolded Inr]
        show ?thesis
        proof (cases "ie_createMany E (h @ ?A) (documentVectors b)")
          case (Inl e)
          with conn' ld ins' have run: "milvus_store be E this coll db b h
              = (Inl e, h @ (?A @ [Failed ?cm e]))"
            by (simp add: milvus_store_def io_bind_Inr io_bind_call)
          have "writes_follow_inserts (?A @ [Failed ?cm e])"
            using Aw Af cm_ids by (intro wfi_writes) (simp_all add: is_write_def is_insert_def)
          with run show ?thesis by fastforce
        next
          case cm: (Inr u3)
          show ?thesis
          proof (cases "ie_storeVectorResult E (h @ ?A @ [Done ?cm]) (cacheInfo b)
                          (ie_vectorFilename E db)")
            case (Inl e)
            with conn' ld ins' cm have run: "milvus_store be E this coll db b h
                = (Inl e, h @ (?A @ [Done ?cm, Failed ?st e]))"
              by (simp add: milvus_store_def io_bind_Inr io_bind_call)
            have "writes_follow_inserts (?A @ [Done ?cm, Failed ?st e])"
              using Aw Af cm_ids st_ids
              by (intro wfi_writes) (simp_all add: is_write_def is_insert_def)
            with run show ?thesis by fastforce
          next
            case st: (Inr u4)
            with conn' ld ins' cm have run: "milvus_store be E this coll db b h
                = (Inr \<lparr>success = True, message = None\<rparr>, h @ (?A @ [Done ?cm, Done ?st]))"
              by (simp add: milvus_store_def io_bind_Inr io_bind_call io_return_def)
            have w: "writes_follow_inserts (?A @ [Done ?cm, Done ?st])"
              using Aw Af cm_ids st_ids
              by (intro wfi_writes) (simp_all add: is_write_def is_insert_def)
            have f: "filter is_write (?A @ [Done ?cm, Done ?st]) = [Done ?cm, Done ?st]"
              using Cw Iw by (simp add: is_write_def)
            have i: "inserted_ids (?A @ [Done ?cm, Done ?st]) = map vr_id (vectors b)"
              using Aids inserted_ids_append [of ?A "[Done ?cm, Done ?st]"]
              by (simp add: inserted_ids_def is_insert_def)
            from run w f i show ?thesis by fastforce
          qed
        qed
      qed
    qed
  qed
qed

lemma wfi_prefix:
  assumes "\<forall>ev\<in>set P. \<not> is_write ev" and "\<forall>ev\<in>set P. \<not> is_insert ev"
    and "writes_follow_inserts S"
  shows "writes_follow_inserts (P @ S)"
proof -
  from assms(1) have tw: "takeWhile (\<lambda>ev. \<not> is_write ev) (P @ S)
      = P @ takeWhile (\<lambda>ev. \<not> is_write ev) S"
    by (simp add: takeWhile_append2)
  from assms(1) have dw: "dropWhile (\<lambda>ev. \<not> is_write ev) (P @ S)
      = dropWhile (\<lambda>ev. \<not> is_write ev) S"
    by (simp add: dropWhile_append2)
  from assms(2) have ids: "\<And>X. inserted_ids (P @ X) = inserted_ids X"
    by (simp add: inserted_ids_append inserted_ids_none)
  from assms(2) have nf: "list_all (\<lambda>ev. \<not> (is_insert ev \<and> failed ev)) P"
    by (simp add: list_all_iff)
  from assms(3) show ?thesis
    unfolding writes_follow_inserts_def Let_def tw dw ids
    using nf by auto
qed

lemma io_try_Inr: "m h = (Inr x, h') \<Longrightarrow> io_try m f h = (Inr x, h')"
  by (simp add: io_try_def)

lemma io_try_Inl: "m h = (Inl e, h') \<Longrightarrow> io_try m f h = f e h'"
  by (simp add: io_try_def)

lemma pipeline_body_run:
  "\<exists>evs r. pipeline_body be E this coll doc db chunks vs h = (r, h @ evs)
     \<and> writes_follow_inserts evs
     \<and> (case r of Inl e \<Rightarrow> True
         | Inr res \<Rightarrow> res = \<lparr>success = True, message = None\<rparr> \<and> one_row_per_inserted_vector evs
             \<and> length (inserted_ids evs) = length vs)"
proof -
  let ?b0 = "\<lparr>vectors = [], documentVectors = [], cacheInfo = []\<rparr>"
  let ?U = "replicate (length vs) (Done UuidV4)"
  have "aligned ?b0" by (simp add: aligned_def)
  from record_vectors_run [OF this, of E "rest_metadata doc" "get_prop doc ''id''" db chunks 0 vs h]
  obtain b where rv: "record_vectors E (rest_metadata doc) (get_prop doc ''id'') db chunks 0 vs ?b0 h
      = (Inr b, h @ ?U)" and al: "aligned b" and len: "length (vectors b) = length vs"
    by auto
  from milvus_store_run [OF al, of be E this coll db "h @ ?U"]
  obtain S r where st: "milvus_store be E this coll db b (h @ ?U) = (r, (h @ ?U) @ S)"
    and w: "writes_follow_inserts S"
    and ok: "case r of Inl e \<Rightarrow> True
         | Inr res \<Rightarrow> res = \<lparr>success = True, message = None\<rparr>
            \<and> filter is_write S =
                [Done (CreateManyDocumentVectors (documentVectors b)),
                 Done (StoreVectorResult (cacheInfo b) (ie_vectorFilename E db))]
            \<and> inserted_ids S = map vr_id (vectors b)"
    by blast
  have Uw: "\<forall>ev\<in>set ?U. \<not> is_write ev" and Ui: "\<forall>ev\<in>set ?U. \<not> is_insert ev"
    by (simp_all add: is_write_def is_insert_def)
  have run: "pipeline_body be E this coll doc db chunks vs h = (r, h @ (?U @ S))"
    using rv st by (simp add: io_bind_Inr)
  have w': "writes_follow_inserts (?U @ S)"
    using Uw Ui w by (rule wfi_prefix)
  have ids: "inserted_ids (?U @ S) = inserted_ids S"
    using Ui by (simp add: inserted_ids_append inserted_ids_none)
  have fw: "filter is_write (?U @ S) = filter is_write S"
    using Uw by simp
  have ok': "case r of Inl e \<Rightarrow> True
         | Inr res \<Rightarrow> res = \<lparr>success = True, message = None\<rparr> \<and> one_row_per_inserted_vector (?U @ S)
             \<and> length (inserted_ids (?U @ S)) = length vs"
  proof (cases r)
    case (Inl e)
    then show ?thesis by simp
  next
    case (Inr res)
    with ok al len show ?thesis
      unfolding one_row_per_inserted_vector_def ids fw by (simp add: aligned_def)
  qed
  from run w' ok' show ?thesis by blast
qed

lemma processDocument_unfold:
  "milvus_processDocument be E this coll doc key db h =
     (case ie_newOpenAi E h key of
        Inl e \<Rightarrow> (Inr \<lparr>success = False, message = Some e\<rparr>, h @ [Failed (NewOpenAi key) e])
      | Inr u \<Rightarrow>
         (case ie_splitText E (h @ [Done (NewOpenAi key)]) splitter_options
                 (get_prop doc ''pageContent'') of
            Inl e \<Rightarrow> (Inr \<lparr>success = False, message = Some e\<rparr>,
                       h @ [Done (NewOpenAi key),
                            Failed (SplitText splitter_options (get_prop doc ''pageContent'')) e])
          | Inr chunks \<Rightarrow>
             (case ie_embedTextChunks E
                     (h @ [Done (NewOpenAi key),
                           Done (SplitText splitter_options (get_prop doc ''pageContent''))])
                     chunks of
                Inl e \<Rightarrow> (Inr \<lparr>success = False, message = Some e\<rparr>,
                       h @ [Done (NewOpenAi key),
                            Done (SplitText splitter_options (get_prop doc ''pageContent'')),
                            Failed (EmbedTextChunks chunks) e])
              | Inr vv \<Rightarrow>
                 (if vv = None \<or> vv = Some []
                  then (Inr \<lparr>success = False, message = Some ''Failed to generate embeddings''\<rparr>,
                        h @ [Done (NewOpenAi key),
                             Done (SplitText splitter_options (get_prop doc ''pageContent'')),
                             Done (EmbedTextChunks chunks)])
                  else
                    (case pipeline_body be E this coll doc db chunks (the vv)
                            (h @ [Done (NewOpenAi key),
                                  Done (SplitText splitter_options (get_prop doc ''pageContent'')),
                                  Done (EmbedTextChunks chunks)]) of
                       (Inl e, h') \<Rightarrow> (Inr \<lparr>success = False, message = Some e\<rparr>, h')
                     | (Inr res, h') \<Rightarrow> (Inr res, h'))))))"
  by (auto simp: milvus_processDocument_def io_try_def io_bind_call
        io_return_def split: sum.splits option.splits prod.splits)

lemma processDocument_run:
  "\<exists>r evs. milvus_processDocument be E this coll doc key db h = (Inr r, h @ evs)
     \<and> writes_follow_inserts evs
     \<and> (success r \<longrightarrow>
           one_row_per_inserted_vector evs
           \<and> (\<exists>chunks vs.
                 ie_embedTextChunks E
                   (h @ [Done (NewOpenAi key),
                         Done (SplitText splitter_options (get_prop doc ''pageContent''))])
                   chunks = Inr (Some vs)
                 \<and> take 3 evs =
                     [Done (NewOpenAi key),
                      Done (SplitText splitter_options (get_prop doc ''pageContent'')),
                      Done (EmbedTextChunks chunks)]
                 \<and> length (inserted_ids evs) = length vs))
     \<and> (\<forall>u. ie_newOpenAi E h key = Inr u \<longrightarrow>
           (\<exists>ev rest. evs = Done (NewOpenAi key) # ev # rest
              \<and> request_of ev = SplitText splitter_options (get_prop doc ''pageContent'')))"
  (is "\<exists>r evs. ?R r evs")
proof -
  let ?pc = "get_prop doc ''pageContent''"
  let ?run = "milvus_processDocument be E this coll doc key db h"
  let ?goal = "\<exists>r evs. ?R r evs"
  have small: "\<And>P res. ?run = (Inr res, h @ P) \<Longrightarrow> \<not> success res
      \<Longrightarrow> \<forall>ev\<in>set P. \<not> is_write ev
      \<Longrightarrow> (\<forall>u. ie_newOpenAi E h key = Inr u \<longrightarrow>
           (\<exists>ev rest. P = Done (NewOpenAi key) # ev # rest
              \<and> request_of ev = SplitText splitter_options ?pc))
      \<Longrightarrow> ?goal"
  proof -
    fix P res
    assume run: "?run = (Inr res, h @ P)" and ns: "\<not> success res"
      and nw: "\<forall>ev\<in>set P. \<not> is_write ev"
      and sp: "\<forall>u. ie_newOpenAi E h key = Inr u \<longrightarrow>
           (\<exists>ev rest. P = Done (NewOpenAi key) # ev # rest
              \<and> request_of ev = SplitText splitter_options ?pc)"
    from nw have "writes_follow_inserts P" by (rule wfi_no_writes)
    with run ns sp have R: "?R res P" by simp
    show ?goal by (rule exI [of _ res], rule exI [of _ P]) (rule R)
  qed
  show ?thesis
  proof (cases "ie_newOpenAi E h key")
    case (Inl e)
    show ?thesis
      by (rule small [of "\<lparr>success = False, message = Some e\<rparr>" "[Failed (NewOpenAi key) e]"])
        (simp_all add: processDocument_unfold Inl is_write_def)
  next
    case o: (Inr u)
    show ?thesis
    proof (cases "ie_splitText E (h @ [Done (NewOpenAi key)]) splitter_options ?pc")
      case (Inl e)
      show ?thesis
        by (rule small [of "\<lparr>success = False, message = Some e\<rparr>"
              "[Done (NewOpenAi key), Failed (SplitText splitter_options ?pc) e]"])
          (simp_all add: processDocument_unfold o Inl is_write_def)
    next
      case s: (Inr chunks)
      let ?h2 = "h @ [Done (NewOpenAi key), Done (SplitText splitter_options ?pc)]"
      show ?thesis
      proof (cases "ie_embedTextChunks E ?h2 chunks")
        case (Inl e)
        show ?thesis
          by (rule small [of "\<lparr>success = False, message = Some e\<rparr>"
                "[Done (NewOpenAi key), Done (SplitText splitter_options ?pc),
                  Failed (EmbedTextChunks chunks) e]"])
            (simp_all add: processDocument_unfold o s Inl is_write_def)
      next
        case em: (Inr vv)
        let ?P = "[Done (NewOpenAi key), Done (SplitText splitter_options ?pc),
                   Done (EmbedTextChunks chunks)]"
        have Pw: "\<forall>ev\<in>set ?P. \<not> is_write ev" and Pi: "\<forall>ev\<in>set ?P. \<not> is_insert ev"
          by (simp_all add: is_write_def is_insert_def)
        show ?thesis
        proof (cases "vv = None \<or> vv = Some []")
          case True
          show ?thesis
            by (rule small [of "\<lparr>success = False,
                  message = Some ''Failed to generate embeddings''\<rparr>" ?P])
              (use True in \<open>simp_all add: processDocument_unfold o s em is_write_def\<close>)
        next
          case False
          then obtain vs where vv: "vv = Some vs" and ne: "vs \<noteq> []"
            by (cases vv) auto
          note em' = em [unfolded vv]
          from pipeline_body_run [where be = be and E = E and this = this and coll = coll
              and doc = doc and db = db and chunks = chunks and vs = vs and h = "h @ ?P"]
          obtain S r where body: "pipeline_body be E this coll doc db chunks vs (h @ ?P)
                = (r, (h @ ?P) @ S)"
            and w: "writes_follow_inserts S"
            and ok: "case r of Inl e \<Rightarrow> True
               | Inr res \<Rightarrow> res = \<lparr>success = True, message = None\<rparr> \<and> one_row_per_inserted_vector S
                   \<and> length (inserted_ids S) = length vs"
            by blast
          from Pw Pi w have w': "writes_follow_inserts (?P @ S)" by (rule wfi_prefix)
          have ids: "inserted_ids (?P @ S) = inserted_ids S"
            using Pi by (simp only: inserted_ids_append inserted_ids_none) simp
          have fw: "filter is_write (?P @ S) = filter is_write S"
            by (simp add: is_write_def)
          show ?thesis
          proof (cases r)
            case (Inl e)
            with body ne have "?run = (Inr \<lparr>success = False, message = Some e\<rparr>, h @ (?P @ S))"
              by (simp add: processDocument_unfold o s em')
            with w' have R: "?R \<lparr>success = False, message = Some e\<rparr> (?P @ S)" by simp
            show ?thesis
              by (rule exI [of _ "\<lparr>success = False, message = Some e\<rparr>"],
                  rule exI [of _ "?P @ S"]) (rule R)
          next
            case (Inr res)
            with body ne have run: "?run = (Inr res, h @ (?P @ S))"
              by (simp add: processDocument_unfold o s em')
            from ok Inr have "one_row_per_inserted_vector S"
              and len: "length (inserted_ids S) = length vs" by simp_all
            then have "one_row_per_inserted_vector (?P @ S)"
              unfolding one_row_per_inserted_vector_def ids fw by simp
            with run w' em' len ids have R: "?R res (?P @ S)" by auto
            show ?thesis by (rule exI [of _ res], rule exI [of _ "?P @ S"]) (rule R)
          qed
        qed
      qed
    qed
  qed
qed

lemma split_overlapping_Nil: "split_overlapping sz ov [] = []"
  by (simp add: split_overlapping.simps)

lemma split_overlapping_short:
  "text \<noteq> [] \<Longrightarrow> length text \<le> sz \<Longrightarrow> split_overlapping sz ov text = [text]"
  by (simp add: split_overlapping.simps)

lemma split_overlapping_long:
  "sz < length text \<Longrightarrow> ov < sz \<Longrightarrow>
   split_overlapping sz ov text = take sz text # split_overlapping sz ov (drop (sz - ov) text)"
  by (subst split_overlapping.simps) auto

lemma toChunks_Nil: "toChunks [] n = []"
  by (simp add: toChunks.simps)

lemma toChunks_Cons:
  "0 < n \<Longrightarrow> toChunks (x # xs) n = take n (x # xs) # toChunks (drop n (x # xs)) n"
  by (subst toChunks.simps) simp

lemma split_uniform_document:
  "split_overlapping 1000 20 (replicate 4000 CHR ''A'') =
     [replicate 1000 CHR ''A'', replicate 1000 CHR ''A'', replicate 1000 CHR ''A'',
      replicate 1000 CHR ''A'', replicate 80 CHR ''A'']"
  by (simp add: split_overlapping_long split_overlapping_short)

text \<open>
  Claim C2. If the embedding provider returns \<open>null\<close> or an empty list of vectors,
  \<open>processDocument\<close> returns \<open>{success: false}\<close> and performs no backend mutation: the run
  consists of the construction of the embedder, the split and the embedding request, so
  no backend connection is opened, no insert is issued, no DocumentVectors row is
  created and no cache artifact is written.
\<close>

theorem processDocument_no_vectors:
  assumes "ie_newOpenAi E h key = Inr u"
    and "ie_splitText E (h @ [Done (NewOpenAi key)]) splitter_options
           (get_prop doc ''pageContent'') = Inr chunks"
    and "ie_embedTextChunks E
           (h @ [Done (NewOpenAi key),
                 Done (SplitText splitter_options (get_prop doc ''pageContent''))])
           chunks = Inr vv"
    and "vv = None \<or> vv = Some []"
  shows "milvus_processDocument be E this coll doc key db h =
           (Inr \<lparr>success = False, message = Some ''Failed to generate embeddings''\<rparr>,
            h @ [Done (NewOpenAi key),
                 Done (SplitText splitter_options (get_prop doc ''pageContent'')),
                 Done (EmbedTextChunks chunks)])
     \<and> (\<forall>ev\<in>set (new_events h (milvus_processDocument be E this coll doc key db)).
           \<not> is_backend_request (request_of ev) \<and> \<not> is_write_request (request_of ev))"
proof -
  have run: "milvus_processDocument be E this coll doc key db h =
           (Inr \<lparr>success = False, message = Some ''Failed to generate embeddings''\<rparr>,
            h @ [Done (NewOpenAi key),
                 Done (SplitText splitter_options (get_prop doc ''pageContent'')),
                 Done (EmbedTextChunks chunks)])"
    using assms by (simp add: processDocument_unfold)
  then show ?thesis by (simp add: new_events_def)
qed

theorem processDocument_no_vectors_witness:
  "ie_newOpenAi silent_provider_env [] JNull = Inr ()
   \<and> ie_splitText silent_provider_env [Done (NewOpenAi JNull)] splitter_options
        (get_prop (uniform_document 5) ''pageContent'') = Inr [''AAAAA'']
   \<and> ie_embedTextChunks silent_provider_env
        [Done (NewOpenAi JNull),
         Done (SplitText splitter_options (get_prop (uniform_document 5) ''pageContent''))]
        [''AAAAA''] = Inr None
   \<and> milvus_processDocument scenario_backend silent_provider_env scenario_instance
        (JStr ''docs'') (uniform_document 5) JNull scenario_dbDocument [] =
        (Inr \<lparr>success = False, message = Some ''Failed to generate embeddings''\<rparr>,
         [Done (NewOpenAi JNull),
          Done (SplitText splitter_options (get_prop (uniform_document 5) ''pageContent'')),
          Done (EmbedTextChunks [''AAAAA''])])"
proof -
  have a: "ie_newOpenAi silent_provider_env [] JNull = Inr ()"
    by (simp add: silent_provider_env_def scenario_env_def)
  have b: "ie_splitText silent_provider_env ([] @ [Done (NewOpenAi JNull)]) splitter_options
        (get_prop (uniform_document 5) ''pageContent'') = Inr [''AAAAA'']"
    by (simp add: silent_provider_env_def scenario_env_def spec_splitText_def get_prop_def
          uniform_document_def splitter_options_def split_overlapping_short
          numeral_eq_Suc)
  have c: "ie_embedTextChunks silent_provider_env
        ([] @ [Done (NewOpenAi JNull),
         Done (SplitText splitter_options (get_prop (uniform_document 5) ''pageContent''))])
        [''AAAAA''] = Inr None"
    by (simp add: silent_provider_env_def scenario_env_def)
  have d: "(None :: embedding list option) = None \<or> None = Some []" by simp
  from processDocument_no_vectors [OF a b c d, of scenario_backend scenario_instance
      "JStr ''docs''" scenario_dbDocument]
  show ?thesis using a b c by simp
qed

lemmas io_simps = io_try_def io_bind_def io_call_def io_return_def io_throw_def

lemmas scenario_simps = scenario_backend_def scenario_env_def scenario_instance_def
  scenario_dbDocument_def uniform_document_def spec_splitText_def splitter_options_def
  get_prop_def rest_metadata_def settings_obj_def milvus_clientConfig_def chunk_at_def
  insertData_def js_or_def

lemma scenario_small_run:
  "milvus_processDocument scenario_backend scenario_env scenario_instance
        (JStr ''docs'') (uniform_document 5) JNull scenario_dbDocument [] =
   (Inr \<lparr>success = True, message = None\<rparr>,
  [Done (NewOpenAi JNull),
   Done (SplitText \<lparr>chunkSize = 1000, chunkOverlap = 20\<rparr> (JStr ''AAAAA'')),
   Done (EmbedTextChunks [''AAAAA'']), Done UuidV4,
   Done
    (NewMilvusClient
      \<lparr>mc_address = HostOnly (JStr ''localhost''), mc_username = None,
         mc_password = None, mc_token = None\<rparr>),
   Done (MilvusCheckHealth 4),
   Done (MilvusLoadCollection 4 (JStr ''docs'')),
   Done
    (MilvusInsert 4 (JStr ''docs'')
      [\<lparr>row_id = ''vec-iii'', row_vector = [5], row_text = JStr ''AAAAA'',
          row_metadata = ''text''\<rparr>]),
   Done
    (CreateManyDocumentVectors
      [\<lparr>dv_docId = JStr ''doc-1'', dv_vectorId = ''vec-iii'',
          dv_documentId = 7, dv_workspaceId = 3, dv_organizationId = 1\<rparr>]),
   Done
    (StoreVectorResult
      [\<lparr>ce_vectorDbId = ''vec-iii'', ce_values = [5],
          ce_metadata = [(''text'', JStr ''AAAAA'')]\<rparr>]
      (JStr ''uniform.json''))])"
  by (simp add: milvus_processDocument_def milvus_store_def milvus_connect_def io_simps
        scenario_simps split_overlapping_short toChunks_Cons toChunks_Nil numeral_eq_Suc)

lemma scenario_run:
  "milvus_processDocument scenario_backend scenario_env scenario_instance
        (JStr ''docs'') (uniform_document 4000) JNull scenario_dbDocument [] =
   (Inr \<lparr>success = True, message = None\<rparr>,
    [Done (NewOpenAi JNull),
     Done (SplitText \<lparr>chunkSize = 1000, chunkOverlap = 20\<rparr> (JStr (replicate 4000 CHR ''A''))),
     Done (EmbedTextChunks
        [replicate 1000 CHR ''A'', replicate 1000 CHR ''A'', replicate 1000 CHR ''A'',
         replicate 1000 CHR ''A'', replicate 80 CHR ''A'']),
     Done UuidV4, Done UuidV4, Done UuidV4, Done UuidV4, Done UuidV4,
     Done (NewMilvusClient
        \<lparr>mc_address = HostOnly (JStr ''localhost''), mc_username = None,
           mc_password = None, mc_token = None\<rparr>),
     Done (MilvusCheckHealth 8),
     Done (MilvusLoadCollection 8 (JStr ''docs'')),
     Done (MilvusInsert 8 (JStr ''docs'')
        [\<lparr>row_id = ''vec-iii'', row_vector = [1000],
            row_text = JStr (replicate 1000 CHR ''A''), row_metadata = ''text''\<rparr>,
         \<lparr>row_id = ''vec-iiii'', row_vector = [1000],
            row_text = JStr (replicate 1000 CHR ''A''), row_metadata = ''text''\<rparr>,
         \<lparr>row_id = ''vec-iiiii'', row_vector = [1000],
            row_text = JStr (replicate 1000 CHR ''A''), row_metadata = ''text''\<rparr>,
         \<lparr>row_id = ''vec-iiiiii'', row_vector = [1000],
            row_text = JStr (replicate 1000 CHR ''A''), row_metadata = ''text''\<rparr>,
         \<lparr>row_id = ''vec-iiiiiii'', row_vector = [80],
            row_text = JStr (replicate 80 CHR ''A''), row_metadata = ''text''\<rparr>]),
     Done (CreateManyDocumentVectors
        [\<lparr>dv_docId = JStr ''doc-1'', dv_vectorId = ''vec-iii'',
            dv_documentId = 7, dv_workspaceId = 3, dv_organizationId = 1\<rparr>,
         \<lparr>dv_docId = JStr ''doc-1'', dv_vectorId = ''vec-iiii'',
            dv_documentId = 7, dv_workspaceId = 3, dv_organizationId = 1\<rparr>,
         \<lparr>dv_docId = JStr ''doc-1'', dv_vectorId = ''vec-iiiii'',
            dv_documentId = 7, dv_workspaceId = 3, dv_organizationId = 1\<rparr>,
         \<lparr>dv_docId = JStr ''doc-1'', dv_vectorId = ''vec-iiiiii'',
            dv_documentId = 7, dv_workspaceId = 3, dv_organizationId = 1\<rparr>,
         \<lparr>dv_docId = JStr ''doc-1'', dv_vectorId = ''vec-iiiiiii'',
            dv_documentId = 7, dv_workspaceId = 3, dv_organizationId = 1\<rparr>]),
     Done (StoreVectorResult
        [\<lparr>ce_vectorDbId = ''vec-iii'', ce_values = [1000],
            ce_metadata = [(''text'', JStr (replicate 1000 CHR ''A''))]\<rparr>,
         \<lparr>ce_vectorDbId = ''vec-iiii'', ce_values = [1000],
            ce_metadata = [(''text'', JStr (replicate 1000 CHR ''A''))]\<rparr>,
         \<lparr>ce_vectorDbId = ''vec-iiiii'', ce_values = [1000],
            ce_metadata = [(''text'', JStr (replicate 1000 CHR ''A''))]\<rparr>,
         \<lparr>ce_vectorDbId = ''vec-iiiiii'', ce_values = [1000],
            ce_metadata = [(''text'', JStr (replicate 1000 CHR ''A''))]\<rparr>,
         \<lparr>ce_vectorDbId = ''vec-iiiiiii'', ce_values = [80],
            ce_metadata = [(''text'', JStr (replicate 80 CHR ''A''))]\<rparr>]
        (JStr ''uniform.json''))])"
  by (simp add: milvus_processDocument_def milvus_store_def milvus_connect_def io_simps
        scenario_simps split_overlapping_short split_overlapping_long toChunks_Cons toChunks_Nil)

lemma split_overlapping_nonempty:
  "text \<noteq> [] \<Longrightarrow> split_overlapping sz ov text \<noteq> []"
  by (subst split_overlapping.simps) simp

lemma split_overlapping_hd:
  "text \<noteq> [] \<Longrightarrow> hd (split_overlapping sz ov text) = (if length text \<le> sz \<or> sz \<le> ov then text else take sz text)"
  by (subst split_overlapping.simps) simp

lemma split_overlapping_overlap:
  "ov < sz \<Longrightarrow> Suc i < length (split_overlapping sz ov t) \<Longrightarrow>
   drop (sz - ov) (split_overlapping sz ov t ! i) = take ov (split_overlapping sz ov t ! Suc i)"
proof (induction sz ov t arbitrary: i rule: split_overlapping.induct)
  case (1 sz ov t)
  show ?case
  proof (cases "t = [] \<or> length t \<le> sz")
    case True
    with "1.prems" show ?thesis by (auto simp: split_overlapping.simps [of sz ov t])
  next
    case False
    let ?rest = "drop (sz - ov) t"
    from False "1.prems" have unf: "split_overlapping sz ov t
        = take sz t # split_overlapping sz ov ?rest"
      by (simp add: split_overlapping_long)
    from False have "sz - ov < length t" by simp arith
    then have ne: "?rest \<noteq> []" by simp
    show ?thesis
    proof (cases i)
      case 0
      have "split_overlapping sz ov ?rest ! 0 = hd (split_overlapping sz ov ?rest)"
        using split_overlapping_nonempty [OF ne] by (simp add: hd_conv_nth)
      also have "\<dots> = (if length ?rest \<le> sz then ?rest else take sz ?rest)"
        using "1.prems"(1) by (simp add: split_overlapping_hd [OF ne])
      finally have first: "take ov (split_overlapping sz ov ?rest ! 0) = take ov ?rest"
        using "1.prems"(1) by (simp add: min_def)
      have "drop (sz - ov) (take sz t) = take ov ?rest"
        using "1.prems"(1) by (simp add: drop_take)
      with first 0 show ?thesis by (simp add: unf)
    next
      case (Suc j)
      with "1.prems" unf have "Suc j < length (split_overlapping sz ov ?rest)" by simp
      from "1.IH" [OF _ _ "1.prems"(1) this] False "1.prems"(1)
      show ?thesis by (simp add: unf Suc)
    qed
  qed
qed

text \<open>
  Claim C3. In every run of \<open>processDocument\<close> the DocumentVectors rows and the cache
  artifact are written only after all insert batches have returned, they name exactly
  the vectors that were inserted, and a successful run creates one DocumentVectors row
  per inserted vector record.
\<close>

theorem processDocument_writes_after_inserts:
  "\<exists>r evs. milvus_processDocument be E this coll doc key db h = (Inr r, h @ evs)
     \<and> writes_follow_inserts evs
     \<and> (success r \<longrightarrow> one_row_per_inserted_vector evs)"
proof -
  from processDocument_run [of be E this coll doc key db h]
  obtain r evs where "milvus_processDocument be E this coll doc key db h = (Inr r, h @ evs)"
    and "writes_follow_inserts evs"
    and "success r \<longrightarrow> one_row_per_inserted_vector evs"
    by auto
  then show ?thesis by (intro exI conjI)
qed

theorem processDocument_writes_after_inserts_witness:
  "\<exists>r evs. milvus_processDocument scenario_backend scenario_env scenario_instance
        (JStr ''docs'') (uniform_document 5) JNull scenario_dbDocument [] = (Inr r, [] @ evs)
     \<and> success r \<and> writes_follow_inserts evs \<and> one_row_per_inserted_vector evs"
proof -
  from processDocument_writes_after_inserts [of scenario_backend scenario_env scenario_instance
      "JStr ''docs''" "uniform_document 5" JNull scenario_dbDocument "[]"]
  obtain r evs where run: "milvus_processDocument scenario_backend scenario_env scenario_instance
        (JStr ''docs'') (uniform_document 5) JNull scenario_dbDocument [] = (Inr r, [] @ evs)"
    and w: "writes_follow_inserts evs"
    and one: "success r \<longrightarrow> one_row_per_inserted_vector evs"
    by blast
  from run have "fst (milvus_processDocument scenario_backend scenario_env scenario_instance
        (JStr ''docs'') (uniform_document 5) JNull scenario_dbDocument []) = Inr r" by simp
  then have "success r" by (auto simp add: scenario_small_run)
  with run w one show ?thesis by (intro exI conjI) auto
qed

lemma processDocument_embed_request:
  assumes "ie_newOpenAi E h key = Inr u"
    and "ie_splitText E (h @ [Done (NewOpenAi key)]) splitter_options
           (get_prop doc ''pageContent'') = Inr chunks"
  shows "\<exists>ev rest. snd (milvus_processDocument be E this coll doc key db h) =
           h @ Done (NewOpenAi key)
             # Done (SplitText splitter_options (get_prop doc ''pageContent'')) # ev # rest
         \<and> request_of ev = EmbedTextChunks chunks"
proof -
  let ?pc = "get_prop doc ''pageContent''"
  let ?P = "[Done (NewOpenAi key), Done (SplitText splitter_options ?pc),
             Done (EmbedTextChunks chunks)]"
  show ?thesis
  proof (cases "ie_embedTextChunks E
      (h @ [Done (NewOpenAi key), Done (SplitText splitter_options ?pc)]) chunks")
    case (Inl e)
    with assms show ?thesis by (simp add: processDocument_unfold)
  next
    case (Inr vv)
    show ?thesis
    proof (cases "vv = None \<or> vv = Some []")
      case True
      with assms Inr show ?thesis by (auto simp: processDocument_unfold)
    next
      case False
      then obtain vs where vv: "vv = Some vs" and ne: "vs \<noteq> []" by (cases vv) auto
      from pipeline_body_run [where be = be and E = E and this = this and coll = coll
              and doc = doc and db = db and chunks = chunks and vs = vs and h = "h @ ?P"]
      obtain S r where "pipeline_body be E this coll doc db chunks vs (h @ ?P) = (r, (h @ ?P) @ S)"
        by blast
      with assms Inr vv ne show ?thesis
        by (cases r) (simp_all add: processDocument_unfold)
    qed
  qed
qed

text \<open>
  Claim C5, as amended. \<open>processDocument\<close> never throws, on an empty text either; it asks
  the splitter for chunks of size 1000 with overlap 20. With the splitter of the spec a
  uniform document of 4000 characters gives five chunks, four of 1000 characters and a
  last one of 80, adjacent chunks sharing 20 characters; the provider is asked once for
  the embeddings of all chunks, and a successful run inserts one vector record and
  writes one DocumentVectors row per embedding the provider returned.
\<close>

theorem processDocument_chunking:
  "\<exists>r evs. milvus_processDocument be E this coll doc key db h = (Inr r, h @ evs)
     \<and> (\<forall>u. ie_newOpenAi E h key = Inr u \<longrightarrow>
           (\<exists>ev rest. evs = Done (NewOpenAi key) # ev # rest
              \<and> request_of ev =
                  SplitText \<lparr>chunkSize = 1000, chunkOverlap = 20\<rparr> (get_prop doc ''pageContent'')))
     \<and> (\<forall>u. ie_newOpenAi E h key = Inr u \<and> ie_splitText E = spec_splitText
              \<and> get_prop doc ''pageContent'' = JStr (replicate 4000 CHR ''A'') \<longrightarrow>
           (\<exists>ev. take 3 evs =
                   [Done (NewOpenAi key),
                    Done (SplitText splitter_options (JStr (replicate 4000 CHR ''A''))), ev]
              \<and> request_of ev = EmbedTextChunks uniform_chunks))
     \<and> (success r \<longrightarrow>
           one_row_per_inserted_vector evs
           \<and> (\<exists>chunks vs.
                 ie_embedTextChunks E
                   (h @ [Done (NewOpenAi key),
                         Done (SplitText splitter_options (get_prop doc ''pageContent''))])
                   chunks = Inr (Some vs)
                 \<and> take 3 evs =
                     [Done (NewOpenAi key),
                      Done (SplitText splitter_options (get_prop doc ''pageContent'')),
                      Done (EmbedTextChunks chunks)]
                 \<and> length (inserted_ids evs) = length vs))
     \<and> split_overlapping 1000 20 [] = []
     \<and> split_overlapping 1000 20 (replicate 4000 CHR ''A'') = uniform_chunks
     \<and> (\<forall>t i. Suc i < length (split_overlapping 1000 20 t) \<longrightarrow>
           drop 980 (split_overlapping 1000 20 t ! i) = take 20 (split_overlapping 1000 20 t ! Suc i))"
proof -
  let ?pc = "get_prop doc ''pageContent''"
  let ?run = "milvus_processDocument be E this coll doc key db h"
  from processDocument_run [of be E this coll doc key db h]
  obtain r evs where run: "?run = (Inr r, h @ evs)"
    and ok: "success r \<longrightarrow>
           one_row_per_inserted_vector evs
           \<and> (\<exists>chunks vs.
                 ie_embedTextChunks E
                   (h @ [Done (NewOpenAi key), Done (SplitText splitter_options ?pc)])
                   chunks = Inr (Some vs)
                 \<and> take 3 evs =
                     [Done (NewOpenAi key), Done (SplitText splitter_options ?pc),
                      Done (EmbedTextChunks chunks)]
                 \<and> length (inserted_ids evs) = length vs)"
    and sp: "\<forall>u. ie_newOpenAi E h key = Inr u \<longrightarrow>
           (\<exists>ev rest. evs = Done (NewOpenAi key) # ev # rest
              \<and> request_of ev = SplitText splitter_options ?pc)"
    by auto
  have em: "\<forall>u. ie_newOpenAi E h key = Inr u \<and> ie_splitText E = spec_splitText
              \<and> ?pc = JStr (replicate 4000 CHR ''A'') \<longrightarrow>
           (\<exists>ev. take 3 evs =
                   [Done (NewOpenAi key),
                    Done (SplitText splitter_options (JStr (replicate 4000 CHR ''A''))), ev]
              \<and> request_of ev = EmbedTextChunks uniform_chunks)"
  proof (intro allI impI, elim conjE)
    fix u
    assume o: "ie_newOpenAi E h key = Inr u" and s: "ie_splitText E = spec_splitText"
      and pc: "?pc = JStr (replicate 4000 CHR ''A'')"
    from s pc have "ie_splitText E (h @ [Done (NewOpenAi key)]) splitter_options ?pc
        = Inr uniform_chunks"
      by (simp add: spec_splitText_def splitter_options_def split_uniform_document uniform_chunks_def)
    from processDocument_embed_request [OF o this, of be this coll db]
    obtain ev rest where "snd ?run = h @ Done (NewOpenAi key)
             # Done (SplitText splitter_options ?pc) # ev # rest"
      and rq: "request_of ev = EmbedTextChunks uniform_chunks"
      by blast
    with run have "evs = Done (NewOpenAi key) # Done (SplitText splitter_options ?pc) # ev # rest"
      by simp
    with rq pc show "\<exists>ev. take 3 evs =
                   [Done (NewOpenAi key),
                    Done (SplitText splitter_options (JStr (replicate 4000 CHR ''A''))), ev]
              \<and> request_of ev = EmbedTextChunks uniform_chunks"
      by (simp add: numeral_3_eq_3)
  qed
  have ov: "\<forall>t i. Suc i < length (split_overlapping 1000 20 t) \<longrightarrow>
           drop 980 (split_overlapping 1000 20 t ! i) = take 20 (split_overlapping 1000 20 t ! Suc i)"
    using split_overlapping_overlap [of 20 1000] by simp
  have R: "?run = (Inr r, h @ evs)
     \<and> (\<forall>u. ie_newOpenAi E h key = Inr u \<longrightarrow>
           (\<exists>ev rest. evs = Done (NewOpenAi key) # ev # rest
              \<and> request_of ev = SplitText \<lparr>chunkSize = 1000, chunkOverlap = 20\<rparr> ?pc))
     \<and> (\<forall>u. ie_newOpenAi E h key = Inr u \<and> ie_splitText E = spec_splitText
              \<and> ?pc = JStr (replicate 4000 CHR ''A'') \<longrightarrow>
           (\<exists>ev. take 3 evs =
                   [Done (NewOpenAi key),
                    Done (SplitText splitter_options (JStr (replicate 4000 CHR ''A''))), ev]
              \<and> request_of ev = EmbedTextChunks uniform_chunks))
     \<and> (success r \<longrightarrow>
           one_row_per_inserted_vector evs
           \<and> (\<exists>chunks vs.
                 ie_embedTextChunks E
                   (h @ [Done (NewOpenAi key), Done (SplitText splitter_options ?pc)])
                   chunks = Inr (Some vs)
                 \<and> take 3 evs =
                     [Done (NewOpenAi key), Done (SplitText splitter_options ?pc),
                      Done (EmbedTextChunks chunks)]
                 \<and> length (inserted_ids evs) = length vs))
     \<and> split_overlapping 1000 20 [] = []
     \<and> split_overlapping 1000 20 (replicate 4000 CHR ''A'') = uniform_chunks
     \<and> (\<forall>t i. Suc i < length (split_overlapping 1000 20 t) \<longrightarrow>
           drop 980 (split_overlapping 1000 20 t ! i) = take 20 (split_overlapping 1000 20 t ! Suc i))"
    using run ok sp em ov
    by (simp add: split_overlapping_Nil split_uniform_document uniform_chunks_def splitter_options_def)
  show ?thesis by (rule exI [of _ r], rule exI [of _ evs]) (rule R)
qed

text \<open>
  The uniform document of 4000 characters is not split into four chunks: the embedding
  request of the scenario carries five.
\<close>

theorem processDocument_chunking_counterexample:
  "\<not> (\<exists>chunks. length chunks = 4
        \<and> Done (EmbedTextChunks chunks)
            \<in> set (snd (milvus_processDocument scenario_backend scenario_env scenario_instance
                 (JStr ''docs'') (uniform_document 4000) JNull scenario_dbDocument [])))"
  by (simp add: scenario_run)

theorem processDocument_chunking_witness:
  "\<exists>r evs. milvus_processDocument scenario_backend scenario_env scenario_instance
        (JStr ''docs'') (uniform_document 4000) JNull scenario_dbDocument [] = (Inr r, [] @ evs)
     \<and> ie_newOpenAi scenario_env [] JNull = Inr ()
     \<and> ie_splitText scenario_env = spec_splitText
     \<and> get_prop (uniform_document 4000) ''pageContent'' = JStr (replicate 4000 CHR ''A'')
     \<and> success r
     \<and> (\<exists>ev. take 3 evs =
                   [Done (NewOpenAi JNull),
                    Done (SplitText splitter_options (JStr (replicate 4000 CHR ''A''))), ev]
              \<and> request_of ev = EmbedTextChunks uniform_chunks)
     \<and> one_row_per_inserted_vector evs
     \<and> length (inserted_ids evs) = 5"
proof -
  let ?run = "milvus_processDocument scenario_backend scenario_env scenario_instance
        (JStr ''docs'') (uniform_document 4000) JNull scenario_dbDocument []"
  have a: "ie_newOpenAi scenario_env [] JNull = Inr ()"
    and b: "ie_splitText scenario_env = spec_splitText"
    and c: "get_prop (uniform_document 4000) ''pageContent'' = JStr (replicate 4000 CHR ''A'')"
    by (simp_all add: scenario_env_def uniform_document_def get_prop_def)
  from processDocument_chunking [of scenario_backend scenario_env scenario_instance
      "JStr ''docs''" "uniform_document 4000" JNull scenario_dbDocument "[]"]
  obtain r evs where run: "?run = (Inr r, [] @ evs)"
    and em: "\<forall>u. ie_newOpenAi scenario_env [] JNull = Inr u
              \<and> ie_splitText scenario_env = spec_splitText
              \<and> get_prop (uniform_document 4000) ''pageContent'' = JStr (replicate 4000 CHR ''A'') \<longrightarrow>
           (\<exists>ev. take 3 evs =
                   [Done (NewOpenAi JNull),
                    Done (SplitText splitter_options (JStr (replicate 4000 CHR ''A''))), ev]
              \<and> request_of ev = EmbedTextChunks uniform_chunks)"
    and ok: "success r \<longrightarrow> one_row_per_inserted_vector evs"
    by auto
  from run have f: "fst ?run = Inr r" and s: "snd ?run = evs" by simp_all
  from f have sr: "success r" by (auto simp add: scenario_run)
  from s have len: "length (inserted_ids evs) = 5"
    unfolding scenario_run by (auto simp add: inserted_ids_def is_insert_def)
  from em a b c have e3: "\<exists>ev. take 3 evs =
                   [Done (NewOpenAi JNull),
                    Done (SplitText splitter_options (JStr (replicate 4000 CHR ''A''))), ev]
              \<and> request_of ev = EmbedTextChunks uniform_chunks"
    by simp
  show ?thesis
    by (rule exI [of _ r], rule exI [of _ evs]) (use run a b c sr ok e3 len in simp)
qed

subsection \<open>What the chunks cover\<close>

text \<open>
  Chunks of at most \<open>sz\<close> characters that overlap by \<open>ov\<close> cover at most
  \<open>sz + (n - 1) * (sz - ov)\<close> characters; four chunks of at most 1000 characters
  overlapping by 20 cover fewer than 4000. The chunks of the splitter cover the text.
\<close>

lemma covered_bound:
  assumes "\<forall>c\<in>set cs. length c \<le> sz" and "cs \<noteq> []"
  shows "covered ov cs \<le> sz + (length cs - 1) * (sz - ov)"
proof -
  from assms(2) obtain c rest where cs: "cs = c # rest" by (cases cs) auto
  from assms(1) cs have "\<forall>d\<in>set rest. length d - ov \<le> sz - ov" by auto
  then have "sum_list (map (\<lambda>d. length d - ov) rest) \<le> length rest * (sz - ov)"
    by (induction rest) auto
  with assms(1) cs show ?thesis by auto
qed

lemma four_chunks_cover_less:
  assumes "length cs = 4" and "\<forall>c\<in>set cs. length c \<le> 1000"
  shows "covered 20 cs < 4000"
proof -
  from assms(1) have "cs \<noteq> []" by auto
  from covered_bound [OF assms(2) this, of 20] assms(1) show ?thesis by simp
qed

lemma covered_split_overlapping:
  "ov < sz \<Longrightarrow> covered ov (split_overlapping sz ov t) = length t"
proof (induction sz ov t rule: split_overlapping.induct)
  case (1 sz ov t)
  show ?case
  proof (cases "t = [] \<or> length t \<le> sz")
    case True
    then show ?thesis
      by (cases "t = []") (simp_all add: split_overlapping_Nil split_overlapping_short)
  next
    case False
    let ?rest = "drop (sz - ov) t"
    from False "1.prems" have unf: "split_overlapping sz ov t
        = take sz t # split_overlapping sz ov ?rest"
      by (simp add: split_overlapping_long)
    from False have "sz - ov < length t" by simp arith
    then have ne: "?rest \<noteq> []" by simp
    from "1.IH" [OF _ _ "1.prems"] False "1.prems"
    have IH: "covered ov (split_overlapping sz ov ?rest) = length ?rest" by simp
    obtain c cs where rs: "split_overlapping sz ov ?rest = c # cs"
      using split_overlapping_nonempty [OF ne, of sz ov]
      by (cases "split_overlapping sz ov ?rest") auto
    from split_overlapping_hd [OF ne, of sz ov] rs "1.prems"
    have c: "c = (if length ?rest \<le> sz then ?rest else take sz ?rest)" by simp
    from False "1.prems" have "ov \<le> length ?rest" by simp arith
    with c "1.prems" have cl: "ov \<le> length c" by (simp split: if_splits)
    from IH rs have "length c + sum_list (map (\<lambda>d. length d - ov) cs) = length ?rest" by simp
    with cl have "sum_list (map (\<lambda>d. length d - ov) (c # cs)) = length ?rest - ov" by simp
    with False "1.prems" show ?thesis by (simp add: unf rs)
  qed
qed

text \<open>
  With a provider that only ever returns no vectors, no run of \<open>processDocument\<close>
  reaches the backend or writes, whatever the other collaborators do.
\<close>

lemma processDocument_without_vectors:
  assumes "\<forall>h' chunks vv. ie_embedTextChunks E h' chunks = Inr vv \<longrightarrow> vv = None \<or> vv = Some []"
  shows "\<exists>r evs. milvus_processDocument be E this coll doc key db h = (Inr r, h @ evs)
     \<and> \<not> success r
     \<and> (\<forall>ev\<in>set evs. \<not> is_backend_request (request_of ev) \<and> \<not> is_write_request (request_of ev))"
  using assms
  by (auto simp: processDocument_unfold split: sum.splits)

section \<open>ClickHouse: document processing and similarity\<close>

text \<open>
  Claim C10. For every input \<open>ClickHouse.processDocument\<close> returns
  \<open>{success: false, message: "ClickHouse is not a vector database - document processing
  not supported"}\<close> and calls nothing: the history of the run is the one it started
  from, so no connection is opened and nothing is embedded, mutated or persisted.
\<close>

theorem clickhouse_processDocument_unsupported:
  "clickhouse_processDocument tableName documentData embedderApiKey dbDocument h =
     (Inr \<lparr>success = False,
           message =
             Some ''ClickHouse is not a vector database - document processing not supported''\<rparr>,
      h)"
  by (simp add: clickhouse_processDocument_def io_return_def)

section \<open>Similarity queries\<close>




lemmas io_defs = io_try_def io_bind_def io_call_def io_return_def io_throw_def io_lift_def





section \<open>Connections: opened, closed, leaked\<close>

lemma quiet_return: "quiet (io_return x)"
  by (simp add: quiet_def io_return_def)

lemma quiet_call:
  "\<not> is_open_request rq \<Longrightarrow> \<not> is_close_request rq \<Longrightarrow> quiet (io_call rq oracle)"
  by (auto simp: quiet_def io_call_def split: sum.splits)

lemma quiet_bind:
  assumes m: "quiet m" and f: "\<And>x. quiet (f x)"
  shows "quiet (io_bind m f)"
  unfolding quiet_def
proof
  fix h
  from m obtain E where E: "snd (m h) = h @ E"
    and Ek: "\<forall>ev\<in>set E. \<not> is_open_request (request_of ev) \<and> \<not> is_close_request (request_of ev)"
    and Ef: "\<forall>e. fst (m h) = Inl e \<longrightarrow> (\<exists>ev\<in>set E. failed ev)"
    and Eo: "\<forall>x. fst (m h) = Inr x \<longrightarrow> (\<forall>ev\<in>set E. \<not> failed ev)"
    unfolding quiet_def by blast
  show "\<exists>evs. snd (io_bind m f h) = h @ evs
        \<and> (\<forall>ev\<in>set evs. \<not> is_open_request (request_of ev) \<and> \<not> is_close_request (request_of ev))
        \<and> (\<forall>e. fst (io_bind m f h) = Inl e \<longrightarrow> (\<exists>ev\<in>set evs. failed ev))
        \<and> (\<forall>x. fst (io_bind m f h) = Inr x \<longrightarrow> (\<forall>ev\<in>set evs. \<not> failed ev))"
  proof (cases "fst (m h)")
    case (Inl e)
    then have "io_bind m f h = (Inl e, h @ E)"
      using E by (cases "m h") (simp add: io_bind_def)
    with Ek Ef Inl show ?thesis by auto
  next
    case (Inr x)
    then have b: "io_bind m f h = f x (h @ E)"
      using E by (cases "m h") (simp add: io_bind_def)
    from f [of x] obtain F where F: "snd (f x (h @ E)) = (h @ E) @ F"
      and Fk: "\<forall>ev\<in>set F. \<not> is_open_request (request_of ev) \<and> \<not> is_close_request (request_of ev)"
      and Ff: "\<forall>e. fst (f x (h @ E)) = Inl e \<longrightarrow> (\<exists>ev\<in>set F. failed ev)"
      and Fo: "\<forall>y. fst (f x (h @ E)) = Inr y \<longrightarrow> (\<forall>ev\<in>set F. \<not> failed ev)"
      unfolding quiet_def by blast
    show ?thesis
      by (rule exI [of _ "E @ F"]) (use b F Ek Fk Ff Fo Eo Inr in auto)
  qed
qed

lemma quiet_rows: "quiet (clickhouse_rows be client q)"
  unfolding clickhouse_rows_def by (intro quiet_bind quiet_call) simp_all

lemma clickhouse_connect_unfold:
  "clickhouse_connect be this h =
     (case settings_obj (conn_settings (inst_config this)) of
        Inl e \<Rightarrow> (Inl e, h)
      | Inr settings \<Rightarrow>
         (case cb_createClient be h (clickhouse_clientConfig ''host'' settings) of
            Inl e \<Rightarrow> (Inl e, h @ [Failed (CHCreateClient (clickhouse_clientConfig ''host'' settings)) e])
          | Inr client \<Rightarrow>
             (case cb_ping be (h @ [Done (CHCreateClient (clickhouse_clientConfig ''host'' settings))])
                     client of
                Inl e \<Rightarrow> (Inl e, h @ [Done (CHCreateClient (clickhouse_clientConfig ''host'' settings)),
                                      Failed (CHPing client) e])
              | Inr ok \<Rightarrow>
                 (if ok
                  then (Inr client,
                        h @ [Done (CHCreateClient (clickhouse_clientConfig ''host'' settings)),
                             Done (CHPing client)])
                  else (Inl ''ClickHouse::Connection failed - ping unsuccessful'',
                        h @ [Done (CHCreateClient (clickhouse_clientConfig ''host'' settings)),
                             Done (CHPing client)])))))"
  by (simp add: clickhouse_connect_def io_defs split: sum.splits)

lemma scoped_with_client:
  assumes q: "\<And>client. quiet (work client)"
  shows "ch_scoped be this h (with_client be this work result handler)"
proof (cases "settings_obj (conn_settings (inst_config this))")
  case (Inl e)
  then show ?thesis
    by (simp add: ch_scoped_def Let_def new_events_def with_client_def clickhouse_connect_unfold
          io_try_def io_bind_def io_return_def)
next
  case st: (Inr settings)
  let ?cfg = "clickhouse_clientConfig ''host'' settings"
  let ?m = "with_client be this work result handler"
  show ?thesis
  proof (cases "cb_createClient be h ?cfg")
    case (Inl e)
    with st show ?thesis
      by (simp add: ch_scoped_def Let_def new_events_def with_client_def clickhouse_connect_unfold
            io_try_def io_bind_def io_return_def)
  next
    case cr: (Inr client)
    let ?h1 = "h @ [Done (CHCreateClient ?cfg)]"
    show ?thesis
    proof (cases "cb_ping be ?h1 client")
      case (Inl e)
      with st cr show ?thesis
        by (simp add: ch_scoped_def Let_def new_events_def with_client_def
              clickhouse_connect_unfold io_try_def io_bind_def io_return_def)
    next
      case pg: (Inr ok)
      show ?thesis
      proof (cases ok)
        case False
        with st cr pg show ?thesis
          by (simp add: ch_scoped_def Let_def new_events_def with_client_def
                clickhouse_connect_unfold io_try_def io_bind_def io_return_def)
      next
        case True
        let ?P = "[Done (CHCreateClient ?cfg), Done (CHPing client)]"
        from st cr pg True have conn: "clickhouse_connect be this h = (Inr client, h @ ?P)"
          by (simp add: clickhouse_connect_unfold)
        from q [of client] obtain E where E: "snd (work client (h @ ?P)) = (h @ ?P) @ E"
          and Ek: "\<forall>ev\<in>set E. \<not> is_open_request (request_of ev)
                      \<and> \<not> is_close_request (request_of ev)"
          and Ef: "\<forall>e. fst (work client (h @ ?P)) = Inl e \<longrightarrow> (\<exists>ev\<in>set E. failed ev)"
          and Eo: "\<forall>x. fst (work client (h @ ?P)) = Inr x \<longrightarrow> (\<forall>ev\<in>set E. \<not> failed ev)"
          unfolding quiet_def by blast
        have fo: "filter (\<lambda>ev. is_open_request (request_of ev)) E = []"
          and fc: "filter (\<lambda>ev. is_close_request (request_of ev)) E = []"
          using Ek by (simp_all add: filter_empty_conv)
        show ?thesis
        proof (cases "fst (work client (h @ ?P))")
          case (Inl e)
          with E have w: "work client (h @ ?P) = (Inl e, h @ ?P @ E)"
            by (cases "work client (h @ ?P)") simp
          from Ef Inl have fl: "\<not> list_all (\<lambda>ev. \<not> failed ev) E"
            by (auto simp: list_all_iff)
          from conn w have run: "?m h = (Inr (handler e), h @ ?P @ E)"
            by (simp add: with_client_def io_try_def io_bind_def io_return_def)
          show ?thesis
            using st cr fo fl
            by (simp add: ch_scoped_def Let_def new_events_def run)
        next
          case (Inr x)
          with E have w: "work client (h @ ?P) = (Inr x, h @ ?P @ E)"
            by (cases "work client (h @ ?P)") simp
          show ?thesis
          proof (cases "cb_close be (h @ ?P @ E) client")
            case (Inl e)
            with conn w have run: "?m h = (Inr (handler e),
                h @ ?P @ E @ [Failed (CHClose client) e])"
              by (simp add: with_client_def clickhouse_close_def io_try_def io_bind_def
                    io_return_def io_call_def)
            show ?thesis
              using st cr fo
              by (simp add: ch_scoped_def Let_def new_events_def run)
          next
            case cl: (Inr u)
            with conn w have run: "?m h = (Inr (result x),
                h @ ?P @ E @ [Done (CHClose client)])"
              by (simp add: with_client_def clickhouse_close_def io_try_def io_bind_def
                    io_return_def io_call_def)
            show ?thesis
              using st cr fo fc
              by (simp add: ch_scoped_def Let_def new_events_def run)
          qed
        qed
      qed
    qed
  qed
qed

lemma heartbeat_shape:
  "clickhouse_heartbeat be this =
     with_client be this (\<lambda>client. io_call (CHPing client) (\<lambda>h. cb_ping be h client))
       (\<lambda>success. (success, None)) (\<lambda>e. (False, Some e))"
  by (simp add: clickhouse_heartbeat_def with_client_def)

lemma totalIndicies_shape:
  "clickhouse_totalIndicies be parse_int this =
     with_client be this (\<lambda>client. clickhouse_rows be client (QSumRows (clickhouse_database this)))
       (\<lambda>data. (parse_int (first_total data), None)) (\<lambda>e. (Fin 0, Some e))"
  by (simp add: clickhouse_totalIndicies_def with_client_def)

lemma namespaces_shape:
  "clickhouse_namespaces be parse_int this =
     with_client be this (\<lambda>client. clickhouse_rows be client (QTables (clickhouse_database this)))
       (map (table_info parse_int)) (\<lambda>e. [])"
  by (simp add: clickhouse_namespaces_def with_client_def)

lemma namespaceExists_shape:
  "truthy name \<Longrightarrow>
   clickhouse_namespaceExists be this cl name =
     with_client be this
       (\<lambda>client. clickhouse_rows be client (QExists (clickhouse_database this) name))
       (\<lambda>data. JBool (length data > 0)) (\<lambda>e. JBool False)"
  by (cases name) (simp_all add: clickhouse_namespaceExists_def with_client_def Let_def)

lemma rawGet_shape:
  "clickhouse_rawGet be this tableName pageSize offset =
     with_client be this
       (\<lambda>client. clickhouse_rows be client
          (QRawGet (clickhouse_database this) tableName
             (case pageSize of None \<Rightarrow> 10 | Some n \<Rightarrow> n)
             (case offset of None \<Rightarrow> 0 | Some n \<Rightarrow> n)))
       (\<lambda>data. \<lparr>raw_ids = row_ids (case offset of None \<Rightarrow> 0 | Some n \<Rightarrow> n) data,
                raw_data = data, raw_error = None\<rparr>)
       (\<lambda>e. \<lparr>raw_ids = [], raw_data = [], raw_error = Some e\<rparr>)"
  by (simp add: clickhouse_rawGet_def with_client_def Let_def)

lemma getMetadata_shape:
  "ids \<noteq> [] \<Longrightarrow>
   clickhouse_getMetadata be this namespace ids =
     with_client be this
       (\<lambda>client. clickhouse_rows be client (QMetadata (clickhouse_database this) namespace ids))
       (\<lambda>data. data) (\<lambda>e. [])"
  by (simp add: clickhouse_getMetadata_def with_client_def)

lemma deleteVectors_shape:
  "clickhouse_deleteVectors be this namespace ids =
     with_client be this
       (\<lambda>client. io_call (CHCommand client (QDelete (clickhouse_database this) namespace ids))
                    (\<lambda>h. cb_command be h client
                            (QDelete (clickhouse_database this) namespace ids)))
       (\<lambda>u. (True, None)) (\<lambda>e. (False, Some e))"
  by (simp add: clickhouse_deleteVectors_def with_client_def)

lemma executeQuery_shape:
  "clickhouse_executeQuery be this query0 format0 =
     with_client be this
       (\<lambda>client. clickhouse_rows be client
          (QRaw query0 (if format0 = JUndefined then JStr ''JSONEachRow'' else format0)))
       (\<lambda>data. (data, None)) (\<lambda>e. ([], Some e))"
  by (simp add: clickhouse_executeQuery_def with_client_def Let_def)

lemma io_bind_assoc: "io_bind (io_bind m f) g = io_bind m (\<lambda>x. io_bind (f x) g)"
  by (rule ext) (simp add: io_bind_def split: prod.splits sum.splits)

lemma io_bind_return_left: "io_bind (io_return x) f = f x"
  by (rule ext) (simp add: io_bind_def io_return_def)

lemma io_bind_list_case:
  "io_bind (case xs of [] \<Rightarrow> a | y # ys \<Rightarrow> b y ys) g =
     (case xs of [] \<Rightarrow> io_bind a g | y # ys \<Rightarrow> io_bind (b y ys) g)"
  by (cases xs) simp_all

lemma namespace_shape:
  "truthy name \<Longrightarrow>
   clickhouse_namespace be parse_int this name =
     with_client be this
       (\<lambda>client.
          io_bind (clickhouse_rows be client (QTableInfo (clickhouse_database this) name))
            (\<lambda>tableInfo.
               case tableInfo of
                 [] \<Rightarrow> io_return None
               | t # rest \<Rightarrow>
                   io_bind (clickhouse_rows be client (QColumns (clickhouse_database this) name))
                     (\<lambda>columns. io_return (Some (table_details parse_int name t columns)))))
       (\<lambda>x. x) (\<lambda>e. None)"
  by (cases name)
    (simp_all add: clickhouse_namespace_def with_client_def Let_def io_bind_assoc
       io_bind_list_case io_bind_return_left cong: list.case_cong)

lemma quiet_namespace_work:
  "quiet (io_bind (clickhouse_rows be client q1)
            (\<lambda>tableInfo.
               case tableInfo of
                 [] \<Rightarrow> io_return None
               | t # rest \<Rightarrow>
                   io_bind (clickhouse_rows be client q2)
                     (\<lambda>columns. io_return (Some (g t columns)))))"
proof (rule quiet_bind [OF quiet_rows])
  fix tableInfo :: "obj list"
  show "quiet (case tableInfo of
                 [] \<Rightarrow> io_return None
               | t # rest \<Rightarrow>
                   io_bind (clickhouse_rows be client q2)
                     (\<lambda>columns. io_return (Some (g t columns))))"
    by (cases tableInfo) (auto intro!: quiet_bind quiet_rows quiet_return)
qed

lemma clickhouse_operations_scoped:
  "ch_scoped be this h (clickhouse_heartbeat be this)"
  "ch_scoped be this h (clickhouse_totalIndicies be parse_int this)"
  "ch_scoped be this h (clickhouse_namespaces be parse_int this)"
  "truthy name \<Longrightarrow> ch_scoped be this h (clickhouse_namespace be parse_int this name)"
  "truthy name \<Longrightarrow> ch_scoped be this h (clickhouse_namespaceExists be this cl name)"
  "ch_scoped be this h (clickhouse_rawGet be this tableName pageSize offset)"
  "ids \<noteq> [] \<Longrightarrow> ch_scoped be this h (clickhouse_getMetadata be this namespace ids)"
  "ch_scoped be this h (clickhouse_deleteVectors be this namespace ids)"
  "ch_scoped be this h (clickhouse_executeQuery be this query0 format0)"
  by (simp_all add: heartbeat_shape totalIndicies_shape namespaces_shape namespace_shape
        namespaceExists_shape rawGet_shape getMetadata_shape deleteVectors_shape
        executeQuery_shape scoped_with_client quiet_rows quiet_call quiet_namespace_work)

lemma nc_return: "avoids P (io_return x)"
  by (simp add: avoids_def io_return_def)

lemma nc_throw: "avoids P (io_throw e)"
  by (simp add: avoids_def io_throw_def)

lemma nc_call: "\<not> P rq \<Longrightarrow> avoids P (io_call rq oracle)"
  by (auto simp: avoids_def io_call_def split: sum.splits)

lemma nc_bind:
  assumes m: "avoids P m" and f: "\<And>x. avoids P (f x)"
  shows "avoids P (io_bind m f)"
  unfolding avoids_def
proof
  fix h
  from m obtain E where E: "snd (m h) = h @ E"
    and Ek: "\<forall>ev\<in>set E. \<not> P (request_of ev)"
    unfolding avoids_def by blast
  show "\<exists>evs. snd (io_bind m f h) = h @ evs \<and> (\<forall>ev\<in>set evs. \<not> P (request_of ev))"
  proof (cases "fst (m h)")
    case (Inl e)
    then have "io_bind m f h = (Inl e, h @ E)"
      using E by (cases "m h") (simp add: io_bind_def)
    with Ek show ?thesis by auto
  next
    case (Inr x)
    then have b: "io_bind m f h = f x (h @ E)"
      using E by (cases "m h") (simp add: io_bind_def)
    from f [of x] obtain F where F: "snd (f x (h @ E)) = (h @ E) @ F"
      and Fk: "\<forall>ev\<in>set F. \<not> P (request_of ev)"
      unfolding avoids_def by blast
    show ?thesis
      by (rule exI [of _ "E @ F"]) (use b F Ek Fk in auto)
  qed
qed

lemma nc_try:
  assumes m: "avoids P m" and f: "\<And>e. avoids P (f e)"
  shows "avoids P (io_try m f)"
  unfolding avoids_def
proof
  fix h
  from m obtain E where E: "snd (m h) = h @ E"
    and Ek: "\<forall>ev\<in>set E. \<not> P (request_of ev)"
    unfolding avoids_def by blast
  show "\<exists>evs. snd (io_try m f h) = h @ evs \<and> (\<forall>ev\<in>set evs. \<not> P (request_of ev))"
  proof (cases "fst (m h)")
    case (Inr x)
    then have "io_try m f h = (Inr x, h @ E)"
      using E by (cases "m h") (simp add: io_try_def)
    with Ek show ?thesis by auto
  next
    case (Inl e)
    then have b: "io_try m f h = f e (h @ E)"
      using E by (cases "m h") (simp add: io_try_def)
    from f [of e] obtain F where F: "snd (f e (h @ E)) = (h @ E) @ F"
      and Fk: "\<forall>ev\<in>set F. \<not> P (request_of ev)"
      unfolding avoids_def by blast
    show ?thesis
      by (rule exI [of _ "E @ F"]) (use b F Ek Fk in auto)
  qed
qed

lemmas nc_intros = nc_return nc_throw nc_call nc_bind nc_try

lemma nc_connect:
  "\<forall>c. \<not> P (NewMilvusClient c) \<Longrightarrow> \<forall>c. \<not> P (MilvusCheckHealth c)
   \<Longrightarrow> avoids P (milvus_connect be this)"
  unfolding milvus_connect_def
  by (auto intro!: nc_intros split: sum.splits)

lemma nc_connect_close: "avoids is_close_request (milvus_connect be this)"
  by (rule nc_connect) simp_all

lemma nc_record_vectors: "avoids is_close_request (record_vectors E md docid db chunks i vs b)"
  by (induction vs arbitrary: i b) (auto intro!: nc_intros)

lemma nc_insert_batches: "avoids is_close_request (insert_batches be s c coll bs)"
  by (induction bs) (auto intro!: nc_intros)

lemma nc_store: "avoids is_close_request (milvus_store be E this coll db b)"
  unfolding milvus_store_def
  by (intro nc_bind nc_connect_close nc_insert_batches nc_call nc_return) simp_all

lemma nc_heartbeat: "avoids is_close_request (milvus_heartbeat be this)"
  unfolding milvus_heartbeat_def
  by (intro nc_try nc_bind nc_connect_close nc_call nc_return) simp_all

lemma nc_namespaceExists: "avoids is_close_request (milvus_namespaceExists be this cl name)"
  unfolding milvus_namespaceExists_def Let_def
  by (auto intro!: nc_intros nc_connect_close)

lemma nc_similarityResponse:
  "avoids is_close_request (milvus_similarityResponse be jp this namespace queryVector topK)"
  unfolding milvus_similarityResponse_def Let_def
  by (intro nc_try nc_bind nc_connect_close nc_call nc_return) simp_all

lemma nc_processDocument:
  "avoids is_close_request (milvus_processDocument be E this coll doc key db)"
  unfolding milvus_processDocument_def
  by (auto intro!: nc_intros nc_record_vectors nc_store split: option.splits)

lemma avoids_events:
  "avoids P m \<Longrightarrow>
   snd (m h) = h @ new_events h m
   \<and> list_all (\<lambda>ev. \<not> P (request_of ev)) (new_events h m)"
  by (auto simp: avoids_def new_events_def list_all_iff dest!: spec [of _ h])

lemma milvus_connect_first:
  assumes "conn_type (inst_config this) = ''milvus''"
    and "settings_obj (conn_settings (inst_config this)) = Inr settings"
  shows "\<exists>r ev C. milvus_connect be this h = (r, h @ ev # C)
           \<and> request_of ev = NewMilvusClient (milvus_clientConfig settings)"
  using assms
  by (auto simp: milvus_connect_def io_defs split: sum.splits)

lemma milvus_connect_no_settings:
  assumes "settings_obj (conn_settings (inst_config this)) = Inl e"
  shows "\<exists>e'. milvus_connect be this h = (Inl e', h)"
  using assms by (auto simp: milvus_connect_def io_defs)

lemma mv_unscoped_shape:
  assumes F: "\<And>c. avoids is_close_request (F c)"
    and H: "\<And>e h. handler e h = (Inr (g e), h)"
  shows "mv_unscoped this h (io_try (io_bind (milvus_connect be this) F) handler)"
proof -
  let ?m = "io_try (io_bind (milvus_connect be this) F) handler"
  have Hn: "\<And>e. avoids is_close_request (handler e)"
    by (simp add: avoids_def H)
  have nc: "avoids is_close_request ?m"
    by (intro nc_try nc_bind nc_connect_close F Hn)
  note ev = avoids_events [OF nc, of h]
  have first: "conn_type (inst_config this) = ''milvus'' \<longrightarrow>
           (case settings_obj (conn_settings (inst_config this)) of
              Inl e \<Rightarrow> new_events h ?m = []
            | Inr settings \<Rightarrow>
                new_events h ?m \<noteq> []
                \<and> request_of (hd (new_events h ?m)) = NewMilvusClient (milvus_clientConfig settings))"
  proof
    assume ty: "conn_type (inst_config this) = ''milvus''"
    show "case settings_obj (conn_settings (inst_config this)) of
              Inl e \<Rightarrow> new_events h ?m = []
            | Inr settings \<Rightarrow>
                new_events h ?m \<noteq> []
                \<and> request_of (hd (new_events h ?m)) = NewMilvusClient (milvus_clientConfig settings)"
    proof (cases "settings_obj (conn_settings (inst_config this))")
      case (Inl e)
      from milvus_connect_no_settings [OF Inl, of be h]
      obtain e' where "milvus_connect be this h = (Inl e', h)" by blast
      then have "?m h = (Inr (g e'), h)"
        by (simp add: io_try_def io_bind_def H)
      with Inl show ?thesis by (simp add: new_events_def)
    next
      case (Inr settings)
      from milvus_connect_first [OF ty Inr, of be h]
      obtain r ev C where conn: "milvus_connect be this h = (r, h @ ev # C)"
        and rq: "request_of ev = NewMilvusClient (milvus_clientConfig settings)"
        by blast
      have "\<exists>X. snd (?m h) = h @ ev # X"
      proof (cases r)
        case (Inl e)
        with conn have "?m h = (Inr (g e), h @ ev # C)"
          by (simp add: io_try_def io_bind_def H)
        then show ?thesis by simp
      next
        case (Inr c)
        from F [of c] obtain X where X: "snd (F c (h @ ev # C)) = (h @ ev # C) @ X"
          unfolding avoids_def by blast
        show ?thesis
        proof (cases "fst (F c (h @ ev # C))")
          case (Inl e)
          with X have "F c (h @ ev # C) = (Inl e, (h @ ev # C) @ X)"
            by (cases "F c (h @ ev # C)") simp
          with conn Inr have "?m h = (Inr (g e), (h @ ev # C) @ X)"
            by (simp add: io_try_def io_bind_def H)
          then show ?thesis by simp
        next
          case r: (Inr x)
          with X have "F c (h @ ev # C) = (Inr x, (h @ ev # C) @ X)"
            by (cases "F c (h @ ev # C)") simp
          with conn Inr have "?m h = (Inr x, (h @ ev # C) @ X)"
            by (simp add: io_try_def io_bind_def)
          then show ?thesis by simp
        qed
      qed
      then obtain X where "snd (?m h) = h @ ev # X" by blast
      then have "new_events h ?m = ev # X" by (simp add: new_events_def)
      with Inr rq show ?thesis by simp
    qed
  qed
  from ev first show ?thesis by (simp add: mv_unscoped_def Let_def)
qed

lemma milvus_operations_unscoped:
  "mv_unscoped this h (milvus_heartbeat be this)"
  "truthy name \<Longrightarrow> mv_unscoped this h (milvus_namespaceExists be this cl name)"
  "mv_unscoped this h (milvus_similarityResponse be jp this namespace queryVector topK)"
proof -
  show "mv_unscoped this h (milvus_heartbeat be this)"
    unfolding milvus_heartbeat_def
    by (rule mv_unscoped_shape) (auto intro!: nc_intros simp: io_return_def)
  show "mv_unscoped this h (milvus_similarityResponse be jp this namespace queryVector topK)"
    unfolding milvus_similarityResponse_def Let_def
    by (rule mv_unscoped_shape) (auto intro!: nc_intros simp: io_return_def)
  assume "truthy name"
  then have "milvus_namespaceExists be this cl name =
      io_try
          (io_bind (milvus_connect be this)
             (\<lambda>client.
                io_bind (io_call (MilvusHasCollection client name)
                           (\<lambda>h. mb_hasCollection be h client name))
                  (\<lambda>value. io_return value)))
          (\<lambda>e. io_return (JBool False))"
    by (cases name) (simp_all add: milvus_namespaceExists_def Let_def)
  then show "mv_unscoped this h (milvus_namespaceExists be this cl name)"
    by (simp only:) (rule mv_unscoped_shape, auto intro!: nc_intros simp: io_return_def)
qed

lemma nc_sum_row_counts:
  "avoids is_close_request (sum_row_counts be parse_int client names tot)"
  by (induction names arbitrary: tot) (auto intro!: nc_intros)

lemma nc_collect_namespaces:
  "avoids is_close_request (collect_namespaces be parse_int client names cols)"
  by (induction names arbitrary: cols) (auto intro!: nc_intros)

lemma nc_result: "avoids P (io_result r)"
  by (cases r) (simp_all add: io_result_def nc_return nc_throw)

lemma milvus_data_operations_unscoped:
  "mv_unscoped this h (milvus_totalIndicies be parse_int this)"
  "mv_unscoped this h (milvus_indexDimensions be parse_int this namespace)"
  "mv_unscoped this h (milvus_namespaces be parse_int this)"
  "mv_unscoped this h (milvus_collections be parse_int this)"
  "mv_unscoped this h (milvus_rawGet be this namespace pageSize offset)"
  "mv_unscoped this h (milvus_getMetadata be jp this namespace vids)"
  "mv_unscoped this h (milvus_deleteVectors be this namespace vids)"
proof -
  show "mv_unscoped this h (milvus_totalIndicies be parse_int this)"
    unfolding milvus_totalIndicies_def
    by (rule mv_unscoped_shape) (auto intro!: nc_intros nc_sum_row_counts simp: io_return_def)
  show "mv_unscoped this h (milvus_indexDimensions be parse_int this namespace)"
    unfolding milvus_indexDimensions_def
    by (rule mv_unscoped_shape) (auto intro!: nc_intros simp: io_return_def)
  show ns: "mv_unscoped this h (milvus_namespaces be parse_int this)"
    unfolding milvus_namespaces_def
    by (rule mv_unscoped_shape) (auto intro!: nc_intros nc_collect_namespaces simp: io_return_def)
  then show "mv_unscoped this h (milvus_collections be parse_int this)"
    by (simp add: milvus_collections_def)
  show "mv_unscoped this h (milvus_rawGet be this namespace pageSize offset)"
    unfolding milvus_rawGet_def Let_def
    by (rule mv_unscoped_shape) (auto intro!: nc_intros simp: io_return_def)
  show "mv_unscoped this h (milvus_getMetadata be jp this namespace vids)"
    unfolding milvus_getMetadata_def Let_def
    by (rule mv_unscoped_shape) (auto intro!: nc_intros nc_result simp: io_return_def)
  show "mv_unscoped this h (milvus_deleteVectors be this namespace vids)"
    unfolding milvus_deleteVectors_def Let_def
    by (rule mv_unscoped_shape) (auto intro!: nc_intros simp: io_return_def)
qed

lemma milvus_namespace_unscoped:
  assumes "truthy name"
  shows "mv_unscoped this h (milvus_namespace be parse_int this name)"
proof -
  from assms have "milvus_namespace be parse_int this name =
      io_try
          (io_bind (milvus_connect be this)
             (\<lambda>client.
                io_bind (io_call (MilvusDescribeCollection client name)
                           (\<lambda>h. mb_describeCollection be h client name))
                  (\<lambda>info.
                     io_bind (io_call (MilvusGetCollectionStatistics client name)
                                (\<lambda>h. mb_getCollectionStatistics be h client name))
                       (\<lambda>row_count.
                          io_return
                            (Some
                               \<lparr>mn_name = name,
                                mn_count = parse_int (js_or row_count (JNum (Fin 0))),
                                mn_schema = info,
                                mn_description = js_or (schema_description info) (JStr []),
                                mn_fields =
                                  (case schema_fields info of None \<Rightarrow> [] | Some fs \<Rightarrow> fs)\<rparr>)))))
          (\<lambda>e. io_return None)"
    by (cases name) (simp_all add: milvus_namespace_def Let_def)
  then show ?thesis
    by (simp only:) (rule mv_unscoped_shape, auto intro!: nc_intros simp: io_return_def)
qed

lemma with_client_result:
  assumes q: "\<And>client. quiet (work client)"
  shows "\<exists>v. fst (with_client be this work result handler h) = Inr v
     \<and> ((\<exists>ev\<in>set (new_events h (with_client be this work result handler)). failed ev)
          \<longrightarrow> (\<exists>e. v = handler e))
     \<and> ((\<forall>c h'. clickhouse_connect be this h \<noteq> (Inr c, h')) \<longrightarrow> (\<exists>e. v = handler e))"
proof -
  let ?m = "with_client be this work result handler"
  have caught: "\<And>e h'. clickhouse_connect be this h = (Inl e, h') \<Longrightarrow> ?thesis"
    by (rule exI [of _ "handler _"])
      (auto simp: with_client_def io_try_def io_bind_def io_return_def)
  show ?thesis
  proof (cases "fst (clickhouse_connect be this h)")
    case (Inl e)
    then have "clickhouse_connect be this h = (Inl e, snd (clickhouse_connect be this h))"
      by (cases "clickhouse_connect be this h") simp
    then show ?thesis by (rule caught)
  next
    case (Inr client)
    then obtain P where conn: "clickhouse_connect be this h = (Inr client, h @ P)"
      and Pf: "\<forall>ev\<in>set P. \<not> failed ev"
      by (auto simp: clickhouse_connect_unfold split: sum.splits if_splits)
    from q [of client] obtain E where E: "snd (work client (h @ P)) = (h @ P) @ E"
      and Eo: "\<forall>x. fst (work client (h @ P)) = Inr x \<longrightarrow> (\<forall>ev\<in>set E. \<not> failed ev)"
      unfolding quiet_def by blast
    show ?thesis
    proof (cases "fst (work client (h @ P))")
      case (Inl e)
      with E have w: "work client (h @ P) = (Inl e, h @ P @ E)"
        by (cases "work client (h @ P)") simp
      from conn w have run: "?m h = (Inr (handler e), h @ P @ E)"
        by (simp add: with_client_def io_try_def io_bind_def io_return_def)
      show ?thesis
        by (rule exI [of _ "handler e"]) (auto simp: run)
    next
      case (Inr x)
      with E have w: "work client (h @ P) = (Inr x, h @ P @ E)"
        by (cases "work client (h @ P)") simp
      from Eo Inr have Ef: "\<forall>ev\<in>set E. \<not> failed ev" by blast
      show ?thesis
      proof (cases "cb_close be (h @ P @ E) client")
        case (Inl e)
        with conn w have run: "?m h = (Inr (handler e), h @ P @ E @ [Failed (CHClose client) e])"
          by (simp add: with_client_def clickhouse_close_def io_try_def io_bind_def
                io_return_def io_call_def)
        show ?thesis
          by (rule exI [of _ "handler e"]) (auto simp: run)
      next
        case cl: (Inr u)
        with conn w have run: "?m h = (Inr (result x), h @ P @ E @ [Done (CHClose client)])"
          by (simp add: with_client_def clickhouse_close_def io_try_def io_bind_def
                io_return_def io_call_def)
        show ?thesis
          by (rule exI [of _ "result x"]) (use Pf Ef conn in \<open>auto simp: run new_events_def\<close>)
      qed
    qed
  qed
qed

lemma milvus_connect_ok:
  "milvus_connect be this h = (Inr c, h') \<Longrightarrow> \<exists>evs. h' = h @ evs \<and> (\<forall>ev\<in>set evs. \<not> failed ev)"
  by (auto simp: milvus_connect_def io_defs split: if_splits sum.splits)

lemma milvus_namespaceExists_result:
  assumes "truthy name"
  shows "\<exists>v. fst (milvus_namespaceExists be this cl name h) = Inr v
     \<and> ((\<exists>ev\<in>set (new_events h (milvus_namespaceExists be this cl name)). failed ev)
          \<longrightarrow> v = JBool False)
     \<and> ((\<forall>c h'. milvus_connect be this h \<noteq> (Inr c, h')) \<longrightarrow> v = JBool False)"
proof -
  let ?m = "milvus_namespaceExists be this cl name"
  from assms have unf: "?m =
      io_try
          (io_bind (milvus_connect be this)
             (\<lambda>client.
                io_bind (io_call (MilvusHasCollection client name)
                           (\<lambda>h. mb_hasCollection be h client name))
                  (\<lambda>value. io_return value)))
          (\<lambda>e. io_return (JBool False))"
    by (cases name) (simp_all add: milvus_namespaceExists_def Let_def)
  show ?thesis
  proof (cases "fst (milvus_connect be this h)")
    case (Inl e)
    then obtain h' where "milvus_connect be this h = (Inl e, h')"
      by (cases "milvus_connect be this h") auto
    then have "?m h = (Inr (JBool False), h')"
      by (simp add: unf io_try_def io_bind_def io_return_def)
    then show ?thesis by simp
  next
    case (Inr client)
    then obtain h' where c: "milvus_connect be this h = (Inr client, h')"
      by (cases "milvus_connect be this h") auto
    from milvus_connect_ok [OF c] c
    obtain P where conn: "milvus_connect be this h = (Inr client, h @ P)"
      and Pf: "\<forall>ev\<in>set P. \<not> failed ev"
      by auto
    show ?thesis
    proof (cases "mb_hasCollection be (h @ P) client name")
      case (Inl e)
      with conn have "?m h = (Inr (JBool False), h @ P @ [Failed (MilvusHasCollection client name) e])"
        by (simp add: unf io_try_def io_bind_def io_return_def io_call_def)
      then show ?thesis by simp
    next
      case (Inr v)
      with conn have run: "?m h = (Inr v, h @ P @ [Done (MilvusHasCollection client name)])"
        by (simp add: unf io_try_def io_bind_def io_return_def io_call_def)
      show ?thesis
        by (rule exI [of _ v]) (use Pf conn in \<open>auto simp: run new_events_def\<close>)
    qed
  qed
qed

text \<open>
  Claim C8, as amended. \<open>namespaceExists\<close> throws when the name is omitted, \<open>null\<close> or
  otherwise falsy; for every other name it never throws, and it returns \<open>false\<close>
  whenever a call to the backend threw (an unreachable backend included) or \<open>connect\<close>
  threw.
\<close>

theorem namespaceExists_fail_closed:
  "(\<not> truthy name \<longrightarrow>
       milvus_namespaceExists mbe mthis cl name h = (Inl ''No namespace value provided.'', h)
       \<and> clickhouse_namespaceExists cbe cthis cl name h
           = (Inl ''No namespace (table) value provided.'', h))
   \<and> (truthy name \<longrightarrow>
        (\<exists>v. fst (milvus_namespaceExists mbe mthis cl name h) = Inr v
           \<and> ((\<exists>ev\<in>set (new_events h (milvus_namespaceExists mbe mthis cl name)). failed ev)
                \<longrightarrow> v = JBool False)
           \<and> ((\<forall>c h'. milvus_connect mbe mthis h \<noteq> (Inr c, h')) \<longrightarrow> v = JBool False))
        \<and> (\<exists>v. fst (clickhouse_namespaceExists cbe cthis cl name h) = Inr v
           \<and> ((\<exists>ev\<in>set (new_events h (clickhouse_namespaceExists cbe cthis cl name)). failed ev)
                \<longrightarrow> v = JBool False)
           \<and> ((\<forall>c h'. clickhouse_connect cbe cthis h \<noteq> (Inr c, h')) \<longrightarrow> v = JBool False)))"
proof (intro conjI impI)
  assume "\<not> truthy name"
  then show "milvus_namespaceExists mbe mthis cl name h = (Inl ''No namespace value provided.'', h)"
    by (cases name) (simp_all add: milvus_namespaceExists_def Let_def io_throw_def)
next
  assume "\<not> truthy name"
  then show "clickhouse_namespaceExists cbe cthis cl name h
           = (Inl ''No namespace (table) value provided.'', h)"
    by (cases name) (simp_all add: clickhouse_namespaceExists_def Let_def io_throw_def)
next
  assume "truthy name"
  then show "\<exists>v. fst (milvus_namespaceExists mbe mthis cl name h) = Inr v
           \<and> ((\<exists>ev\<in>set (new_events h (milvus_namespaceExists mbe mthis cl name)). failed ev)
                \<longrightarrow> v = JBool False)
           \<and> ((\<forall>c h'. milvus_connect mbe mthis h \<noteq> (Inr c, h')) \<longrightarrow> v = JBool False)"
    by (rule milvus_namespaceExists_result)
next
  assume t: "truthy name"
  from with_client_result [of "\<lambda>client. clickhouse_rows cbe client
        (QExists (clickhouse_database cthis) name)" cbe cthis "\<lambda>data. JBool (length data > 0)"
      "\<lambda>e. JBool False" h, OF quiet_rows]
  show "\<exists>v. fst (clickhouse_namespaceExists cbe cthis cl name h) = Inr v
           \<and> ((\<exists>ev\<in>set (new_events h (clickhouse_namespaceExists cbe cthis cl name)). failed ev)
                \<longrightarrow> v = JBool False)
           \<and> ((\<forall>c h'. clickhouse_connect cbe cthis h \<noteq> (Inr c, h')) \<longrightarrow> v = JBool False)"
    unfolding namespaceExists_shape [OF t] by simp
qed

lemmas ch_defs = clickhouse_connect_def clickhouse_rows_def clickhouse_close_def

lemmas fixture_simps = scenario_clickhouse_def failing_query_clickhouse_def
  clickhouse_instance_def zero_parse_int_def scenario_validators_def unreachable_backend_def
  clickhouse_clientConfig_def clickhouse_database_def table_info_def

text \<open>With the name omitted or \<open>null\<close> both connectors throw.\<close>

theorem namespaceExists_fail_closed_counterexample:
  "fst (milvus_namespaceExists scenario_backend scenario_instance JNull JUndefined [])
     = Inl ''No namespace value provided.''
   \<and> fst (clickhouse_namespaceExists scenario_clickhouse clickhouse_instance JNull JNull [])
     = Inl ''No namespace (table) value provided.''"
  by (simp add: milvus_namespaceExists_def clickhouse_namespaceExists_def io_throw_def)

lemma unreachable_namespaceExists:
  "milvus_namespaceExists unreachable_backend scenario_instance JNull (JStr ''docs'') [] =
     (Inr (JBool False),
      [Failed (NewMilvusClient
          \<lparr>mc_address = HostOnly (JStr ''localhost''), mc_username = None,
             mc_password = None, mc_token = None\<rparr>)
        ''14 UNAVAILABLE: No connection established''])"
  by (simp add: milvus_namespaceExists_def milvus_connect_def io_defs scenario_simps fixture_simps)

lemma failing_query_namespaceExists:
  "clickhouse_namespaceExists failing_query_clickhouse clickhouse_instance JNull (JStr ''docs'') [] =
     (Inr (JBool False),
      [Done (CHCreateClient
          \<lparr>ch_endpoint_key = ''host'', ch_host = JStr ''localhost'', ch_port = JNum (Fin 8123),
           ch_username = JStr ''default'', ch_password = JStr [],
           ch_database = JStr ''default''\<rparr>),
       Done (CHPing 0),
       Failed (CHQuery 0 (QExists (JStr ''default'') (JStr ''docs'')))
         ''Code: 60. DB::Exception: Unknown table''])"
  by (simp add: clickhouse_namespaceExists_def ch_defs io_defs scenario_simps fixture_simps)

theorem namespaceExists_fail_closed_witness:
  "truthy (JStr ''docs'')
   \<and> (\<exists>ev\<in>set (new_events [] (milvus_namespaceExists unreachable_backend scenario_instance
                                   JNull (JStr ''docs''))). failed ev)
   \<and> fst (milvus_namespaceExists unreachable_backend scenario_instance JNull (JStr ''docs'') [])
       = Inr (JBool False)
   \<and> (\<exists>ev\<in>set (new_events [] (clickhouse_namespaceExists failing_query_clickhouse
                                   clickhouse_instance JNull (JStr ''docs''))). failed ev)
   \<and> fst (clickhouse_namespaceExists failing_query_clickhouse clickhouse_instance JNull
            (JStr ''docs'') []) = Inr (JBool False)
   \<and> \<not> truthy JNull
   \<and> milvus_namespaceExists scenario_backend scenario_instance JNull JNull []
       = (Inl ''No namespace value provided.'', [])"
proof -
  have f1: "\<exists>ev\<in>set (new_events [] (milvus_namespaceExists unreachable_backend scenario_instance
                                   JNull (JStr ''docs''))). failed ev"
    by (simp add: new_events_def unreachable_namespaceExists)
  have f2: "\<exists>ev\<in>set (new_events [] (clickhouse_namespaceExists failing_query_clickhouse
                                   clickhouse_instance JNull (JStr ''docs''))). failed ev"
    by (simp add: new_events_def failing_query_namespaceExists)
  from namespaceExists_fail_closed [of "JStr ''docs''" unreachable_backend scenario_instance JNull
      "[]" failing_query_clickhouse clickhouse_instance]
    namespaceExists_fail_closed [of JNull scenario_backend scenario_instance JNull
      "[]" scenario_clickhouse clickhouse_instance]
    f1 f2
  show ?thesis by auto
qed

text \<open>
  Claim C9, as amended. Every ClickHouse operation that reaches the backend constructs
  one client of its own, as its first call, and closes that client, as its last call,
  when the operation completes without an exception. The Milvus operations construct
  their client through \<open>connect\<close> and never close it.
\<close>

theorem connections_opened_and_released:
  "ch_scoped cbe cthis h (clickhouse_heartbeat cbe cthis)
   \<and> ch_scoped cbe cthis h (clickhouse_totalIndicies cbe parse_int cthis)
   \<and> ch_scoped cbe cthis h (clickhouse_namespaces cbe parse_int cthis)
   \<and> (truthy name \<longrightarrow> ch_scoped cbe cthis h (clickhouse_namespace cbe parse_int cthis name))
   \<and> (truthy name \<longrightarrow> ch_scoped cbe cthis h (clickhouse_namespaceExists cbe cthis cl name))
   \<and> ch_scoped cbe cthis h (clickhouse_rawGet cbe cthis tableName pageSize offset)
   \<and> (ids \<noteq> [] \<longrightarrow> ch_scoped cbe cthis h (clickhouse_getMetadata cbe cthis namespace ids))
   \<and> ch_scoped cbe cthis h (clickhouse_deleteVectors cbe cthis namespace ids)
   \<and> ch_scoped cbe cthis h (clickhouse_executeQuery cbe cthis query0 format0)
   \<and> mv_unscoped mthis h (milvus_heartbeat mbe mthis)
   \<and> mv_unscoped mthis h (milvus_totalIndicies mbe parse_int mthis)
   \<and> mv_unscoped mthis h (milvus_indexDimensions mbe parse_int mthis namespace)
   \<and> mv_unscoped mthis h (milvus_namespaces mbe parse_int mthis)
   \<and> (truthy name \<longrightarrow> mv_unscoped mthis h (milvus_namespace mbe parse_int mthis name))
   \<and> (truthy name \<longrightarrow> mv_unscoped mthis h (milvus_namespaceExists mbe mthis cl name))
   \<and> mv_unscoped mthis h (milvus_rawGet mbe mthis tableName pageSize offset)
   \<and> mv_unscoped mthis h (milvus_similarityResponse mbe jp mthis namespace queryVector topK)
   \<and> mv_unscoped mthis h (milvus_getMetadata mbe jp mthis namespace vids)
   \<and> mv_unscoped mthis h (milvus_deleteVectors mbe mthis namespace vids)
   \<and> list_all (\<lambda>ev. \<not> is_close_request (request_of ev))
       (new_events h (milvus_processDocument mbe E mthis namespace doc key db))"
  using clickhouse_operations_scoped milvus_operations_unscoped
    milvus_data_operations_unscoped milvus_namespace_unscoped
    avoids_events [OF nc_processDocument]
  by simp

lemma scenario_heartbeat_run:
  "milvus_heartbeat scenario_backend scenario_instance [] =
     (Inr (True, None),
      [Done (NewMilvusClient
          \<lparr>mc_address = HostOnly (JStr ''localhost''), mc_username = None,
             mc_password = None, mc_token = None\<rparr>),
       Done (MilvusCheckHealth 0), Done (MilvusCheckHealth 0)])"
  by (simp add: milvus_heartbeat_def milvus_connect_def io_defs scenario_simps)

lemma failing_query_namespaces_run:
  "clickhouse_namespaces failing_query_clickhouse zero_parse_int clickhouse_instance [] =
     (Inr [],
      [Done (CHCreateClient
          \<lparr>ch_endpoint_key = ''host'', ch_host = JStr ''localhost'', ch_port = JNum (Fin 8123),
           ch_username = JStr ''default'', ch_password = JStr [],
           ch_database = JStr ''default''\<rparr>),
       Done (CHPing 0),
       Failed (CHQuery 0 (QTables (JStr ''default'')))
         ''Code: 60. DB::Exception: Unknown table''])"
  by (simp add: clickhouse_namespaces_def ch_defs io_defs scenario_simps fixture_simps)

lemma scenario_namespaces_run:
  "clickhouse_namespaces scenario_clickhouse zero_parse_int clickhouse_instance [] =
     (Inr [\<lparr>ns_name = JStr ''jobs'', ns_count = Fin 0,
            ns_metadata = [(''engine'', JStr ''MergeTree''), (''bytes'', JNum (Fin 0))]\<rparr>],
      [Done (CHCreateClient
          \<lparr>ch_endpoint_key = ''host'', ch_host = JStr ''localhost'', ch_port = JNum (Fin 8123),
           ch_username = JStr ''default'', ch_password = JStr [],
           ch_database = JStr ''default''\<rparr>),
       Done (CHPing 0),
       Done (CHQuery 0 (QTables (JStr ''default''))),
       Done (CHJson 2),
       Done (CHClose 0)])"
  by (simp add: clickhouse_namespaces_def ch_defs io_defs scenario_simps fixture_simps)

text \<open>
  A Milvus heartbeat against a healthy backend opens a client and closes none; a
  ClickHouse \<open>namespaces\<close> whose query throws opens a client and closes none.
\<close>

theorem connections_opened_and_released_counterexample:
  "filter (\<lambda>ev. is_open_request (request_of ev))
      (snd (milvus_heartbeat scenario_backend scenario_instance [])) \<noteq> []
   \<and> filter (\<lambda>ev. is_close_request (request_of ev))
      (snd (milvus_heartbeat scenario_backend scenario_instance [])) = []
   \<and> filter (\<lambda>ev. is_open_request (request_of ev))
      (snd (clickhouse_namespaces failing_query_clickhouse zero_parse_int clickhouse_instance []))
        \<noteq> []
   \<and> filter (\<lambda>ev. is_close_request (request_of ev))
      (snd (clickhouse_namespaces failing_query_clickhouse zero_parse_int clickhouse_instance []))
        = []"
  by (simp add: scenario_heartbeat_run failing_query_namespaces_run)

theorem connections_opened_and_released_witness:
  "filter (\<lambda>ev. is_close_request (request_of ev))
      (new_events [] (clickhouse_namespaces scenario_clickhouse zero_parse_int clickhouse_instance))
     = [Done (CHClose 0)]
   \<and> last (new_events [] (clickhouse_namespaces scenario_clickhouse zero_parse_int
                            clickhouse_instance)) = Done (CHClose 0)
   \<and> filter (\<lambda>ev. is_open_request (request_of ev))
      (new_events [] (clickhouse_namespaces scenario_clickhouse zero_parse_int clickhouse_instance))
     = [Done (CHCreateClient (clickhouse_clientConfig ''host'' [(''host'', JStr ''localhost'')]))]
   \<and> request_of (hd (new_events [] (milvus_heartbeat scenario_backend scenario_instance)))
     = NewMilvusClient (milvus_clientConfig [(''host'', JStr ''localhost'')])
   \<and> list_all (\<lambda>ev. \<not> is_close_request (request_of ev))
       (new_events [] (milvus_heartbeat scenario_backend scenario_instance))"
proof -
  have noFail: "list_all (\<lambda>ev. \<not> failed ev)
      (new_events [] (clickhouse_namespaces scenario_clickhouse zero_parse_int clickhouse_instance))"
    by (simp add: new_events_def scenario_namespaces_run)
  have st: "settings_obj (conn_settings (inst_config clickhouse_instance))
      = Inr [(''host'', JStr ''localhost'')]"
    "settings_obj (conn_settings (inst_config scenario_instance))
      = Inr [(''host'', JStr ''localhost'')]"
    "conn_type (inst_config scenario_instance) = ''milvus''"
    by (simp_all add: clickhouse_instance_def scenario_instance_def settings_obj_def)
  have cr: "cb_createClient scenario_clickhouse []
      (clickhouse_clientConfig ''host'' [(''host'', JStr ''localhost'')]) = Inr 0"
    and pg: "\<And>h c. cb_ping scenario_clickhouse h c = Inr True"
    by (simp_all add: scenario_clickhouse_def)
  from connections_opened_and_released [where cbe = scenario_clickhouse
      and cthis = clickhouse_instance and h = "[]" and parse_int = zero_parse_int
      and mthis = scenario_instance and mbe = scenario_backend]
  have ch: "ch_scoped scenario_clickhouse clickhouse_instance []
      (clickhouse_namespaces scenario_clickhouse zero_parse_int clickhouse_instance)"
    and mv: "mv_unscoped scenario_instance [] (milvus_heartbeat scenario_backend scenario_instance)"
    by simp_all
  from ch noFail have c: "filter (\<lambda>ev. is_close_request (request_of ev))
      (new_events [] (clickhouse_namespaces scenario_clickhouse zero_parse_int clickhouse_instance))
     = [Done (CHClose 0)]
   \<and> last (new_events [] (clickhouse_namespaces scenario_clickhouse zero_parse_int
                            clickhouse_instance)) = Done (CHClose 0)
   \<and> filter (\<lambda>ev. is_open_request (request_of ev))
      (new_events [] (clickhouse_namespaces scenario_clickhouse zero_parse_int clickhouse_instance))
     = [Done (CHCreateClient (clickhouse_clientConfig ''host'' [(''host'', JStr ''localhost'')]))]"
    by (simp add: ch_scoped_def Let_def st cr pg)
  from mv have m: "request_of (hd (new_events [] (milvus_heartbeat scenario_backend scenario_instance)))
     = NewMilvusClient (milvus_clientConfig [(''host'', JStr ''localhost'')])
   \<and> list_all (\<lambda>ev. \<not> is_close_request (request_of ev))
       (new_events [] (milvus_heartbeat scenario_backend scenario_instance))"
    by (simp add: mv_unscoped_def Let_def st)
  from c m show ?thesis by simp
qed

section \<open>The factory and the validator\<close>

lemma setConfig_cases:
  "(\<forall>s. conn_settings c \<noteq> JStr s) \<Longrightarrow> setConfig json_parse c = Inr c"
  "conn_settings c = JStr s \<Longrightarrow>
     setConfig json_parse c =
       (case json_parse (JStr s) of Inl e \<Rightarrow> Inl e | Inr v \<Rightarrow> Inr (c\<lparr>conn_settings := v\<rparr>))"
  by (cases "conn_settings c"; simp add: setConfig_def split: sum.splits)+

lemma selectConnector_supported:
  assumes "conn_type c \<in> set supportedConnectors"
  shows "selectConnector supportedConnectors json_parse c h =
        (case setConfig json_parse c of
           Inl e \<Rightarrow> (Inl e, h)
         | Inr cfg \<Rightarrow> (Inr \<lparr>inst_name = conn_type c, inst_config = cfg\<rparr>, h))"
  using assms
  by (auto simp: selectConnector_def supportedConnectors_def new_connector_def Milvus_def
        ClickHouse_def io_lift_def io_return_def io_throw_def split: sum.splits)

text \<open>
  Claim C6, as amended. For a connector record whose type is one of the six supported
  tags \<open>selectConnector\<close> runs the constructor of the connector of that type: it returns
  the instance of that connector when the settings are not a string or are a string
  that \<open>JSON.parse\<close> accepts, and throws the SyntaxError of \<open>JSON.parse\<close> otherwise. For
  every other type it fails with the unsupported-connector error. It calls nothing.
\<close>

theorem selectConnector_dispatch:
  "(conn_type c \<in> set supportedConnectors \<and> setConfig json_parse c = Inr cfg \<longrightarrow>
      selectConnector supportedConnectors json_parse c h
        = (Inr \<lparr>inst_name = conn_type c, inst_config = cfg\<rparr>, h))
   \<and> (conn_type c \<in> set supportedConnectors \<and> setConfig json_parse c = Inl e \<longrightarrow>
      selectConnector supportedConnectors json_parse c h = (Inl e, h))
   \<and> (conn_type c \<notin> set supportedConnectors \<longrightarrow>
      selectConnector supportedConnectors json_parse c h
        = (Inl ''Unsupported connector for vector database.'', h))
   \<and> snd (selectConnector supported json_parse c h) = h
   \<and> ((\<forall>s. conn_settings c \<noteq> JStr s) \<longrightarrow> setConfig json_parse c = Inr c)
   \<and> (conn_settings c = JStr s \<and> json_parse (JStr s) = Inr v \<longrightarrow>
        setConfig json_parse c = Inr (c\<lparr>conn_settings := v\<rparr>))
   \<and> (conn_settings c = JStr s \<and> json_parse (JStr s) = Inl e \<longrightarrow>
        setConfig json_parse c = Inl e)"
proof (intro conjI impI)
  assume "conn_type c \<in> set supportedConnectors \<and> setConfig json_parse c = Inr cfg"
  then show "selectConnector supportedConnectors json_parse c h
        = (Inr \<lparr>inst_name = conn_type c, inst_config = cfg\<rparr>, h)"
    by (simp add: selectConnector_supported)
next
  assume "conn_type c \<in> set supportedConnectors \<and> setConfig json_parse c = Inl e"
  then show "selectConnector supportedConnectors json_parse c h = (Inl e, h)"
    by (simp add: selectConnector_supported)
next
  assume "conn_type c \<notin> set supportedConnectors"
  then show "selectConnector supportedConnectors json_parse c h
        = (Inl ''Unsupported connector for vector database.'', h)"
    by (simp add: selectConnector_def io_throw_def)
next
  show "snd (selectConnector supported json_parse c h) = h"
    by (simp add: selectConnector_def new_connector_def Milvus_def ClickHouse_def io_lift_def
          io_return_def io_throw_def split: sum.splits)
next
  assume "\<forall>s. conn_settings c \<noteq> JStr s"
  then show "setConfig json_parse c = Inr c" by (rule setConfig_cases)
next
  assume "conn_settings c = JStr s \<and> json_parse (JStr s) = Inr v"
  then show "setConfig json_parse c = Inr (c\<lparr>conn_settings := v\<rparr>)"
    by (simp add: setConfig_cases(2) [of c s])
next
  assume "conn_settings c = JStr s \<and> json_parse (JStr s) = Inl e"
  then show "setConfig json_parse c = Inl e"
    by (simp add: setConfig_cases(2) [of c s])
qed

text \<open>
  A Milvus record whose settings are the string \<open>x\<close>, which is not JSON: the type is
  supported and \<open>selectConnector\<close> throws the SyntaxError instead of returning an instance.
\<close>

theorem selectConnector_dispatch_counterexample:
  "''milvus'' \<in> set supportedConnectors
   \<and> selectConnector supportedConnectors parse_empty_object
        \<lparr>conn_type = ''milvus'', conn_settings = JStr ''x''\<rparr> []
       = (Inl ''SyntaxError: Unexpected token'', [])"
  by (simp add: selectConnector_def supportedConnectors_def Milvus_def setConfig_def
        parse_empty_object_def io_lift_def io_throw_def)

theorem selectConnector_dispatch_witness:
  "''milvus'' \<in> set supportedConnectors
   \<and> selectConnector supportedConnectors parse_empty_object
        \<lparr>conn_type = ''milvus'', conn_settings = JStr ''{}''\<rparr> []
       = (Inr \<lparr>inst_name = ''milvus'',
               inst_config = \<lparr>conn_type = ''milvus'', conn_settings = JObj []\<rparr>\<rparr>, [])
   \<and> selectConnector supportedConnectors parse_empty_object
        \<lparr>conn_type = ''clickhouse'', conn_settings = JObj [(''host'', JStr ''localhost'')]\<rparr> []
       = (Inr clickhouse_instance, [])
   \<and> selectConnector supportedConnectors parse_empty_object
        \<lparr>conn_type = ''milvus'', conn_settings = JStr ''x''\<rparr> []
       = (Inl ''SyntaxError: Unexpected token'', [])
   \<and> ''redis'' \<notin> set supportedConnectors
   \<and> selectConnector supportedConnectors parse_empty_object
        \<lparr>conn_type = ''redis'', conn_settings = JObj []\<rparr> []
       = (Inl ''Unsupported connector for vector database.'', [])"
proof -
  let ?m = "\<lparr>conn_type = ''milvus'', conn_settings = JStr ''{}''\<rparr>"
  let ?c = "\<lparr>conn_type = ''clickhouse'', conn_settings = JObj [(''host'', JStr ''localhost'')]\<rparr>"
  let ?x = "\<lparr>conn_type = ''milvus'', conn_settings = JStr ''x''\<rparr>"
  let ?r = "\<lparr>conn_type = ''redis'', conn_settings = JObj []\<rparr>"
  have a: "''milvus'' \<in> set supportedConnectors" "''clickhouse'' \<in> set supportedConnectors"
    and b: "''redis'' \<notin> set supportedConnectors"
    by (simp_all add: supportedConnectors_def)
  have p: "parse_empty_object (JStr ''{}'') = Inr (JObj [])"
    "parse_empty_object (JStr ''x'') = Inl ''SyntaxError: Unexpected token''"
    by (simp_all add: parse_empty_object_def)
  note m = selectConnector_dispatch [where c = ?m and json_parse = parse_empty_object
      and s = "''{}''" and v = "JObj []" and h = "[]"
      and cfg = "\<lparr>conn_type = ''milvus'', conn_settings = JObj []\<rparr>"]
  note c = selectConnector_dispatch [where c = ?c and json_parse = parse_empty_object
      and h = "[]" and cfg = ?c]
  note x = selectConnector_dispatch [where c = ?x and json_parse = parse_empty_object
      and s = "''x''" and e = "''SyntaxError: Unexpected token''" and h = "[]"]
  note r = selectConnector_dispatch [where c = ?r and json_parse = parse_empty_object
      and h = "[]"]
  from m a p have 1: "selectConnector supportedConnectors parse_empty_object ?m []
       = (Inr \<lparr>inst_name = ''milvus'',
               inst_config = \<lparr>conn_type = ''milvus'', conn_settings = JObj []\<rparr>\<rparr>, [])"
    by simp
  from c a have 2: "selectConnector supportedConnectors parse_empty_object ?c []
       = (Inr clickhouse_instance, [])"
    by (simp add: clickhouse_instance_def)
  from x a p have 3: "selectConnector supportedConnectors parse_empty_object ?x []
       = (Inl ''SyntaxError: Unexpected token'', [])"
    by simp
  from r b have 4: "selectConnector supportedConnectors parse_empty_object ?r []
       = (Inl ''Unsupported connector for vector database.'', [])"
    by simp
  from a b 1 2 3 4 show ?thesis by simp
qed

lemma nt_return: "never_throws (io_return x)"
  by (simp add: never_throws_def io_return_def)

lemma nt_try: "never_throws (io_try m (\<lambda>e. io_return (g e)))"
  by (auto simp: never_throws_def io_try_def io_return_def split: prod.splits sum.splits)

lemma nc_lift: "avoids P (io_lift r)"
  by (cases r) (simp_all add: io_lift_def nc_return nc_throw)

lemma nc_destructure:
  "(\<And>ps. avoids P (body ps)) \<Longrightarrow> avoids P (destructure v body)"
  by (cases "settings_obj v") (simp_all add: destructure_def nc_throw)

lemma destructure_readable: "settings_obj v = Inr ps \<Longrightarrow> destructure v body = body ps"
  by (simp add: destructure_def)

lemma destructure_nullish: "settings_obj v = Inl e \<Longrightarrow> destructure v body h = (Inl e, h)"
  by (simp add: destructure_def io_throw_def)

lemmas validator_defs = validateChroma_def validatePinecone_def validateQDrant_def
  validateWeaviate_def validateMilvus_def validateClickHouse_def

lemma nt_validators:
  assumes "settings_obj settings = Inr ps"
  shows "never_throws (validateChroma V settings)"
    "never_throws (validatePinecone V settings)"
    "never_throws (validateQDrant V settings)"
    "never_throws (validateWeaviate V settings)"
    "never_throws (validateMilvus mbe settings)"
    "never_throws (validateClickHouse cbe settings)"
  by (simp_all add: validator_defs destructure_readable [OF assms] chroma_probe_def Let_def
        nt_try nt_return)

lemma nt_validate_by_type:
  "settings_obj settings = Inr ps \<Longrightarrow> never_throws (validate_by_type mbe cbe V type settings)"
  by (simp add: validate_by_type_def nt_validators nt_return)

lemma validate_by_type_nullish:
  assumes "settings_obj settings = Inl e"
  shows "validate_by_type mbe cbe V type settings h = (Inl e, h)
     \<or> validate_by_type mbe cbe V type settings h
          = (Inr \<lparr>valid = False, status_message = None\<rparr>, h)"
  by (simp add: validate_by_type_def validator_defs destructure_nullish [OF assms] io_return_def)

lemma validate_by_type_throws:
  assumes "fst (validate_by_type mbe cbe V type settings h) = Inl e"
  shows "validate_by_type mbe cbe V type settings h = (Inl e, h)"
proof (cases "settings_obj settings")
  case (Inl e')
  from validate_by_type_nullish [OF Inl, of mbe cbe V type h] assms show ?thesis by auto
next
  case (Inr ps)
  from nt_validate_by_type [OF Inr, of mbe cbe V type] assms show ?thesis
    by (auto simp: never_throws_def dest!: spec [of _ h])
qed

lemma probe_validators:
  "avoids (\<lambda>rq. \<not> is_probe_request rq) (validateChroma V settings)"
  "avoids (\<lambda>rq. \<not> is_probe_request rq) (validatePinecone V settings)"
  "avoids (\<lambda>rq. \<not> is_probe_request rq) (validateQDrant V settings)"
  "avoids (\<lambda>rq. \<not> is_probe_request rq) (validateWeaviate V settings)"
  "avoids (\<lambda>rq. \<not> is_probe_request rq) (validateMilvus mbe settings)"
  "avoids (\<lambda>rq. \<not> is_probe_request rq) (validateClickHouse cbe settings)"
  unfolding validator_defs chroma_probe_def clickhouse_close_def Let_def
  by (auto intro!: nc_destructure nc_intros nc_lift split: prod.splits)

lemma probe_validate_by_type:
  "avoids (\<lambda>rq. \<not> is_probe_request rq) (validate_by_type mbe cbe V type settings)"
  by (simp add: validate_by_type_def probe_validators nc_return)

lemma probe_not_persist: "is_probe_request rq \<Longrightarrow> \<not> is_persist_request rq"
  by (cases rq) simp_all


text \<open>
  Claim C7. Every call of the validation chain is a call of a connection probe, so the
  chain persists nothing and mutates no backend; it returns a status whenever the
  settings can be destructured and throws, before any call, when they are \<open>null\<close> or
  \<open>undefined\<close>. \<open>validateNewDatabaseConnector\<close> creates the OrganizationConnection only
  after the chain has reported valid, as the last call of the run; when the chain
  reports invalid, or the type is unsupported, it returns \<open>{connector: null, error}\<close>, and
  in every run that did not validate nothing is persisted.
\<close>

theorem validation_before_persistence:
  "snd (validate_by_type mbe cbe V type settings h)
       = h @ new_events h (validate_by_type mbe cbe V type settings)
   \<and> list_all (\<lambda>ev. is_probe_request (request_of ev) \<and> \<not> is_persist_request (request_of ev))
       (new_events h (validate_by_type mbe cbe V type settings))
   \<and> (settings_obj settings = Inr ps \<longrightarrow>
        (\<exists>st. fst (validate_by_type mbe cbe V type settings h) = Inr st))
   \<and> (fst (validate_by_type mbe cbe V type settings h) = Inl e \<longrightarrow>
        validate_by_type mbe cbe V type settings h = (Inl e, h))
   \<and> (settings_obj config = Inl e \<longrightarrow>
        validateNewDatabaseConnector supported mbe cbe V organization config h = (Inl e, h))
   \<and> (settings_obj config = Inr cfg \<and> type = get_prop cfg ''type''
        \<and> settings = get_prop cfg ''settings'' \<longrightarrow>
        (\<not> js_includes supported type \<longrightarrow>
           validateNewDatabaseConnector supported mbe cbe V organization config h
             = (Inr \<lparr>val_connector = JNull,
                     val_error = Some ''Unsupported vector database type.''\<rparr>, h))
      \<and> (js_includes supported type
           \<and> fst (validate_by_type mbe cbe V type settings h) = Inl e \<longrightarrow>
           validateNewDatabaseConnector supported mbe cbe V organization config h = (Inl e, h))
      \<and> (js_includes supported type
           \<and> fst (validate_by_type mbe cbe V type settings h) = Inr sc \<and> \<not> valid sc \<longrightarrow>
           validateNewDatabaseConnector supported mbe cbe V organization config h
             = (Inr \<lparr>val_connector = JNull, val_error = status_message sc\<rparr>,
                snd (validate_by_type mbe cbe V type settings h)))
      \<and> (js_includes supported type
           \<and> fst (validate_by_type mbe cbe V type settings h) = Inr sc \<and> valid sc
           \<and> settings_obj organization = Inl e \<longrightarrow>
           validateNewDatabaseConnector supported mbe cbe V organization config h
             = (Inl e, snd (validate_by_type mbe cbe V type settings h)))
      \<and> (js_includes supported type
           \<and> fst (validate_by_type mbe cbe V type settings h) = Inr sc \<and> valid sc
           \<and> settings_obj organization = Inr org \<longrightarrow>
           (\<exists>ev. new_events h (validateNewDatabaseConnector supported mbe cbe V organization
                                 config)
                   = new_events h (validate_by_type mbe cbe V type settings) @ [ev]
                \<and> request_of ev
                   = OrganizationConnectionCreate (get_prop org ''id'') type settings))
      \<and> (\<not> (js_includes supported type
              \<and> (\<exists>st. fst (validate_by_type mbe cbe V type settings h) = Inr st \<and> valid st)) \<longrightarrow>
           list_all (\<lambda>ev. is_probe_request (request_of ev) \<and> \<not> is_persist_request (request_of ev))
             (new_events h
                (validateNewDatabaseConnector supported mbe cbe V organization config))))"
proof -
  let ?VT = "validate_by_type mbe cbe V type settings"
  let ?VN = "validateNewDatabaseConnector supported mbe cbe V organization config"
  let ?probe = "\<lambda>ev. is_probe_request (request_of ev) \<and> \<not> is_persist_request (request_of ev)"
  define E where "E = new_events h ?VT"
  from avoids_events [OF probe_validate_by_type, of mbe cbe V type settings h]
  have sn: "snd (?VT h) = h @ E"
    and Ep: "list_all (\<lambda>ev. is_probe_request (request_of ev)) E"
    unfolding E_def by simp_all
  from Ep have Epp: "list_all ?probe E"
    by (simp add: list_all_iff probe_not_persist)
  have ret: "settings_obj settings = Inr ps \<longrightarrow> (\<exists>st. fst (?VT h) = Inr st)"
    using nt_validate_by_type [of settings ps mbe cbe V type]
    by (auto simp: never_throws_def)
  have thr: "fst (?VT h) = Inl e \<longrightarrow> ?VT h = (Inl e, h)"
    by (auto dest: validate_by_type_throws)
  have nul: "settings_obj config = Inl e \<longrightarrow> ?VN h = (Inl e, h)"
    by (simp add: validateNewDatabaseConnector_def destructure_nullish)
  have main: "(\<not> js_includes supported type \<longrightarrow>
           ?VN h = (Inr \<lparr>val_connector = JNull,
                     val_error = Some ''Unsupported vector database type.''\<rparr>, h))
      \<and> (js_includes supported type \<and> fst (?VT h) = Inl e \<longrightarrow> ?VN h = (Inl e, h))
      \<and> (js_includes supported type \<and> fst (?VT h) = Inr sc \<and> \<not> valid sc \<longrightarrow>
           ?VN h = (Inr \<lparr>val_connector = JNull, val_error = status_message sc\<rparr>, snd (?VT h)))
      \<and> (js_includes supported type \<and> fst (?VT h) = Inr sc \<and> valid sc
           \<and> settings_obj organization = Inl e \<longrightarrow>
           ?VN h = (Inl e, snd (?VT h)))
      \<and> (js_includes supported type \<and> fst (?VT h) = Inr sc \<and> valid sc
           \<and> settings_obj organization = Inr org \<longrightarrow>
           (\<exists>ev. new_events h ?VN = E @ [ev]
                \<and> request_of ev
                   = OrganizationConnectionCreate (get_prop org ''id'') type settings))
      \<and> (\<not> (js_includes supported type \<and> (\<exists>st. fst (?VT h) = Inr st \<and> valid st)) \<longrightarrow>
           list_all ?probe (new_events h ?VN))"
    if cfg: "settings_obj config = Inr cfg" and ty: "type = get_prop cfg ''type''"
      and se: "settings = get_prop cfg ''settings''"
  proof -
    let ?create = "OrganizationConnectionCreate (get_prop org ''id'') type settings"
    have VN: "?VN =
        (if \<not> js_includes supported type
         then io_return \<lparr>val_connector = JNull,
                          val_error = Some ''Unsupported vector database type.''\<rparr>
         else
           io_bind ?VT
             (\<lambda>statusCheck.
                if \<not> valid statusCheck
                then io_return
                       \<lparr>val_connector = JNull, val_error = status_message statusCheck\<rparr>
                else
                  destructure organization
                    (\<lambda>org.
                       io_bind
                         (io_call
                            (OrganizationConnectionCreate (get_prop org ''id'') type settings)
                            (\<lambda>h. ve_createConnection V h (get_prop org ''id'') type settings))
                         (\<lambda>connector.
                            io_return \<lparr>val_connector = connector, val_error = None\<rparr>))))"
      unfolding ty se
      by (simp add: validateNewDatabaseConnector_def destructure_readable [OF cfg] Let_def)
    have unsup: "\<not> js_includes supported type \<longrightarrow>
           ?VN h = (Inr \<lparr>val_connector = JNull,
                     val_error = Some ''Unsupported vector database type.''\<rparr>, h)"
      by (simp add: VN io_return_def)
    have thrown: "js_includes supported type \<and> fst (?VT h) = Inl e \<longrightarrow> ?VN h = (Inl e, h)"
    proof
      assume a: "js_includes supported type \<and> fst (?VT h) = Inl e"
      with thr have "?VT h = (Inl e, h)" by simp
      with a show "?VN h = (Inl e, h)" by (simp add: VN io_bind_def)
    qed
    have inv: "js_includes supported type \<and> fst (?VT h) = Inr sc \<and> \<not> valid sc \<longrightarrow>
           ?VN h = (Inr \<lparr>val_connector = JNull, val_error = status_message sc\<rparr>, snd (?VT h))"
    proof
      assume a: "js_includes supported type \<and> fst (?VT h) = Inr sc \<and> \<not> valid sc"
      then have "?VT h = (Inr sc, snd (?VT h))" by (cases "?VT h") simp
      then obtain h' where vt: "?VT h = (Inr sc, h')" and h': "h' = snd (?VT h)" by simp
      from a vt have "?VN h = (Inr \<lparr>val_connector = JNull, val_error = status_message sc\<rparr>, h')"
        by (simp add: VN io_bind_def io_return_def)
      with h' show "?VN h
          = (Inr \<lparr>val_connector = JNull, val_error = status_message sc\<rparr>, snd (?VT h))"
        by simp
    qed
    have noorg: "js_includes supported type \<and> fst (?VT h) = Inr sc \<and> valid sc
           \<and> settings_obj organization = Inl e \<longrightarrow> ?VN h = (Inl e, snd (?VT h))"
    proof
      assume a: "js_includes supported type \<and> fst (?VT h) = Inr sc \<and> valid sc
           \<and> settings_obj organization = Inl e"
      then have "?VT h = (Inr sc, snd (?VT h))" by (cases "?VT h") simp
      then obtain h' where vt: "?VT h = (Inr sc, h')" and h': "h' = snd (?VT h)" by simp
      from a vt have "?VN h = (Inl e, h')"
        by (simp add: VN io_bind_def destructure_nullish)
      with h' show "?VN h = (Inl e, snd (?VT h))" by simp
    qed
    have ok: "js_includes supported type \<and> fst (?VT h) = Inr sc \<and> valid sc
           \<and> settings_obj organization = Inr org \<longrightarrow>
           (\<exists>ev. new_events h ?VN = E @ [ev] \<and> request_of ev = ?create)"
    proof
      assume a: "js_includes supported type \<and> fst (?VT h) = Inr sc \<and> valid sc
           \<and> settings_obj organization = Inr org"
      with sn have vt: "?VT h = (Inr sc, h @ E)" by (cases "?VT h") simp
      from a have og: "settings_obj organization = Inr org" by simp
      show "\<exists>ev. new_events h ?VN = E @ [ev] \<and> request_of ev = ?create"
      proof (cases "ve_createConnection V (h @ E) (get_prop org ''id'') type settings")
        case (Inl x)
        with a vt have "snd (?VN h) = h @ E @ [Failed ?create x]"
          by (simp add: VN io_bind_def io_return_def io_call_def destructure_readable [OF og])
        then show ?thesis by (simp add: new_events_def)
      next
        case (Inr x)
        with a vt have "snd (?VN h) = h @ E @ [Done ?create]"
          by (simp add: VN io_bind_def io_return_def io_call_def destructure_readable [OF og])
        then show ?thesis by (simp add: new_events_def)
      qed
    qed
    have quiet: "\<not> (js_includes supported type \<and> (\<exists>st. fst (?VT h) = Inr st \<and> valid st)) \<longrightarrow>
           list_all ?probe (new_events h ?VN)"
    proof
      assume a: "\<not> (js_includes supported type \<and> (\<exists>st. fst (?VT h) = Inr st \<and> valid st))"
      show "list_all ?probe (new_events h ?VN)"
      proof (cases "js_includes supported type")
        case False
        with unsup show ?thesis by (simp add: new_events_def)
      next
        case True
        show ?thesis
        proof (cases "fst (?VT h)")
          case (Inl x)
          with validate_by_type_throws [of mbe cbe V type settings h x]
          have "?VT h = (Inl x, h)" by simp
          with True have "?VN h = (Inl x, h)" by (simp add: VN io_bind_def)
          then show ?thesis by (simp add: new_events_def)
        next
          case (Inr st)
          with a True have nv: "\<not> valid st" by simp
          from Inr sn have "?VT h = (Inr st, h @ E)" by (cases "?VT h") simp
          with True nv have "snd (?VN h) = h @ E"
            by (simp add: VN io_bind_def io_return_def)
          with Epp show ?thesis by (simp add: new_events_def)
        qed
      qed
    qed
    from unsup thrown inv noorg ok quiet show ?thesis by blast
  qed
  from sn have 1: "snd (?VT h) = h @ new_events h ?VT" by (simp add: E_def)
  from Epp have 2: "list_all ?probe (new_events h ?VT)" by (simp add: E_def)
  from main have 3: "settings_obj config = Inr cfg \<and> type = get_prop cfg ''type''
        \<and> settings = get_prop cfg ''settings'' \<longrightarrow>
        (\<not> js_includes supported type \<longrightarrow>
           ?VN h = (Inr \<lparr>val_connector = JNull,
                     val_error = Some ''Unsupported vector database type.''\<rparr>, h))
      \<and> (js_includes supported type \<and> fst (?VT h) = Inl e \<longrightarrow> ?VN h = (Inl e, h))
      \<and> (js_includes supported type \<and> fst (?VT h) = Inr sc \<and> \<not> valid sc \<longrightarrow>
           ?VN h = (Inr \<lparr>val_connector = JNull, val_error = status_message sc\<rparr>, snd (?VT h)))
      \<and> (js_includes supported type \<and> fst (?VT h) = Inr sc \<and> valid sc
           \<and> settings_obj organization = Inl e \<longrightarrow>
           ?VN h = (Inl e, snd (?VT h)))
      \<and> (js_includes supported type \<and> fst (?VT h) = Inr sc \<and> valid sc
           \<and> settings_obj organization = Inr org \<longrightarrow>
           (\<exists>ev. new_events h ?VN = new_events h ?VT @ [ev]
                \<and> request_of ev
                   = OrganizationConnectionCreate (get_prop org ''id'') type settings))
      \<and> (\<not> (js_includes supported type \<and> (\<exists>st. fst (?VT h) = Inr st \<and> valid st)) \<longrightarrow>
           list_all ?probe (new_events h ?VN))"
    unfolding E_def by blast
  from 1 2 ret thr nul 3 show ?thesis by (intro conjI)
qed


lemmas validator_fixtures = scenario_organization_def chroma_config_def qdrant_config_def
  milvus_config_without_settings_def redis_config_def

lemma chroma_offline_validation:
  "validate_by_type scenario_backend scenario_clickhouse scenario_validators (JStr ''chroma'')
     (JObj [(''instanceURL'', JStr ''http://chroma:8000'')]) []
   = (Inr \<lparr>valid = False, status_message = Some ''fetch failed''\<rparr>,
      [Done (ChromaNewClient \<lparr>co_path = JStr ''http://chroma:8000'', co_headers = None\<rparr>),
       Failed (ChromaHeartbeat 0) ''fetch failed''])"
  by (simp add: validate_by_type_def validateChroma_def destructure_def settings_obj_def
        chroma_probe_def io_defs fixture_simps get_prop_def default_null_def message_or_def)

lemma qdrant_ready_validation:
  "validate_by_type scenario_backend scenario_clickhouse scenario_validators (JStr ''qdrant'')
     (JObj [(''clusterUrl'', JStr ''http://qdrant:6333'')]) []
   = (Inr \<lparr>valid = True, status_message = None\<rparr>,
      [Done (QdrantNewClient (JStr ''http://qdrant:6333'') None),
       Done (QdrantClusterStatus 0)])"
  by (simp add: validate_by_type_def validateQDrant_def destructure_def settings_obj_def
        io_defs fixture_simps get_prop_def)

lemma milvus_without_settings_validation:
  "validate_by_type scenario_backend scenario_clickhouse scenario_validators (JStr ''milvus'')
     JNull []
   = (Inl ''TypeError: Cannot read properties of null'', [])"
  by (simp add: validate_by_type_def validateMilvus_def destructure_def settings_obj_def
        io_defs)

theorem validation_before_persistence_witness:
  "validateNewDatabaseConnector supportedConnectors scenario_backend scenario_clickhouse
       scenario_validators scenario_organization chroma_config []
     = (Inr \<lparr>val_connector = JNull, val_error = Some ''fetch failed''\<rparr>,
        [Done (ChromaNewClient \<lparr>co_path = JStr ''http://chroma:8000'', co_headers = None\<rparr>),
         Failed (ChromaHeartbeat 0) ''fetch failed''])
   \<and> map request_of
        (new_events [] (validateNewDatabaseConnector supportedConnectors scenario_backend
           scenario_clickhouse scenario_validators scenario_organization qdrant_config))
     = [QdrantNewClient (JStr ''http://qdrant:6333'') None, QdrantClusterStatus 0,
        OrganizationConnectionCreate (JNum (Fin 1)) (JStr ''qdrant'')
          (JObj [(''clusterUrl'', JStr ''http://qdrant:6333'')])]
   \<and> validateNewDatabaseConnector supportedConnectors scenario_backend scenario_clickhouse
       scenario_validators JNull qdrant_config []
     = (Inl ''TypeError: Cannot read properties of null'',
        [Done (QdrantNewClient (JStr ''http://qdrant:6333'') None),
         Done (QdrantClusterStatus 0)])
   \<and> validateNewDatabaseConnector supportedConnectors scenario_backend scenario_clickhouse
       scenario_validators scenario_organization milvus_config_without_settings []
     = (Inl ''TypeError: Cannot read properties of null'', [])
   \<and> validateNewDatabaseConnector supportedConnectors scenario_backend scenario_clickhouse
       scenario_validators scenario_organization redis_config []
     = (Inr \<lparr>val_connector = JNull,
             val_error = Some ''Unsupported vector database type.''\<rparr>, [])
   \<and> validateNewDatabaseConnector supportedConnectors scenario_backend scenario_clickhouse
       scenario_validators scenario_organization JUndefined []
     = (Inl ''TypeError: Cannot read properties of undefined'', [])"
proof -
  let ?VN = "validateNewDatabaseConnector supportedConnectors scenario_backend
    scenario_clickhouse scenario_validators"
  let ?cs = "JObj [(''instanceURL'', JStr ''http://chroma:8000'')]"
  let ?qs = "JObj [(''clusterUrl'', JStr ''http://qdrant:6333'')]"
  have inc: "js_includes supportedConnectors (JStr ''chroma'')"
    "js_includes supportedConnectors (JStr ''qdrant'')"
    "js_includes supportedConnectors (JStr ''milvus'')"
    "\<not> js_includes supportedConnectors (JStr ''redis'')"
    by (simp_all add: js_includes_def supportedConnectors_def)
  have so: "settings_obj scenario_organization = Inr [(''id'', JNum (Fin 1))]"
    "settings_obj JNull = Inl ''TypeError: Cannot read properties of null''"
    "settings_obj JUndefined = Inl ''TypeError: Cannot read properties of undefined''"
    "settings_obj chroma_config = Inr [(''type'', JStr ''chroma''), (''settings'', ?cs)]"
    "settings_obj qdrant_config = Inr [(''type'', JStr ''qdrant''), (''settings'', ?qs)]"
    "settings_obj milvus_config_without_settings
       = Inr [(''type'', JStr ''milvus''), (''settings'', JNull)]"
    "settings_obj redis_config = Inr [(''type'', JStr ''redis''), (''settings'', JObj [])]"
    by (simp_all add: settings_obj_def validator_fixtures)
  have gp: "get_prop [(''type'', t), (''settings'', x)] ''type'' = t"
    "get_prop [(''type'', t), (''settings'', x)] ''settings'' = x"
    "get_prop [(''id'', JNum (Fin 1))] ''id'' = JNum (Fin 1)" for t x
    by (simp_all add: get_prop_def)
  note a = validation_before_persistence [where mbe = scenario_backend
      and cbe = scenario_clickhouse and V = scenario_validators and h = "[]"
      and supported = supportedConnectors and organization = scenario_organization
      and config = chroma_config and cfg = "[(''type'', JStr ''chroma''), (''settings'', ?cs)]"
      and type = "JStr ''chroma''" and settings = ?cs
      and sc = "\<lparr>valid = False, status_message = Some ''fetch failed''\<rparr>"]
  note b = validation_before_persistence [where mbe = scenario_backend
      and cbe = scenario_clickhouse and V = scenario_validators and h = "[]"
      and supported = supportedConnectors and organization = scenario_organization
      and config = qdrant_config and cfg = "[(''type'', JStr ''qdrant''), (''settings'', ?qs)]"
      and type = "JStr ''qdrant''" and settings = ?qs
      and sc = "\<lparr>valid = True, status_message = None\<rparr>"
      and org = "[(''id'', JNum (Fin 1))]"]
  note c = validation_before_persistence [where mbe = scenario_backend
      and cbe = scenario_clickhouse and V = scenario_validators and h = "[]"
      and supported = supportedConnectors and organization = JNull
      and config = qdrant_config and cfg = "[(''type'', JStr ''qdrant''), (''settings'', ?qs)]"
      and type = "JStr ''qdrant''" and settings = ?qs
      and sc = "\<lparr>valid = True, status_message = None\<rparr>"
      and e = "''TypeError: Cannot read properties of null''"]
  note d = validation_before_persistence [where mbe = scenario_backend
      and cbe = scenario_clickhouse and V = scenario_validators and h = "[]"
      and supported = supportedConnectors and organization = scenario_organization
      and config = milvus_config_without_settings
      and cfg = "[(''type'', JStr ''milvus''), (''settings'', JNull)]"
      and type = "JStr ''milvus''" and settings = JNull
      and e = "''TypeError: Cannot read properties of null''"]
  note r = validation_before_persistence [where mbe = scenario_backend
      and cbe = scenario_clickhouse and V = scenario_validators and h = "[]"
      and supported = supportedConnectors and organization = scenario_organization
      and config = redis_config and cfg = "[(''type'', JStr ''redis''), (''settings'', JObj [])]"
      and type = "JStr ''redis''" and settings = "JObj []"]
  note u = validation_before_persistence [where mbe = scenario_backend
      and cbe = scenario_clickhouse and V = scenario_validators and h = "[]"
      and supported = supportedConnectors and organization = scenario_organization
      and config = JUndefined and e = "''TypeError: Cannot read properties of undefined''"]
  from a inc so have 1: "?VN scenario_organization chroma_config []
     = (Inr \<lparr>val_connector = JNull, val_error = Some ''fetch failed''\<rparr>,
        [Done (ChromaNewClient \<lparr>co_path = JStr ''http://chroma:8000'', co_headers = None\<rparr>),
         Failed (ChromaHeartbeat 0) ''fetch failed''])"
    by (simp add: gp chroma_offline_validation)
  from b inc so have "\<exists>ev. new_events [] (?VN scenario_organization qdrant_config)
       = [Done (QdrantNewClient (JStr ''http://qdrant:6333'') None),
          Done (QdrantClusterStatus 0)] @ [ev]
       \<and> request_of ev = OrganizationConnectionCreate (JNum (Fin 1)) (JStr ''qdrant'') ?qs"
    by (simp add: gp qdrant_ready_validation new_events_def)
  then have 2: "map request_of (new_events [] (?VN scenario_organization qdrant_config))
     = [QdrantNewClient (JStr ''http://qdrant:6333'') None, QdrantClusterStatus 0,
        OrganizationConnectionCreate (JNum (Fin 1)) (JStr ''qdrant'') ?qs]"
    by auto
  from c inc so have 3: "?VN JNull qdrant_config []
     = (Inl ''TypeError: Cannot read properties of null'',
        [Done (QdrantNewClient (JStr ''http://qdrant:6333'') None),
         Done (QdrantClusterStatus 0)])"
    by (simp add: gp qdrant_ready_validation)
  from d inc so have 4: "?VN scenario_organization milvus_config_without_settings []
     = (Inl ''TypeError: Cannot read properties of null'', [])"
    by (simp add: gp milvus_without_settings_validation)
  from r inc so have 5: "?VN scenario_organization redis_config []
     = (Inr \<lparr>val_connector = JNull,
             val_error = Some ''Unsupported vector database type.''\<rparr>, [])"
    by (simp add: gp)
  from u so have 6: "?VN scenario_organization JUndefined []
     = (Inl ''TypeError: Cannot read properties of undefined'', [])"
    by simp
  from 1 2 3 4 5 6 show ?thesis by (intro conjI)
qed

end
